theory Spec2Isabelle
  imports Main "HOL-Library.Word"
begin

unbundle bit_operations_syntax

section \<open>APU: the noise channel and the frame sequencer that clocks it\<close>

text \<open>
  \<^verbatim>\<open>struct APU::Noise\<close> of apu.hpp, field by field. The other channel structs
  (\<^verbatim>\<open>Pulse\<close>, \<^verbatim>\<open>Triangle\<close>, \<^verbatim>\<open>DMC\<close>) are separate members of \<^verbatim>\<open>APU\<close>; no
  statement of \<^verbatim>\<open>APU::clock\<close>, \<^verbatim>\<open>APU::cpu_write\<close> or \<^verbatim>\<open>APU::reset\<close> that touches
  them reads or writes the noise channel, so they are left out of the record.
\<close>

record Noise =
  noise_enabled :: bool
  noise_halt_length :: bool
  noise_constant_volume :: bool
  noise_volume :: "8 word"
  noise_mode :: bool
  noise_timer_period :: "16 word"
  noise_timer_counter :: "16 word"
  noise_length_counter :: "8 word"
  noise_envelope_counter :: "8 word"
  noise_envelope_volume :: "8 word"
  noise_envelope_start :: bool
  noise_shift_register :: "16 word"
  noise_output :: "8 word"

record APU =
  apu_noise :: Noise
  apu_frame_counter_mode :: bool
  apu_irq_inhibit :: bool
  apu_frame_counter :: "16 word"
  apu_frame_step :: "8 word"
  apu_cycles :: "64 word"

definition length_table :: "8 word list" where
  "length_table =
    [10, 254, 20,  2, 40,  4, 80,  6, 160,  8, 60, 10, 14, 12, 26, 14,
     12,  16, 24, 18, 48, 20, 96, 22, 192, 24, 72, 26, 16, 28, 32, 30]"

definition noise_period_table :: "16 word list" where
  "noise_period_table =
    [4, 8, 16, 32, 64, 96, 128, 160, 202, 254, 380, 508, 762, 1016, 2034, 4068]"

text \<open>\<^verbatim>\<open>APU::Noise::clock_timer\<close> (mapper.cpp 501-523).\<close>

definition Noise_clock_timer :: "Noise \<Rightarrow> Noise" where
  "Noise_clock_timer n =
    (let n1 =
       (if noise_timer_counter n = 0 then
          (let feedback0 = noise_shift_register n AND 1;
               feedback =
                 (if noise_mode n
                  then feedback0 XOR (drop_bit 6 (noise_shift_register n) AND 1)
                  else feedback0 XOR (drop_bit 1 (noise_shift_register n) AND 1));
               sr = drop_bit 1 (noise_shift_register n)
           in n\<lparr>noise_timer_counter := noise_timer_period n,
                 noise_shift_register := sr OR push_bit 14 feedback\<rparr>)
        else n\<lparr>noise_timer_counter := noise_timer_counter n - 1\<rparr>)
     in n1\<lparr>noise_output :=
          (if noise_enabled n1 \<and> noise_length_counter n1 > 0
               \<and> noise_shift_register n1 AND 1 = 0
           then (if noise_constant_volume n1 then noise_volume n1
                 else noise_envelope_volume n1)
           else 0)\<rparr>)"

text \<open>\<^verbatim>\<open>APU::Noise::clock_envelope\<close> (mapper.cpp 525-544).\<close>

definition Noise_clock_envelope :: "Noise \<Rightarrow> Noise" where
  "Noise_clock_envelope n =
    (if noise_envelope_start n then
       n\<lparr>noise_envelope_start := False, noise_envelope_volume := 15,
         noise_envelope_counter := noise_volume n\<rparr>
     else if noise_envelope_counter n = 0 then
       (let n1 = n\<lparr>noise_envelope_counter := noise_volume n\<rparr>
        in if noise_envelope_volume n1 = 0 then
             (if noise_halt_length n1 then n1\<lparr>noise_envelope_volume := 15\<rparr> else n1)
           else n1\<lparr>noise_envelope_volume := noise_envelope_volume n1 - 1\<rparr>)
     else n\<lparr>noise_envelope_counter := noise_envelope_counter n - 1\<rparr>)"

text \<open>\<^verbatim>\<open>APU::Noise::clock_length\<close> (mapper.cpp 546-550).\<close>

definition Noise_clock_length :: "Noise \<Rightarrow> Noise" where
  "Noise_clock_length n =
    (if \<not> noise_halt_length n \<and> noise_length_counter n > 0
     then n\<lparr>noise_length_counter := noise_length_counter n - 1\<rparr> else n)"

text \<open>\<^verbatim>\<open>APU::clock_quarter_frame\<close> and \<^verbatim>\<open>APU::clock_half_frame\<close>, the noise calls.\<close>

definition clock_quarter_frame :: "APU \<Rightarrow> APU" where
  "clock_quarter_frame a = a\<lparr>apu_noise := Noise_clock_envelope (apu_noise a)\<rparr>"

definition clock_half_frame :: "APU \<Rightarrow> APU" where
  "clock_half_frame a = a\<lparr>apu_noise := Noise_clock_length (apu_noise a)\<rparr>"

text \<open>
  \<^verbatim>\<open>APU::reset\<close> (mapper.cpp 41-68): \<^verbatim>\<open>noise = {}\<close> zeroes the struct, then the
  shift register is seeded with 1. The constructor sets \<^verbatim>\<open>cycles\<close> to 0 and calls it.
\<close>

definition APU_reset :: APU where
  "APU_reset =
    \<lparr>apu_noise =
       \<lparr>noise_enabled = False, noise_halt_length = False,
        noise_constant_volume = False, noise_volume = 0, noise_mode = False,
        noise_timer_period = 0, noise_timer_counter = 0, noise_length_counter = 0,
        noise_envelope_counter = 0, noise_envelope_volume = 0,
        noise_envelope_start = False, noise_shift_register = 1, noise_output = 0\<rparr>,
     apu_frame_counter_mode = False, apu_irq_inhibit = False,
     apu_frame_counter = 0, apu_frame_step = 0, apu_cycles = 0\<rparr>"

text \<open>\<^verbatim>\<open>APU::clock\<close> (mapper.cpp 70-142): frame sequencer, then the channel timers.\<close>

definition APU_clock :: "APU \<Rightarrow> APU" where
  "APU_clock a =
    (let c = apu_cycles a;
         last_step = (if apu_frame_counter_mode a
                      then c = 18640 \<or> c = 18641 else c = 14914 \<or> c = 14915);
         quarter_frame = (c = 3728 \<or> c = 3729 \<or> c = 7456 \<or> c = 7457
                          \<or> c = 11185 \<or> c = 11186 \<or> last_step);
         half_frame = (c = 7456 \<or> c = 7457 \<or> last_step);
         a1 = (if last_step then a\<lparr>apu_cycles := 0\<rparr> else a);
         a2 = (if quarter_frame then clock_quarter_frame a1 else a1);
         a3 = (if half_frame then clock_half_frame a2 else a2);
         a4 = a3\<lparr>apu_noise := Noise_clock_timer (apu_noise a3)\<rparr>
     in a4\<lparr>apu_cycles := apu_cycles a4 + 1\<rparr>)"

text \<open>
  \<^verbatim>\<open>APU::cpu_write\<close> (mapper.cpp 176-301): the cases that write the noise channel or
  the frame counter; every other case writes another channel only.
\<close>

definition APU_cpu_write :: "APU \<Rightarrow> 16 word \<Rightarrow> 8 word \<Rightarrow> APU" where
  "APU_cpu_write a addr data =
    (let n = apu_noise a in
     if addr = 0x400C then
       a\<lparr>apu_noise := n\<lparr>noise_halt_length := (drop_bit 5 data AND 1 \<noteq> 0),
                          noise_constant_volume := (drop_bit 4 data AND 1 \<noteq> 0),
                          noise_volume := data AND 0x0F\<rparr>\<rparr>
     else if addr = 0x400E then
       a\<lparr>apu_noise := n\<lparr>noise_mode := (drop_bit 7 data AND 1 \<noteq> 0),
                          noise_timer_period := noise_period_table ! unat (data AND 0x0F)\<rparr>\<rparr>
     else if addr = 0x400F then
       a\<lparr>apu_noise := n\<lparr>noise_length_counter := length_table ! unat (drop_bit 3 data AND 0x1F),
                          noise_envelope_start := True\<rparr>\<rparr>
     else if addr = 0x4015 then
       (let en = (data AND 0x08 \<noteq> 0);
            n1 = n\<lparr>noise_enabled := en\<rparr>
        in a\<lparr>apu_noise := (if \<not> en then n1\<lparr>noise_length_counter := 0\<rparr> else n1)\<rparr>)
     else if addr = 0x4017 then
       (let a1 = a\<lparr>apu_frame_counter_mode := (drop_bit 7 data AND 1 \<noteq> 0),
                    apu_irq_inhibit := (drop_bit 6 data AND 1 \<noteq> 0)\<rparr>
        in if apu_frame_counter_mode a1
           then clock_half_frame (clock_quarter_frame a1) else a1)
     else a)"

text \<open>The APU states the emulator can be in: reset, then any clocks and register writes.\<close>

inductive APU_reachable :: "APU \<Rightarrow> bool" where
  reach_reset: "APU_reachable APU_reset"
| reach_clock: "APU_reachable a \<Longrightarrow> APU_reachable (APU_clock a)"
| reach_write: "APU_reachable a \<Longrightarrow> APU_reachable (APU_cpu_write a addr data)"


section \<open>Mappers and the cartridge\<close>

type_synonym u8 = "8 word"
type_synonym u16 = "16 word"

text \<open>\<^verbatim>\<open>Mapper::Mirror\<close> and \<^verbatim>\<open>Cartridge::Mirror\<close> (the same five values).\<close>

datatype Mirror = HORIZONTAL | VERTICAL | ONESCREEN_LO | ONESCREEN_HI | FOUR_SCREEN

subsection \<open>Mapper 004 (MMC3)\<close>

text \<open>
  \<^verbatim>\<open>class Mapper004\<close> with the three protected members of its base class \<^verbatim>\<open>Mapper\<close>.
  The fixed-size arrays are functions from the index; the code only indexes them with
  values it has masked or divided into range.
\<close>

record Mapper004 =
  m4_prg_banks :: u8
  m4_chr_banks :: u8
  m4_mirror :: Mirror
  m4_target_register :: u8
  m4_prg_bank_mode :: bool
  m4_chr_inversion :: bool
  m4_registers :: "nat \<Rightarrow> u8"
  m4_chr_bank :: "nat \<Rightarrow> u8"
  m4_prg_bank :: "nat \<Rightarrow> u8"
  m4_prg_ram :: "nat \<Rightarrow> u8"
  m4_irq_counter :: u8
  m4_irq_latch :: u8
  m4_irq_enable :: bool
  m4_irq_active :: bool
  m4_irq_reload :: bool

text \<open>
  \<^verbatim>\<open>Mapper004::update_banks\<close> (part_001 34-108). \<^verbatim>\<open>prg_banks * 2 - 2\<close> is computed in
  \<^verbatim>\<open>int\<close> and stored into a \<^verbatim>\<open>uint8_t\<close>: the 8-bit word arithmetic is that truncation.
\<close>

definition Mapper004_update_banks :: "Mapper004 \<Rightarrow> Mapper004" where
  "Mapper004_update_banks m =
    (let r = m4_registers m;
         chr =
           (if \<not> m4_chr_inversion m then
              (m4_chr_bank m)
                (0 := r 0 AND 0xFE, 1 := r 0 OR 0x01, 2 := r 1 AND 0xFE, 3 := r 1 OR 0x01,
                 4 := r 2, 5 := r 3, 6 := r 4, 7 := r 5)
            else
              (m4_chr_bank m)
                (0 := r 2, 1 := r 3, 2 := r 4, 3 := r 5,
                 4 := r 0 AND 0xFE, 5 := r 0 OR 0x01, 6 := r 1 AND 0xFE, 7 := r 1 OR 0x01));
         prg =
           (if \<not> m4_prg_bank_mode m then
              (m4_prg_bank m)
                (0 := r 6, 1 := r 7,
                 2 := m4_prg_banks m * 2 - 2, 3 := m4_prg_banks m * 2 - 1)
            else
              (m4_prg_bank m)
                (0 := m4_prg_banks m * 2 - 2, 1 := r 7,
                 2 := r 6, 3 := m4_prg_banks m * 2 - 1))
     in m\<lparr>m4_chr_bank := chr, m4_prg_bank := prg\<rparr>)"

text \<open>\<^verbatim>\<open>Mapper004::reset\<close> (part_001 9-32); the constructor calls it.\<close>

definition Mapper004_reset :: "Mapper004 \<Rightarrow> Mapper004" where
  "Mapper004_reset m =
    Mapper004_update_banks
      (m\<lparr>m4_target_register := 0, m4_prg_bank_mode := False, m4_chr_inversion := False,
         m4_registers := (\<lambda>i. if i < 8 then 0 else m4_registers m i),
         m4_chr_bank := (\<lambda>i. if i < 8 then 0 else m4_chr_bank m i),
         m4_prg_bank := (\<lambda>i. if i < 4 then 0 else m4_prg_bank m i),
         m4_irq_counter := 0, m4_irq_latch := 0, m4_irq_enable := False,
         m4_irq_active := False, m4_irq_reload := False,
         m4_mirror := HORIZONTAL\<rparr>)"

definition Mapper004_new :: "u8 \<Rightarrow> u8 \<Rightarrow> Mapper004" where
  "Mapper004_new prg_banks chr_banks =
    Mapper004_reset
      \<lparr>m4_prg_banks = prg_banks, m4_chr_banks = chr_banks, m4_mirror = HORIZONTAL,
       m4_target_register = 0, m4_prg_bank_mode = False, m4_chr_inversion = False,
       m4_registers = (\<lambda>_. 0), m4_chr_bank = (\<lambda>_. 0), m4_prg_bank = (\<lambda>_. 0),
       m4_prg_ram = (\<lambda>_. 0),
       m4_irq_counter = 0, m4_irq_latch = 0, m4_irq_enable = False,
       m4_irq_active = False, m4_irq_reload = False\<rparr>"

text \<open>
  The PRG ROM offset that \<^verbatim>\<open>Mapper004::cpu_read\<close> forms for an address in
  \<^verbatim>\<open>$8000-$FFFF\<close> (part_001 117-124): \<^verbatim>\<open>bank_idx\<close>, \<^verbatim>\<open>bank % total_8kb_banks\<close>,
  \<^verbatim>\<open>mapped_addr\<close>. The arithmetic is in \<^verbatim>\<open>int\<close>/\<^verbatim>\<open>uint32_t\<close> and cannot overflow, so it is
  written on \<^typ>\<open>nat\<close>.
\<close>

definition Mapper004_bank_idx :: "u16 \<Rightarrow> nat" where
  "Mapper004_bank_idx addr = (unat addr - 0x8000) div 0x2000"

definition Mapper004_total_8kb_banks :: "Mapper004 \<Rightarrow> nat" where
  "Mapper004_total_8kb_banks m = unat (m4_prg_banks m) * 2"

definition Mapper004_mapped_addr :: "Mapper004 \<Rightarrow> u16 \<Rightarrow> nat" where
  "Mapper004_mapped_addr m addr =
    (unat (m4_prg_bank m (Mapper004_bank_idx addr)) mod Mapper004_total_8kb_banks m) * 0x2000
      + unat (addr AND 0x1FFF)"

text \<open>
  \<^verbatim>\<open>Mapper004::cpu_read\<close> (part_001 110-131). The argument \<open>data\<close> is the value the
  reference parameter holds on entry; the result is the returned flag and the value it
  holds on exit. \<open>None\<close> is undefined behaviour of the C++: the remainder by zero when
  \<^verbatim>\<open>prg_banks\<close> is 0, or a read past the end of the PRG ROM.
\<close>

definition Mapper004_cpu_read :: "Mapper004 \<Rightarrow> u16 \<Rightarrow> u8 \<Rightarrow> u8 list \<Rightarrow> (bool \<times> u8) option" where
  "Mapper004_cpu_read m addr data prg_rom =
    (if 0x6000 \<le> addr \<and> addr \<le> 0x7FFF then
       Some (True, m4_prg_ram m (unat (addr AND 0x1FFF)))
     else if 0x8000 \<le> addr \<and> addr \<le> 0xFFFF then
       (if Mapper004_total_8kb_banks m = 0 then None
        else if Mapper004_mapped_addr m addr < length prg_rom
        then Some (True, prg_rom ! Mapper004_mapped_addr m addr)
        else None)
     else Some (False, data))"

text \<open>\<^verbatim>\<open>Mapper004::cpu_write\<close> (part_001 133-180).\<close>

definition Mapper004_cpu_write :: "Mapper004 \<Rightarrow> u16 \<Rightarrow> u8 \<Rightarrow> bool \<times> Mapper004" where
  "Mapper004_cpu_write m addr data =
    (if 0x6000 \<le> addr \<and> addr \<le> 0x7FFF then
       (True, m\<lparr>m4_prg_ram := (m4_prg_ram m)(unat (addr AND 0x1FFF) := data)\<rparr>)
     else if 0x8000 \<le> addr \<and> addr \<le> 0x9FFF then
       (if addr AND 0x0001 \<noteq> 0 then
          (True, Mapper004_update_banks
             (m\<lparr>m4_registers := (m4_registers m)(unat (m4_target_register m) := data)\<rparr>))
        else
          (True, Mapper004_update_banks
             (m\<lparr>m4_target_register := data AND 0x07,
                m4_prg_bank_mode := (data AND 0x40 \<noteq> 0),
                m4_chr_inversion := (data AND 0x80 \<noteq> 0)\<rparr>)))
     else if 0xA000 \<le> addr \<and> addr \<le> 0xBFFF then
       (if addr AND 0x0001 \<noteq> 0 then (True, m)
        else (True, m\<lparr>m4_mirror := (if data AND 0x01 \<noteq> 0 then HORIZONTAL else VERTICAL)\<rparr>))
     else if 0xC000 \<le> addr \<and> addr \<le> 0xDFFF then
       (if addr AND 0x0001 \<noteq> 0 then (True, m\<lparr>m4_irq_reload := True\<rparr>)
        else (True, m\<lparr>m4_irq_latch := data\<rparr>))
     else if 0xE000 \<le> addr \<and> addr \<le> 0xFFFF then
       (if addr AND 0x0001 \<noteq> 0 then (True, m\<lparr>m4_irq_enable := True\<rparr>)
        else (True, m\<lparr>m4_irq_enable := False, m4_irq_active := False\<rparr>))
     else (False, m))"

text \<open>\<^verbatim>\<open>Mapper004::irq_state\<close>, \<^verbatim>\<open>irq_clear\<close> and \<^verbatim>\<open>scanline\<close> (part_001 216-266).\<close>

definition Mapper004_irq_state :: "Mapper004 \<Rightarrow> bool" where
  "Mapper004_irq_state m = m4_irq_active m"

definition Mapper004_irq_clear :: "Mapper004 \<Rightarrow> Mapper004" where
  "Mapper004_irq_clear m = m\<lparr>m4_irq_active := False\<rparr>"

definition Mapper004_scanline :: "Mapper004 \<Rightarrow> Mapper004" where
  "Mapper004_scanline m =
    (let m1 =
       (if m4_irq_reload m \<or> m4_irq_counter m = 0
        then m\<lparr>m4_irq_counter := m4_irq_latch m, m4_irq_reload := False\<rparr>
        else m\<lparr>m4_irq_counter := m4_irq_counter m - 1\<rparr>)
     in if m4_irq_counter m1 = 0 \<and> m4_irq_enable m1
        then m1\<lparr>m4_irq_active := True\<rparr> else m1)"

text \<open>\<open>n\<close> successive scanline pulses.\<close>

fun scanlines :: "nat \<Rightarrow> Mapper004 \<Rightarrow> Mapper004" where
  "scanlines 0 m = m"
| "scanlines (Suc n) m = scanlines n (Mapper004_scanline m)"


text \<open>
  \<^verbatim>\<open>Mapper004::ppu_read\<close> and \<^verbatim>\<open>ppu_write\<close> (part_001 182-214); \<open>None\<close> is an access
  past the end of the CHR store.
\<close>

definition Mapper004_chr_addr :: "Mapper004 \<Rightarrow> u16 \<Rightarrow> bool \<Rightarrow> nat" where
  "Mapper004_chr_addr m addr wrap =
    (let bank = unat (m4_chr_bank m (unat addr div 0x0400));
         bank' = (if wrap \<and> m4_chr_banks m > 0
                  then bank mod (unat (m4_chr_banks m) * 8) else bank)
     in bank' * 0x0400 + unat addr mod 0x0400)"

definition Mapper004_ppu_read :: "Mapper004 \<Rightarrow> u16 \<Rightarrow> u8 \<Rightarrow> u8 list \<Rightarrow> (bool \<times> u8) option" where
  "Mapper004_ppu_read m addr data chr_rom =
    (if addr \<le> 0x1FFF then
       (if Mapper004_chr_addr m addr True < length chr_rom
        then Some (True, chr_rom ! Mapper004_chr_addr m addr True) else None)
     else Some (False, data))"

definition Mapper004_ppu_write :: "Mapper004 \<Rightarrow> u16 \<Rightarrow> u8 \<Rightarrow> u8 list \<Rightarrow> (bool \<times> u8 list) option" where
  "Mapper004_ppu_write m addr data chr_rom =
    (if addr \<le> 0x1FFF \<and> m4_chr_banks m = 0 then
       (if Mapper004_chr_addr m addr False < length chr_rom
        then Some (True, chr_rom[Mapper004_chr_addr m addr False := data]) else None)
     else Some (False, chr_rom))"

subsection \<open>The mapper interface\<close>

text \<open>
  \<^verbatim>\<open>class Mapper\<close> (mapper.hpp) is an abstract base class; the cartridge calls its
  virtual functions. A mapper is a state of some type \<open>'m\<close> with the table of these
  functions. \<^verbatim>\<open>cpu_read\<close> and \<^verbatim>\<open>cpu_write\<close> are given the PRG ROM but no mapper of the
  repository writes through the pointer, and none writes a member in \<^verbatim>\<open>cpu_read\<close>;
  \<^verbatim>\<open>ppu_read\<close> may (the MMC2/MMC4 latches) and \<^verbatim>\<open>ppu_write\<close> writes CHR RAM.
  The \<open>u8\<close> argument of the reads is the value of the reference parameter on entry.
\<close>

record 'm mapper_ops =
  mp_cpu_read :: "'m \<Rightarrow> u16 \<Rightarrow> u8 \<Rightarrow> u8 list \<Rightarrow> bool \<times> u8"
  mp_cpu_write :: "'m \<Rightarrow> u16 \<Rightarrow> u8 \<Rightarrow> bool \<times> 'm"
  mp_ppu_read :: "'m \<Rightarrow> u16 \<Rightarrow> u8 \<Rightarrow> u8 list \<Rightarrow> bool \<times> u8 \<times> 'm"
  mp_ppu_write :: "'m \<Rightarrow> u16 \<Rightarrow> u8 \<Rightarrow> u8 list \<Rightarrow> bool \<times> 'm \<times> u8 list"
  mp_irq_state :: "'m \<Rightarrow> bool"
  mp_irq_clear :: "'m \<Rightarrow> 'm"
  mp_scanline :: "'m \<Rightarrow> 'm"
  mp_get_mirror :: "'m \<Rightarrow> Mirror"

text \<open>
  The table of \<^verbatim>\<open>Mapper004\<close>. The machine model below has no failure value: an access
  that is undefined behaviour in the C++ leaves the data as it was.
\<close>

definition Mapper004_ops :: "Mapper004 mapper_ops" where
  "Mapper004_ops =
    \<lparr>mp_cpu_read = (\<lambda>m addr data rom.
       case Mapper004_cpu_read m addr data rom of Some r \<Rightarrow> r | None \<Rightarrow> (True, data)),
     mp_cpu_write = Mapper004_cpu_write,
     mp_ppu_read = (\<lambda>m addr data rom.
       case Mapper004_ppu_read m addr data rom of
         Some (h, d) \<Rightarrow> (h, d, m) | None \<Rightarrow> (True, data, m)),
     mp_ppu_write = (\<lambda>m addr data rom.
       case Mapper004_ppu_write m addr data rom of
         Some (h, rom') \<Rightarrow> (h, m, rom') | None \<Rightarrow> (True, m, rom)),
     mp_irq_state = Mapper004_irq_state,
     mp_irq_clear = Mapper004_irq_clear,
     mp_scanline = Mapper004_scanline,
     mp_get_mirror = m4_mirror\<rparr>"

subsection \<open>Cartridge\<close>

record 'm Cartridge =
  cart_valid :: bool
  cart_prg_rom :: "u8 list"
  cart_chr_rom :: "u8 list"
  cart_prg_ram :: "u8 list"
  cart_mapper_id :: u8
  cart_prg_banks :: u8
  cart_chr_banks :: u8
  cart_mirror_mode :: Mirror
  cart_battery_backed :: bool
  cart_mapper :: "'m option"

text \<open>\<^verbatim>\<open>std::vector::resize(n, v)\<close>: keep the first \<open>n\<close> elements, pad with \<open>v\<close>.\<close>

definition resize :: "nat \<Rightarrow> 'a \<Rightarrow> 'a list \<Rightarrow> 'a list" where
  "resize n v xs = take n xs @ replicate (n - length xs) v"

text \<open>\<^verbatim>\<open>memcpy(dst.data(), &src[offset], n)\<close> into a vector of at least \<open>n\<close> bytes.\<close>

definition memcpy_from :: "u8 list \<Rightarrow> u8 list \<Rightarrow> nat \<Rightarrow> nat \<Rightarrow> u8 list" where
  "memcpy_from dst src offset n = take n (drop offset src) @ drop n dst"

text \<open>
  \<^verbatim>\<open>Cartridge::load_ines\<close> (part_005 126-202). The constructor calls it only on a file
  of at least 16 bytes; on a shorter one the header reads are out of range (\<open>None\<close>).
  The result is the returned flag and the cartridge with the members written so far.
  Sizes are \<^verbatim>\<open>size_t\<close> and far from overflow, so they are \<^typ>\<open>nat\<close>.
\<close>

definition load_ines :: "u8 list \<Rightarrow> bool \<Rightarrow> 'm Cartridge \<Rightarrow> (bool \<times> 'm Cartridge) option" where
  "load_ines data dirty_header c =
    (if length data < 16 then None
     else
       (let prg_banks = data ! 4;
            chr_banks = data ! 5;
            mapper1 = drop_bit 4 (data ! 6);
            mapper2 = (if dirty_header then 0 else drop_bit 4 (data ! 7));
            c1 = c\<lparr>cart_prg_banks := prg_banks, cart_chr_banks := chr_banks,
                   cart_mapper_id := mapper1 OR push_bit 4 mapper2,
                   cart_mirror_mode :=
                     (if data ! 6 AND 0x08 \<noteq> 0 then FOUR_SCREEN
                      else if data ! 6 AND 0x01 \<noteq> 0 then VERTICAL else HORIZONTAL),
                   cart_battery_backed := (data ! 6 AND 0x02 \<noteq> 0)\<rparr>;
            offset = 16 + (if data ! 6 AND 0x04 \<noteq> 0 then 512 else 0);
            prg_size = unat prg_banks * 16384
        in if offset + prg_size > length data then Some (False, c1)
           else
             (let c2 = c1\<lparr>cart_prg_rom :=
                          memcpy_from (resize prg_size 0 (cart_prg_rom c1)) data offset prg_size\<rparr>;
                  offset2 = offset + prg_size;
                  c3 =
                    (if chr_banks = 0 then c2\<lparr>cart_chr_rom := resize 8192 0 (cart_chr_rom c2)\<rparr>
                     else
                       (let chr_size0 = unat chr_banks * 8192;
                            chr_size = (if offset2 + chr_size0 > length data
                                        then length data - offset2 else chr_size0);
                            chr = resize chr_size 0 (cart_chr_rom c2)
                        in c2\<lparr>cart_chr_rom :=
                              (if chr_size > 0 then memcpy_from chr data offset2 chr_size
                               else chr)\<rparr>))
              in Some (True, c3\<lparr>cart_prg_ram := resize 8192 0 (cart_prg_ram c3)\<rparr>))))"

text \<open>
  The cartridge as the constructor leaves it before \<^verbatim>\<open>load_ines\<close> runs: the vectors
  empty, no mapper. The scalar members are not initialised there; they are given here
  the values \<^verbatim>\<open>load_ines\<close> overwrites.
\<close>

definition Cartridge_empty :: "'m Cartridge" where
  "Cartridge_empty =
    \<lparr>cart_valid = False, cart_prg_rom = [], cart_chr_rom = [], cart_prg_ram = [],
     cart_mapper_id = 0, cart_prg_banks = 0, cart_chr_banks = 0,
     cart_mirror_mode = HORIZONTAL, cart_battery_backed = False, cart_mapper = None\<rparr>"

text \<open>The forwarding members of \<^verbatim>\<open>Cartridge\<close> (part_005 341-400).\<close>

definition Cartridge_cpu_read :: "'m mapper_ops \<Rightarrow> 'm Cartridge \<Rightarrow> u16 \<Rightarrow> u8 \<Rightarrow> bool \<times> u8" where
  "Cartridge_cpu_read ops c addr data =
    (case cart_mapper c of
       Some m \<Rightarrow> (if cart_prg_rom c \<noteq> [] then mp_cpu_read ops m addr data (cart_prg_rom c)
                  else (False, data))
     | None \<Rightarrow> (False, data))"

definition Cartridge_cpu_write :: "'m mapper_ops \<Rightarrow> 'm Cartridge \<Rightarrow> u16 \<Rightarrow> u8 \<Rightarrow> bool \<times> 'm Cartridge" where
  "Cartridge_cpu_write ops c addr data =
    (case cart_mapper c of
       Some m \<Rightarrow> (if cart_prg_rom c \<noteq> []
                  then (let (h, m') = mp_cpu_write ops m addr data
                        in (h, c\<lparr>cart_mapper := Some m'\<rparr>))
                  else (False, c))
     | None \<Rightarrow> (False, c))"

definition Cartridge_ppu_read :: "'m mapper_ops \<Rightarrow> 'm Cartridge \<Rightarrow> u16 \<Rightarrow> u8 \<Rightarrow> bool \<times> u8 \<times> 'm Cartridge" where
  "Cartridge_ppu_read ops c addr data =
    (case cart_mapper c of
       Some m \<Rightarrow> (if cart_chr_rom c \<noteq> []
                  then (let (h, d, m') = mp_ppu_read ops m addr data (cart_chr_rom c)
                        in (h, d, c\<lparr>cart_mapper := Some m'\<rparr>))
                  else (False, data, c))
     | None \<Rightarrow> (False, data, c))"

definition Cartridge_ppu_write :: "'m mapper_ops \<Rightarrow> 'm Cartridge \<Rightarrow> u16 \<Rightarrow> u8 \<Rightarrow> bool \<times> 'm Cartridge" where
  "Cartridge_ppu_write ops c addr data =
    (case cart_mapper c of
       Some m \<Rightarrow> (if cart_chr_rom c \<noteq> []
                  then (let (h, m', chr') = mp_ppu_write ops m addr data (cart_chr_rom c)
                        in (h, c\<lparr>cart_mapper := Some m', cart_chr_rom := chr'\<rparr>))
                  else (False, c))
     | None \<Rightarrow> (False, c))"

definition Cartridge_irq_state :: "'m mapper_ops \<Rightarrow> 'm Cartridge \<Rightarrow> bool" where
  "Cartridge_irq_state ops c =
    (case cart_mapper c of Some m \<Rightarrow> mp_irq_state ops m | None \<Rightarrow> False)"

definition Cartridge_irq_clear :: "'m mapper_ops \<Rightarrow> 'm Cartridge \<Rightarrow> 'm Cartridge" where
  "Cartridge_irq_clear ops c =
    (case cart_mapper c of
       Some m \<Rightarrow> c\<lparr>cart_mapper := Some (mp_irq_clear ops m)\<rparr> | None \<Rightarrow> c)"

definition Cartridge_scanline :: "'m mapper_ops \<Rightarrow> 'm Cartridge \<Rightarrow> 'm Cartridge" where
  "Cartridge_scanline ops c =
    (case cart_mapper c of
       Some m \<Rightarrow> c\<lparr>cart_mapper := Some (mp_scanline ops m)\<rparr> | None \<Rightarrow> c)"

definition Cartridge_get_mirror :: "'m mapper_ops \<Rightarrow> 'm Cartridge \<Rightarrow> Mirror" where
  "Cartridge_get_mirror ops c =
    (case cart_mapper c of Some m \<Rightarrow> mp_get_mirror ops m | None \<Rightarrow> cart_mirror_mode c)"


section \<open>PPU: the register file seen by the CPU\<close>

text \<open>
  The members of \<^verbatim>\<open>class PPU\<close> (bus.hpp) that the CPU-visible functions
  \<^verbatim>\<open>cpu_read\<close>, \<^verbatim>\<open>cpu_write\<close>, \<^verbatim>\<open>ppu_read\<close> and \<^verbatim>\<open>ppu_write\<close> use. The registers that
  are unions of a byte and bit fields are the byte; a bit field is read and written by
  mask and shift (fields are allocated from bit 0 upwards). \<^verbatim>\<open>oam\<close> is the byte view
  \<^verbatim>\<open>(uint8_t*)oam.data()\<close> of the 64 four-byte entries. The members only
  \<^verbatim>\<open>PPU::clock\<close> and \<^verbatim>\<open>render_pixel\<close> use (scanline and cycle counters, frame counter,
  background latches and shifters, secondary OAM, the screen) are \<open>ppu_pipeline\<close>.
\<close>

record 'r PPU =
  ppu_nmi :: bool
  ppu_control :: u8
  ppu_mask :: u8
  ppu_status :: u8
  ppu_oam_addr :: u8
  ppu_data_buffer :: u8
  ppu_vram_addr :: u16
  ppu_tram_addr :: u16
  ppu_fine_x :: u8
  ppu_address_latch :: bool
  ppu_oam :: "u8 \<Rightarrow> u8"
  ppu_nametable :: "u16 \<Rightarrow> u8"
  ppu_palette :: "u16 \<Rightarrow> u8"
  ppu_pipeline :: 'r

text \<open>\<^verbatim>\<open>PPU::reset\<close> (part_000 34-72); \<open>r\<close> is the reset value of the pipeline members.\<close>

definition PPU_reset :: "'r \<Rightarrow> 'r PPU \<Rightarrow> 'r PPU" where
  "PPU_reset r p =
    p\<lparr>ppu_control := 0, ppu_mask := 0, ppu_status := 0, ppu_oam_addr := 0,
      ppu_data_buffer := 0, ppu_vram_addr := 0, ppu_tram_addr := 0, ppu_fine_x := 0,
      ppu_address_latch := False,
      ppu_nametable := (\<lambda>_. 0), ppu_palette := (\<lambda>_. 0), ppu_oam := (\<lambda>_. 0xFF),
      ppu_pipeline := r\<rparr>"

text \<open>The nametable mirroring of \<^verbatim>\<open>ppu_read\<close>/\<^verbatim>\<open>ppu_write\<close> (part_000 739-757).\<close>

definition mirror_nametable :: "Mirror \<Rightarrow> u16 \<Rightarrow> u16" where
  "mirror_nametable mirror addr =
    (case mirror of
       VERTICAL \<Rightarrow> addr AND 0x07FF
     | HORIZONTAL \<Rightarrow> (if addr < 0x0800 then addr AND 0x03FF else 0x0400 + (addr AND 0x03FF))
     | ONESCREEN_LO \<Rightarrow> addr AND 0x03FF
     | ONESCREEN_HI \<Rightarrow> 0x0400 + (addr AND 0x03FF)
     | FOUR_SCREEN \<Rightarrow> addr AND 0x07FF)"

definition mirror_palette :: "u16 \<Rightarrow> u16" where
  "mirror_palette addr =
    (let a = addr AND 0x001F
     in if a = 0x0010 then 0x0000 else if a = 0x0014 then 0x0004
        else if a = 0x0018 then 0x0008 else if a = 0x001C then 0x000C else a)"

definition PPU_get_mirror :: "'m mapper_ops \<Rightarrow> 'm Cartridge option \<Rightarrow> Mirror" where
  "PPU_get_mirror ops cart =
    (case cart of Some c \<Rightarrow> Cartridge_get_mirror ops c | None \<Rightarrow> HORIZONTAL)"

text \<open>
  \<^verbatim>\<open>PPU::ppu_read\<close> (part_000 721-770) and \<^verbatim>\<open>PPU::ppu_write\<close> (772-815). The PPU's
  cartridge pointer is the bus's; the cartridge is passed through.
\<close>

definition PPU_ppu_read ::
    "'m mapper_ops \<Rightarrow> 'r PPU \<Rightarrow> 'm Cartridge option \<Rightarrow> u16 \<Rightarrow> u8 \<times> 'm Cartridge option" where
  "PPU_ppu_read ops p cart addr0 =
    (let addr = addr0 AND 0x3FFF
     in if addr \<le> 0x1FFF then
          (case cart of
             Some c \<Rightarrow> (let (h, d, c') = Cartridge_ppu_read ops c addr 0 in (d, Some c'))
           | None \<Rightarrow> (0, None))
        else if addr \<le> 0x3EFF then
          (ppu_nametable p (mirror_nametable (PPU_get_mirror ops cart) (addr AND 0x0FFF)), cart)
        else
          (ppu_palette p (mirror_palette addr)
             AND (if ppu_mask p AND 0x01 \<noteq> 0 then 0x30 else 0x3F), cart))"

definition PPU_ppu_write ::
    "'m mapper_ops \<Rightarrow> 'r PPU \<Rightarrow> 'm Cartridge option \<Rightarrow> u16 \<Rightarrow> u8 \<Rightarrow> 'r PPU \<times> 'm Cartridge option" where
  "PPU_ppu_write ops p cart addr0 data =
    (let addr = addr0 AND 0x3FFF
     in if addr \<le> 0x1FFF then
          (case cart of
             Some c \<Rightarrow> (p, Some (snd (Cartridge_ppu_write ops c addr data)))
           | None \<Rightarrow> (p, None))
        else if addr \<le> 0x3EFF then
          (p\<lparr>ppu_nametable := (ppu_nametable p)
                (mirror_nametable (PPU_get_mirror ops cart) (addr AND 0x0FFF) := data)\<rparr>, cart)
        else
          (p\<lparr>ppu_palette := (ppu_palette p)(mirror_palette addr := data)\<rparr>, cart))"

text \<open>The VRAM address increment after a \<^verbatim>\<open>$2007\<close> access (\<^verbatim>\<open>control.increment\<close>, bit 2).\<close>

definition vram_increment :: "'r PPU \<Rightarrow> u16" where
  "vram_increment p = (if ppu_control p AND 0x04 \<noteq> 0 then 32 else 1)"

text \<open>\<^verbatim>\<open>PPU::cpu_read\<close> (part_000 618-670).\<close>

definition PPU_cpu_read ::
    "'m mapper_ops \<Rightarrow> 'r PPU \<Rightarrow> 'm Cartridge option \<Rightarrow> u16 \<Rightarrow> u8 \<times> 'r PPU \<times> 'm Cartridge option" where
  "PPU_cpu_read ops p cart addr0 =
    (let addr = addr0 AND 0x0007
     in if addr = 0x0002 then
          ((ppu_status p AND 0xE0) OR (ppu_data_buffer p AND 0x1F),
           p\<lparr>ppu_status := ppu_status p AND 0x7F, ppu_address_latch := False\<rparr>, cart)
        else if addr = 0x0004 then
          (ppu_oam p (ppu_oam_addr p), p, cart)
        else if addr = 0x0007 then
          (let (buf, cart') = PPU_ppu_read ops p cart (ppu_vram_addr p);
               data = (if ppu_vram_addr p \<ge> 0x3F00 then buf else ppu_data_buffer p)
           in (data,
               p\<lparr>ppu_data_buffer := buf,
                 ppu_vram_addr := ppu_vram_addr p + vram_increment p\<rparr>, cart'))
        else (0, p, cart))"

text \<open>\<^verbatim>\<open>PPU::cpu_write\<close> (part_000 672-719).\<close>

definition PPU_cpu_write ::
    "'m mapper_ops \<Rightarrow> 'r PPU \<Rightarrow> 'm Cartridge option \<Rightarrow> u16 \<Rightarrow> u8 \<Rightarrow> 'r PPU \<times> 'm Cartridge option" where
  "PPU_cpu_write ops p cart addr0 data =
    (let addr = addr0 AND 0x0007
     in if addr = 0x0000 then
          (p\<lparr>ppu_control := data,
             ppu_tram_addr := (ppu_tram_addr p AND 0xF3FF) OR push_bit 10 (ucast (data AND 0x03))\<rparr>,
           cart)
        else if addr = 0x0001 then (p\<lparr>ppu_mask := data\<rparr>, cart)
        else if addr = 0x0002 then (p, cart)
        else if addr = 0x0003 then (p\<lparr>ppu_oam_addr := data\<rparr>, cart)
        else if addr = 0x0004 then
          (p\<lparr>ppu_oam := (ppu_oam p)(ppu_oam_addr p := data),
             ppu_oam_addr := ppu_oam_addr p + 1\<rparr>, cart)
        else if addr = 0x0005 then
          (if \<not> ppu_address_latch p then
             (p\<lparr>ppu_fine_x := data AND 0x07,
                ppu_tram_addr := (ppu_tram_addr p AND 0xFFE0) OR ucast (drop_bit 3 data),
                ppu_address_latch := True\<rparr>, cart)
           else
             (p\<lparr>ppu_tram_addr :=
                  (ppu_tram_addr p AND 0x8C1F) OR push_bit 12 (ucast (data AND 0x07))
                    OR push_bit 5 (ucast (drop_bit 3 data)),
                ppu_address_latch := False\<rparr>, cart))
        else if addr = 0x0006 then
          (if \<not> ppu_address_latch p then
             (p\<lparr>ppu_tram_addr :=
                  push_bit 8 (ucast (data AND 0x3F)) OR (ppu_tram_addr p AND 0x00FF),
                ppu_address_latch := True\<rparr>, cart)
           else
             (let t = (ppu_tram_addr p AND 0xFF00) OR ucast data
              in (p\<lparr>ppu_tram_addr := t, ppu_vram_addr := t, ppu_address_latch := False\<rparr>, cart)))
        else
          (let (p', cart') = PPU_ppu_write ops p cart (ppu_vram_addr p) data
           in (p'\<lparr>ppu_vram_addr := ppu_vram_addr p' + vram_increment p'\<rparr>, cart')))"


section \<open>The machine: bus, CPU registers and the chips on the bus\<close>

text \<open>\<^verbatim>\<open>class CPU\<close> (cpu.hpp): the registers and the private execution state.\<close>

record CPU =
  cpu_A :: u8
  cpu_X :: u8
  cpu_Y :: u8
  cpu_SP :: u8
  cpu_PC :: u16
  cpu_P :: u8
  cpu_total_cycles :: "64 word"
  cpu_cycles_remaining :: u8
  cpu_addr_abs :: u16
  cpu_addr_rel :: u16
  cpu_opcode :: u8
  cpu_fetched :: u8

text \<open>\<^verbatim>\<open>enum CPU::Flags\<close>.\<close>

definition flag_C :: u8 where "flag_C = 0x01"
definition flag_Z :: u8 where "flag_Z = 0x02"
definition flag_I :: u8 where "flag_I = 0x04"
definition flag_D :: u8 where "flag_D = 0x08"
definition flag_B :: u8 where "flag_B = 0x10"
definition flag_U :: u8 where "flag_U = 0x20"
definition flag_V :: u8 where "flag_V = 0x40"
definition flag_N :: u8 where "flag_N = 0x80"

text \<open>
  The state of the whole machine. \<^verbatim>\<open>class Bus\<close> (bus.hpp) holds the RAM, the controller
  registers, the system clock counter and the DMA state, and pointers to the CPU, the
  PPU, the APU and the cartridge; the CPU and the PPU hold a pointer back. The
  pointed-to objects are fields here. \<^verbatim>\<open>Emulator\<close> connects the three chips in its
  constructor, so they are always present; the cartridge is absent until a ROM is
  loaded. The APU is a state of some type \<open>'a\<close>, used through the functions of
  \<open>env\<close> below.
\<close>

record ('m, 'a, 'r) Bus =
  bus_cpu :: CPU
  bus_ppu :: "'r PPU"
  bus_apu :: 'a
  bus_cartridge :: "'m Cartridge option"
  bus_ram :: "u16 \<Rightarrow> u8"
  bus_controller_state :: "nat \<Rightarrow> u8"
  bus_controller_shift :: "nat \<Rightarrow> u8"
  bus_system_clock_counter :: "64 word"
  bus_dma_transfer :: bool
  bus_dma_page :: u8
  bus_dma_addr :: u8
  bus_dma_data :: u8
  bus_dma_dummy :: bool

text \<open>
  The code this development takes as given, as functions:
  \<^item> \<open>env_mapper\<close>: the virtual functions of the cartridge's mapper;
  \<^item> \<open>env_apu_cpu_read\<close>, \<open>env_apu_cpu_write\<close>, \<open>env_apu_clock\<close>, \<open>env_apu_reset\<close>:
    \<^verbatim>\<open>APU::cpu_read\<close> (which writes no member), \<^verbatim>\<open>APU::cpu_write\<close>, \<^verbatim>\<open>APU::clock\<close> and
    \<^verbatim>\<open>APU::reset\<close>; the function given to the clock is the DMC read callback
    \<^verbatim>\<open>Bus::dmc_read_callback\<close>;
  \<^item> \<open>env_ppu_clock\<close>: \<^verbatim>\<open>PPU::clock\<close>, which uses the PPU's members and the cartridge;
    \<open>env_ppu_pipeline_reset\<close>: the values \<^verbatim>\<open>PPU::reset\<close> gives the pipeline members;
  \<^item> \<open>env_cpu_operate\<close>: the operations of the CPU that are not translated below, by
    the mnemonic of the instruction table; the result is the returned byte and the
    machine.
\<close>

record ('m, 'a, 'r) env =
  env_mapper :: "'m mapper_ops"
  env_apu_cpu_read :: "'a \<Rightarrow> u16 \<Rightarrow> u8"
  env_apu_cpu_write :: "'a \<Rightarrow> u16 \<Rightarrow> u8 \<Rightarrow> 'a"
  env_apu_clock :: "'a \<Rightarrow> (u16 \<Rightarrow> u8) \<Rightarrow> 'a"
  env_apu_reset :: "'a \<Rightarrow> 'a"
  env_ppu_pipeline_reset :: 'r
  env_ppu_clock :: "'r PPU \<Rightarrow> 'm Cartridge option \<Rightarrow> 'r PPU \<times> 'm Cartridge option"
  env_cpu_operate :: "string \<Rightarrow> ('m, 'a, 'r) Bus \<Rightarrow> u8 \<times> ('m, 'a, 'r) Bus"

subsection \<open>Bus reads and writes\<close>

text \<open>\<^verbatim>\<open>Bus::cpu_read\<close> (emulator.cpp 138-167): the byte read and the machine after it.\<close>

definition Bus_cpu_read ::
    "('m, 'a, 'r) env \<Rightarrow> ('m, 'a, 'r) Bus \<Rightarrow> u16 \<Rightarrow> u8 \<times> ('m, 'a, 'r) Bus" where
  "Bus_cpu_read E s addr =
    (let (handled, data) =
           (case bus_cartridge s of
              Some c \<Rightarrow> Cartridge_cpu_read (env_mapper E) c addr 0x00
            | None \<Rightarrow> (False, 0x00))
     in if handled then (data, s)
        else if addr \<le> 0x1FFF then (bus_ram s (addr AND 0x07FF), s)
        else if 0x2000 \<le> addr \<and> addr \<le> 0x3FFF then
          (let (d, p, c) = PPU_cpu_read (env_mapper E) (bus_ppu s) (bus_cartridge s) (addr AND 0x0007)
           in (d, s\<lparr>bus_ppu := p, bus_cartridge := c\<rparr>))
        else if 0x4000 \<le> addr \<and> addr \<le> 0x4015 then
          (env_apu_cpu_read E (bus_apu s) addr, s)
        else if addr = 0x4016 then
          ((if bus_controller_shift s 0 AND 0x80 > 0 then 1 else 0),
           s\<lparr>bus_controller_shift :=
               (bus_controller_shift s)(0 := push_bit 1 (bus_controller_shift s 0))\<rparr>)
        else if addr = 0x4017 then
          ((if bus_controller_shift s 1 AND 0x80 > 0 then 1 else 0),
           s\<lparr>bus_controller_shift :=
               (bus_controller_shift s)(1 := push_bit 1 (bus_controller_shift s 1))\<rparr>)
        else (data, s))"

text \<open>\<^verbatim>\<open>Bus::cpu_write\<close> (emulator.cpp 169-195).\<close>

definition Bus_cpu_write ::
    "('m, 'a, 'r) env \<Rightarrow> ('m, 'a, 'r) Bus \<Rightarrow> u16 \<Rightarrow> u8 \<Rightarrow> ('m, 'a, 'r) Bus" where
  "Bus_cpu_write E s addr data =
    (let (handled, s0) =
           (case bus_cartridge s of
              Some c \<Rightarrow> (let (h, c') = Cartridge_cpu_write (env_mapper E) c addr data
                         in (h, s\<lparr>bus_cartridge := Some c'\<rparr>))
            | None \<Rightarrow> (False, s))
     in if handled then s0
        else if addr \<le> 0x1FFF then
          s0\<lparr>bus_ram := (bus_ram s0)(addr AND 0x07FF := data)\<rparr>
        else if 0x2000 \<le> addr \<and> addr \<le> 0x3FFF then
          (let (p, c) = PPU_cpu_write (env_mapper E) (bus_ppu s0) (bus_cartridge s0) (addr AND 0x0007) data
           in s0\<lparr>bus_ppu := p, bus_cartridge := c\<rparr>)
        else if (0x4000 \<le> addr \<and> addr \<le> 0x4013) \<or> addr = 0x4015 \<or> addr = 0x4017 then
          s0\<lparr>bus_apu := env_apu_cpu_write E (bus_apu s0) addr data\<rparr>
        else if addr = 0x4014 then
          s0\<lparr>bus_dma_page := data, bus_dma_addr := 0x00, bus_dma_transfer := True\<rparr>
        else if addr = 0x4016 then
          s0\<lparr>bus_controller_shift :=
               (bus_controller_shift s0)(0 := bus_controller_state s0 0, 1 := bus_controller_state s0 1)\<rparr>
        else s0)"

text \<open>\<^verbatim>\<open>Bus::set_controller_state\<close> (emulator.cpp 265-269).\<close>

definition Bus_set_controller_state ::
    "('m, 'a, 'r) Bus \<Rightarrow> u8 \<Rightarrow> u8 \<Rightarrow> ('m, 'a, 'r) Bus" where
  "Bus_set_controller_state s controller state =
    (if controller < 2
     then s\<lparr>bus_controller_state := (bus_controller_state s)(unat controller := state)\<rparr>
     else s)"

subsection \<open>CPU: memory access, stack and flags\<close>

definition upd_cpu :: "(CPU \<Rightarrow> CPU) \<Rightarrow> ('m, 'a, 'r) Bus \<Rightarrow> ('m, 'a, 'r) Bus" where
  "upd_cpu f s = s\<lparr>bus_cpu := f (bus_cpu s)\<rparr>"

text \<open>\<^verbatim>\<open>CPU::set_flag\<close> and \<^verbatim>\<open>CPU::get_flag\<close> (cpu.cpp 215-224), on the status byte.\<close>

definition set_flag :: "u8 \<Rightarrow> bool \<Rightarrow> u8 \<Rightarrow> u8" where
  "set_flag flag v p = (if v then p OR flag else p AND NOT flag)"

definition get_flag :: "u8 \<Rightarrow> u8 \<Rightarrow> bool" where
  "get_flag flag p = (p AND flag \<noteq> 0)"

definition CPU_set_flag :: "u8 \<Rightarrow> bool \<Rightarrow> ('m, 'a, 'r) Bus \<Rightarrow> ('m, 'a, 'r) Bus" where
  "CPU_set_flag flag v = upd_cpu (\<lambda>c. c\<lparr>cpu_P := set_flag flag v (cpu_P c)\<rparr>)"

definition CPU_get_flag :: "u8 \<Rightarrow> ('m, 'a, 'r) Bus \<Rightarrow> bool" where
  "CPU_get_flag flag s = get_flag flag (cpu_P (bus_cpu s))"

text \<open>\<^verbatim>\<open>CPU::push\<close>, \<^verbatim>\<open>pop\<close>, \<^verbatim>\<open>push16\<close>, \<^verbatim>\<open>pop16\<close> (cpu.cpp 194-213).\<close>

definition CPU_push :: "('m, 'a, 'r) env \<Rightarrow> u8 \<Rightarrow> ('m, 'a, 'r) Bus \<Rightarrow> ('m, 'a, 'r) Bus" where
  "CPU_push E data s =
    upd_cpu (\<lambda>c. c\<lparr>cpu_SP := cpu_SP c - 1\<rparr>)
      (Bus_cpu_write E s (0x0100 + ucast (cpu_SP (bus_cpu s))) data)"

definition CPU_pop :: "('m, 'a, 'r) env \<Rightarrow> ('m, 'a, 'r) Bus \<Rightarrow> u8 \<times> ('m, 'a, 'r) Bus" where
  "CPU_pop E s =
    (let s1 = upd_cpu (\<lambda>c. c\<lparr>cpu_SP := cpu_SP c + 1\<rparr>) s
     in Bus_cpu_read E s1 (0x0100 + ucast (cpu_SP (bus_cpu s1))))"

definition CPU_push16 :: "('m, 'a, 'r) env \<Rightarrow> u16 \<Rightarrow> ('m, 'a, 'r) Bus \<Rightarrow> ('m, 'a, 'r) Bus" where
  "CPU_push16 E data s =
    CPU_push E (ucast (data AND 0xFF)) (CPU_push E (ucast (drop_bit 8 data AND 0xFF)) s)"

definition CPU_pop16 :: "('m, 'a, 'r) env \<Rightarrow> ('m, 'a, 'r) Bus \<Rightarrow> u16 \<times> ('m, 'a, 'r) Bus" where
  "CPU_pop16 E s =
    (let (lo, s1) = CPU_pop E s;
         (hi, s2) = CPU_pop E s1
     in (push_bit 8 (ucast hi) OR ucast lo, s2))"

subsection \<open>CPU: reset and interrupts\<close>

text \<open>\<^verbatim>\<open>CPU::reset\<close> (cpu.cpp 9-46).\<close>

definition CPU_reset :: "('m, 'a, 'r) env \<Rightarrow> ('m, 'a, 'r) Bus \<Rightarrow> ('m, 'a, 'r) Bus" where
  "CPU_reset E s =
    (let (lo, s1) = Bus_cpu_read E s 0xFFFC;
         (hi, s2) = Bus_cpu_read E s1 0xFFFD
     in upd_cpu (\<lambda>c. c\<lparr>cpu_PC := push_bit 8 (ucast hi) OR ucast lo,
                        cpu_A := 0x00, cpu_X := 0x00, cpu_Y := 0x00, cpu_SP := 0xFD,
                        cpu_P := 0x00 OR flag_U OR flag_I,
                        cpu_addr_abs := 0x0000, cpu_addr_rel := 0x0000, cpu_fetched := 0x00,
                        cpu_cycles_remaining := 8\<rparr>) s2)"

text \<open>\<^verbatim>\<open>CPU::irq\<close> (cpu.cpp 128-156).\<close>

definition CPU_irq :: "('m, 'a, 'r) env \<Rightarrow> ('m, 'a, 'r) Bus \<Rightarrow> ('m, 'a, 'r) Bus" where
  "CPU_irq E s =
    (if \<not> CPU_get_flag flag_I s then
       (let s1 = CPU_push16 E (cpu_PC (bus_cpu s)) s;
            s2 = CPU_set_flag flag_I True (CPU_set_flag flag_U True (CPU_set_flag flag_B False s1));
            s3 = CPU_push E (cpu_P (bus_cpu s2)) s2;
            (lo, s4) = Bus_cpu_read E s3 0xFFFE;
            (hi, s5) = Bus_cpu_read E s4 0xFFFF
        in upd_cpu (\<lambda>c. c\<lparr>cpu_PC := push_bit 8 (ucast hi) OR ucast lo,
                           cpu_cycles_remaining := 7\<rparr>) s5)
     else s)"

text \<open>\<^verbatim>\<open>CPU::nmi\<close> (cpu.cpp 158-184).\<close>

definition CPU_nmi :: "('m, 'a, 'r) env \<Rightarrow> ('m, 'a, 'r) Bus \<Rightarrow> ('m, 'a, 'r) Bus" where
  "CPU_nmi E s =
    (let s1 = CPU_push16 E (cpu_PC (bus_cpu s)) s;
         s2 = CPU_set_flag flag_I True (CPU_set_flag flag_U True (CPU_set_flag flag_B False s1));
         s3 = CPU_push E (cpu_P (bus_cpu s2)) s2;
         (lo, s4) = Bus_cpu_read E s3 0xFFFA;
         (hi, s5) = Bus_cpu_read E s4 0xFFFB
     in upd_cpu (\<lambda>c. c\<lparr>cpu_PC := push_bit 8 (ucast hi) OR ucast lo,
                        cpu_cycles_remaining := 8\<rparr>) s5)"

subsection \<open>CPU: the instruction table and the addressing modes\<close>

datatype AddrMode = IMP | IMM | ZP0 | ZPX | ZPY | REL | ABS | ABX | ABY | IND | IZX | IZY

text \<open>
  \<^verbatim>\<open>CPU::instruction_table\<close> (cpu.cpp 1118-1135): the mnemonic, the addressing mode
  and the base cycle count of each opcode. In every entry the operation is the member
  function named by the mnemonic.
\<close>

definition instruction_table :: "(string \<times> AddrMode \<times> u8) list" where
  "instruction_table =
    [(''BRK'', IMM, 7), (''ORA'', IZX, 6), (''JAM'', IMP, 2), (''SLO'', IZX, 8), (''NOP'', ZP0, 3), (''ORA'', ZP0, 3), (''ASL'', ZP0, 5), (''SLO'', ZP0, 5),
     (''PHP'', IMP, 3), (''ORA'', IMM, 2), (''ASL'', IMP, 2), (''ANC'', IMM, 2), (''NOP'', ABS, 4), (''ORA'', ABS, 4), (''ASL'', ABS, 6), (''SLO'', ABS, 6),
     (''BPL'', REL, 2), (''ORA'', IZY, 5), (''JAM'', IMP, 2), (''SLO'', IZY, 8), (''NOP'', ZPX, 4), (''ORA'', ZPX, 4), (''ASL'', ZPX, 6), (''SLO'', ZPX, 6),
     (''CLC'', IMP, 2), (''ORA'', ABY, 4), (''NOP'', IMP, 2), (''SLO'', ABY, 7), (''NOP'', ABX, 4), (''ORA'', ABX, 4), (''ASL'', ABX, 7), (''SLO'', ABX, 7),
     (''JSR'', ABS, 6), (''AND'', IZX, 6), (''JAM'', IMP, 2), (''RLA'', IZX, 8), (''BIT'', ZP0, 3), (''AND'', ZP0, 3), (''ROL'', ZP0, 5), (''RLA'', ZP0, 5),
     (''PLP'', IMP, 4), (''AND'', IMM, 2), (''ROL'', IMP, 2), (''ANC'', IMM, 2), (''BIT'', ABS, 4), (''AND'', ABS, 4), (''ROL'', ABS, 6), (''RLA'', ABS, 6),
     (''BMI'', REL, 2), (''AND'', IZY, 5), (''JAM'', IMP, 2), (''RLA'', IZY, 8), (''NOP'', ZPX, 4), (''AND'', ZPX, 4), (''ROL'', ZPX, 6), (''RLA'', ZPX, 6),
     (''SEC'', IMP, 2), (''AND'', ABY, 4), (''NOP'', IMP, 2), (''RLA'', ABY, 7), (''NOP'', ABX, 4), (''AND'', ABX, 4), (''ROL'', ABX, 7), (''RLA'', ABX, 7),
     (''RTI'', IMP, 6), (''EOR'', IZX, 6), (''JAM'', IMP, 2), (''SRE'', IZX, 8), (''NOP'', ZP0, 3), (''EOR'', ZP0, 3), (''LSR'', ZP0, 5), (''SRE'', ZP0, 5),
     (''PHA'', IMP, 3), (''EOR'', IMM, 2), (''LSR'', IMP, 2), (''ALR'', IMM, 2), (''JMP'', ABS, 3), (''EOR'', ABS, 4), (''LSR'', ABS, 6), (''SRE'', ABS, 6),
     (''BVC'', REL, 2), (''EOR'', IZY, 5), (''JAM'', IMP, 2), (''SRE'', IZY, 8), (''NOP'', ZPX, 4), (''EOR'', ZPX, 4), (''LSR'', ZPX, 6), (''SRE'', ZPX, 6),
     (''CLI'', IMP, 2), (''EOR'', ABY, 4), (''NOP'', IMP, 2), (''SRE'', ABY, 7), (''NOP'', ABX, 4), (''EOR'', ABX, 4), (''LSR'', ABX, 7), (''SRE'', ABX, 7),
     (''RTS'', IMP, 6), (''ADC'', IZX, 6), (''JAM'', IMP, 2), (''RRA'', IZX, 8), (''NOP'', ZP0, 3), (''ADC'', ZP0, 3), (''ROR'', ZP0, 5), (''RRA'', ZP0, 5),
     (''PLA'', IMP, 4), (''ADC'', IMM, 2), (''ROR'', IMP, 2), (''ARR'', IMM, 2), (''JMP'', IND, 5), (''ADC'', ABS, 4), (''ROR'', ABS, 6), (''RRA'', ABS, 6),
     (''BVS'', REL, 2), (''ADC'', IZY, 5), (''JAM'', IMP, 2), (''RRA'', IZY, 8), (''NOP'', ZPX, 4), (''ADC'', ZPX, 4), (''ROR'', ZPX, 6), (''RRA'', ZPX, 6),
     (''SEI'', IMP, 2), (''ADC'', ABY, 4), (''NOP'', IMP, 2), (''RRA'', ABY, 7), (''NOP'', ABX, 4), (''ADC'', ABX, 4), (''ROR'', ABX, 7), (''RRA'', ABX, 7),
     (''NOP'', IMM, 2), (''STA'', IZX, 6), (''NOP'', IMM, 2), (''SAX'', IZX, 6), (''STY'', ZP0, 3), (''STA'', ZP0, 3), (''STX'', ZP0, 3), (''SAX'', ZP0, 3),
     (''DEY'', IMP, 2), (''NOP'', IMM, 2), (''TXA'', IMP, 2), (''XAA'', IMM, 2), (''STY'', ABS, 4), (''STA'', ABS, 4), (''STX'', ABS, 4), (''SAX'', ABS, 4),
     (''BCC'', REL, 2), (''STA'', IZY, 6), (''JAM'', IMP, 2), (''AHX'', IZY, 6), (''STY'', ZPX, 4), (''STA'', ZPX, 4), (''STX'', ZPY, 4), (''SAX'', ZPY, 4),
     (''TYA'', IMP, 2), (''STA'', ABY, 5), (''TXS'', IMP, 2), (''TAS'', ABY, 5), (''SHY'', ABX, 5), (''STA'', ABX, 5), (''SHX'', ABY, 5), (''AHX'', ABY, 5),
     (''LDY'', IMM, 2), (''LDA'', IZX, 6), (''LDX'', IMM, 2), (''LAX'', IZX, 6), (''LDY'', ZP0, 3), (''LDA'', ZP0, 3), (''LDX'', ZP0, 3), (''LAX'', ZP0, 3),
     (''TAY'', IMP, 2), (''LDA'', IMM, 2), (''TAX'', IMP, 2), (''LAX'', IMM, 2), (''LDY'', ABS, 4), (''LDA'', ABS, 4), (''LDX'', ABS, 4), (''LAX'', ABS, 4),
     (''BCS'', REL, 2), (''LDA'', IZY, 5), (''JAM'', IMP, 2), (''LAX'', IZY, 5), (''LDY'', ZPX, 4), (''LDA'', ZPX, 4), (''LDX'', ZPY, 4), (''LAX'', ZPY, 4),
     (''CLV'', IMP, 2), (''LDA'', ABY, 4), (''TSX'', IMP, 2), (''LAS'', ABY, 4), (''LDY'', ABX, 4), (''LDA'', ABX, 4), (''LDX'', ABY, 4), (''LAX'', ABY, 4),
     (''CPY'', IMM, 2), (''CMP'', IZX, 6), (''NOP'', IMM, 2), (''DCP'', IZX, 8), (''CPY'', ZP0, 3), (''CMP'', ZP0, 3), (''DEC'', ZP0, 5), (''DCP'', ZP0, 5),
     (''INY'', IMP, 2), (''CMP'', IMM, 2), (''DEX'', IMP, 2), (''AXS'', IMM, 2), (''CPY'', ABS, 4), (''CMP'', ABS, 4), (''DEC'', ABS, 6), (''DCP'', ABS, 6),
     (''BNE'', REL, 2), (''CMP'', IZY, 5), (''JAM'', IMP, 2), (''DCP'', IZY, 8), (''NOP'', ZPX, 4), (''CMP'', ZPX, 4), (''DEC'', ZPX, 6), (''DCP'', ZPX, 6),
     (''CLD'', IMP, 2), (''CMP'', ABY, 4), (''NOP'', IMP, 2), (''DCP'', ABY, 7), (''NOP'', ABX, 4), (''CMP'', ABX, 4), (''DEC'', ABX, 7), (''DCP'', ABX, 7),
     (''CPX'', IMM, 2), (''SBC'', IZX, 6), (''NOP'', IMM, 2), (''ISC'', IZX, 8), (''CPX'', ZP0, 3), (''SBC'', ZP0, 3), (''INC'', ZP0, 5), (''ISC'', ZP0, 5),
     (''INX'', IMP, 2), (''SBC'', IMM, 2), (''NOP'', IMP, 2), (''SBC'', IMM, 2), (''CPX'', ABS, 4), (''SBC'', ABS, 4), (''INC'', ABS, 6), (''ISC'', ABS, 6),
     (''BEQ'', REL, 2), (''SBC'', IZY, 5), (''JAM'', IMP, 2), (''ISC'', IZY, 8), (''NOP'', ZPX, 4), (''SBC'', ZPX, 4), (''INC'', ZPX, 6), (''ISC'', ZPX, 6),
     (''SED'', IMP, 2), (''SBC'', ABY, 4), (''NOP'', IMP, 2), (''ISC'', ABY, 7), (''NOP'', ABX, 4), (''SBC'', ABX, 4), (''INC'', ABX, 7), (''ISC'', ABX, 7)]"

definition instr_name :: "u8 \<Rightarrow> string" where
  "instr_name opcode = fst (instruction_table ! unat opcode)"

definition instr_addrmode :: "u8 \<Rightarrow> AddrMode" where
  "instr_addrmode opcode = fst (snd (instruction_table ! unat opcode))"

definition instr_cycles :: "u8 \<Rightarrow> u8" where
  "instr_cycles opcode = snd (snd (instruction_table ! unat opcode))"

text \<open>\<^verbatim>\<open>CPU::fetch\<close> (cpu.cpp 226-230).\<close>

definition CPU_fetch :: "('m, 'a, 'r) env \<Rightarrow> ('m, 'a, 'r) Bus \<Rightarrow> u8 \<times> ('m, 'a, 'r) Bus" where
  "CPU_fetch E s =
    (if instr_addrmode (cpu_opcode (bus_cpu s)) \<noteq> IMP then
       (let (d, s1) = Bus_cpu_read E s (cpu_addr_abs (bus_cpu s));
            s2 = upd_cpu (\<lambda>c. c\<lparr>cpu_fetched := d\<rparr>) s1
        in (d, s2))
     else (cpu_fetched (bus_cpu s), s))"

text \<open>Reading the byte at \<^verbatim>\<open>PC\<close> and incrementing \<^verbatim>\<open>PC\<close>, as the addressing modes do.\<close>

definition CPU_read_pc :: "('m, 'a, 'r) env \<Rightarrow> ('m, 'a, 'r) Bus \<Rightarrow> u8 \<times> ('m, 'a, 'r) Bus" where
  "CPU_read_pc E s =
    (let (d, s1) = Bus_cpu_read E s (cpu_PC (bus_cpu s))
     in (d, upd_cpu (\<lambda>c. c\<lparr>cpu_PC := cpu_PC c + 1\<rparr>) s1))"

text \<open>
  The twelve addressing modes (cpu.cpp 239-375): the returned byte and the machine.
  In \<^verbatim>\<open>IND\<close> the two reads are operands of one \<^verbatim>\<open>|\<close>; they are taken left to right.
\<close>

definition CPU_addrmode ::
    "('m, 'a, 'r) env \<Rightarrow> AddrMode \<Rightarrow> ('m, 'a, 'r) Bus \<Rightarrow> u8 \<times> ('m, 'a, 'r) Bus" where
  "CPU_addrmode E mode s =
    (case mode of
       IMP \<Rightarrow> (0, upd_cpu (\<lambda>c. c\<lparr>cpu_fetched := cpu_A c\<rparr>) s)
     | IMM \<Rightarrow> (0, upd_cpu (\<lambda>c. c\<lparr>cpu_addr_abs := cpu_PC c, cpu_PC := cpu_PC c + 1\<rparr>) s)
     | ZP0 \<Rightarrow>
         (let (d, s1) = CPU_read_pc E s
          in (0, upd_cpu (\<lambda>c. c\<lparr>cpu_addr_abs := ucast d AND 0x00FF\<rparr>) s1))
     | ZPX \<Rightarrow>
         (let (d, s1) = CPU_read_pc E s
          in (0, upd_cpu (\<lambda>c. c\<lparr>cpu_addr_abs := (ucast d + ucast (cpu_X c)) AND 0x00FF\<rparr>) s1))
     | ZPY \<Rightarrow>
         (let (d, s1) = CPU_read_pc E s
          in (0, upd_cpu (\<lambda>c. c\<lparr>cpu_addr_abs := (ucast d + ucast (cpu_Y c)) AND 0x00FF\<rparr>) s1))
     | REL \<Rightarrow>
         (let (d, s1) = CPU_read_pc E s;
              rel = (ucast d :: u16)
          in (0, upd_cpu (\<lambda>c. c\<lparr>cpu_addr_rel :=
                                (if rel AND 0x80 \<noteq> 0 then rel OR 0xFF00 else rel)\<rparr>) s1))
     | ABS \<Rightarrow>
         (let (lo, s1) = CPU_read_pc E s;
              (hi, s2) = CPU_read_pc E s1
          in (0, upd_cpu (\<lambda>c. c\<lparr>cpu_addr_abs := push_bit 8 (ucast hi) OR ucast lo\<rparr>) s2))
     | ABX \<Rightarrow>
         (let (lo, s1) = CPU_read_pc E s;
              (hi, s2) = CPU_read_pc E s1;
              a = (push_bit 8 (ucast hi) OR ucast lo) + ucast (cpu_X (bus_cpu s2))
          in ((if a AND 0xFF00 \<noteq> push_bit 8 (ucast hi) then 1 else 0),
              upd_cpu (\<lambda>c. c\<lparr>cpu_addr_abs := a\<rparr>) s2))
     | ABY \<Rightarrow>
         (let (lo, s1) = CPU_read_pc E s;
              (hi, s2) = CPU_read_pc E s1;
              a = (push_bit 8 (ucast hi) OR ucast lo) + ucast (cpu_Y (bus_cpu s2))
          in ((if a AND 0xFF00 \<noteq> push_bit 8 (ucast hi) then 1 else 0),
              upd_cpu (\<lambda>c. c\<lparr>cpu_addr_abs := a\<rparr>) s2))
     | IND \<Rightarrow>
         (let (ptr_lo, s1) = CPU_read_pc E s;
              (ptr_hi, s2) = CPU_read_pc E s1;
              ptr = (push_bit 8 (ucast ptr_hi) OR ucast ptr_lo :: u16);
              (hi, s3) = Bus_cpu_read E s2 (if ptr_lo = 0xFF then ptr AND 0xFF00 else ptr + 1);
              (lo, s4) = Bus_cpu_read E s3 ptr
          in (0, upd_cpu (\<lambda>c. c\<lparr>cpu_addr_abs := push_bit 8 (ucast hi) OR ucast lo\<rparr>) s4))
     | IZX \<Rightarrow>
         (let (t, s1) = CPU_read_pc E s;
              x = cpu_X (bus_cpu s1);
              (lo, s2) = Bus_cpu_read E s1 ((ucast t + ucast x) AND 0x00FF);
              (hi, s3) = Bus_cpu_read E s2 ((ucast t + ucast x + 1) AND 0x00FF)
          in (0, upd_cpu (\<lambda>c. c\<lparr>cpu_addr_abs := push_bit 8 (ucast hi) OR ucast lo\<rparr>) s3))
     | IZY \<Rightarrow>
         (let (t, s1) = CPU_read_pc E s;
              (lo, s2) = Bus_cpu_read E s1 (ucast t AND 0x00FF);
              (hi, s3) = Bus_cpu_read E s2 ((ucast t + 1) AND 0x00FF);
              a = (push_bit 8 (ucast hi) OR ucast lo) + ucast (cpu_Y (bus_cpu s3))
          in ((if a AND 0xFF00 \<noteq> push_bit 8 (ucast hi) then 1 else 0),
              upd_cpu (\<lambda>c. c\<lparr>cpu_addr_abs := a\<rparr>) s3)))"

subsection \<open>CPU: operations\<close>

text \<open>
  The operations translated here (cpu.cpp): each returns the byte the member function
  returns and the machine. \<^verbatim>\<open>ADC\<close> 381-391, \<^verbatim>\<open>SBC\<close> 796-807, \<^verbatim>\<open>BRK\<close> 510-523,
  \<^verbatim>\<open>PHA\<close> 723-727, \<^verbatim>\<open>PHP\<close> 729-735, \<^verbatim>\<open>PLA\<close> 737-743, \<^verbatim>\<open>PLP\<close> 745-750,
  \<^verbatim>\<open>RTI\<close> 780-787, \<^verbatim>\<open>LDA\<close> 663-670, \<^verbatim>\<open>STA\<close> 813-817, \<^verbatim>\<open>SEI\<close>, \<^verbatim>\<open>CLI\<close>, \<^verbatim>\<open>NOP\<close> 704-712.
\<close>

definition CPU_ADC :: "('m, 'a, 'r) env \<Rightarrow> ('m, 'a, 'r) Bus \<Rightarrow> u8 \<times> ('m, 'a, 'r) Bus" where
  "CPU_ADC E s =
    (let (fetched, s1) = CPU_fetch E s;
         a = (ucast (cpu_A (bus_cpu s1)) :: u16);
         m = (ucast fetched :: u16);
         temp = a + m + (if CPU_get_flag flag_C s1 then 1 else 0);
         s2 = CPU_set_flag flag_C (temp > 255) s1;
         s3 = CPU_set_flag flag_Z (temp AND 0x00FF = 0) s2;
         s4 = CPU_set_flag flag_V ((NOT (a XOR m) AND (a XOR temp)) AND 0x0080 \<noteq> 0) s3;
         s5 = CPU_set_flag flag_N (temp AND 0x80 \<noteq> 0) s4
     in (1, upd_cpu (\<lambda>c. c\<lparr>cpu_A := ucast (temp AND 0xFF)\<rparr>) s5))"

definition CPU_SBC :: "('m, 'a, 'r) env \<Rightarrow> ('m, 'a, 'r) Bus \<Rightarrow> u8 \<times> ('m, 'a, 'r) Bus" where
  "CPU_SBC E s =
    (let (fetched, s1) = CPU_fetch E s;
         a = (ucast (cpu_A (bus_cpu s1)) :: u16);
         v = (ucast fetched :: u16) XOR 0x00FF;
         temp = a + v + (if CPU_get_flag flag_C s1 then 1 else 0);
         s2 = CPU_set_flag flag_C (temp AND 0xFF00 \<noteq> 0) s1;
         s3 = CPU_set_flag flag_Z (temp AND 0x00FF = 0) s2;
         s4 = CPU_set_flag flag_V ((temp XOR a) AND (temp XOR v) AND 0x0080 \<noteq> 0) s3;
         s5 = CPU_set_flag flag_N (temp AND 0x0080 \<noteq> 0) s4
     in (1, upd_cpu (\<lambda>c. c\<lparr>cpu_A := ucast (temp AND 0x00FF)\<rparr>) s5))"

definition CPU_BRK :: "('m, 'a, 'r) env \<Rightarrow> ('m, 'a, 'r) Bus \<Rightarrow> u8 \<times> ('m, 'a, 'r) Bus" where
  "CPU_BRK E s =
    (let s1 = upd_cpu (\<lambda>c. c\<lparr>cpu_PC := cpu_PC c + 1\<rparr>) s;
         s2 = CPU_set_flag flag_I True s1;
         s3 = CPU_push16 E (cpu_PC (bus_cpu s2)) s2;
         s4 = CPU_set_flag flag_B True s3;
         s5 = CPU_push E (cpu_P (bus_cpu s4)) s4;
         s6 = CPU_set_flag flag_B False s5;
         (lo, s7) = Bus_cpu_read E s6 0xFFFE;
         (hi, s8) = Bus_cpu_read E s7 0xFFFF
     in (0, upd_cpu (\<lambda>c. c\<lparr>cpu_PC := ucast lo OR push_bit 8 (ucast hi)\<rparr>) s8))"

definition CPU_PHA :: "('m, 'a, 'r) env \<Rightarrow> ('m, 'a, 'r) Bus \<Rightarrow> u8 \<times> ('m, 'a, 'r) Bus" where
  "CPU_PHA E s = (0, CPU_push E (cpu_A (bus_cpu s)) s)"

definition CPU_PHP :: "('m, 'a, 'r) env \<Rightarrow> ('m, 'a, 'r) Bus \<Rightarrow> u8 \<times> ('m, 'a, 'r) Bus" where
  "CPU_PHP E s =
    (let s1 = CPU_push E (cpu_P (bus_cpu s) OR flag_B OR flag_U) s;
         s2 = CPU_set_flag flag_B False s1;
         s3 = CPU_set_flag flag_U False s2
     in (0, s3))"

definition CPU_PLA :: "('m, 'a, 'r) env \<Rightarrow> ('m, 'a, 'r) Bus \<Rightarrow> u8 \<times> ('m, 'a, 'r) Bus" where
  "CPU_PLA E s =
    (let (d, s1) = CPU_pop E s;
         s2 = upd_cpu (\<lambda>c. c\<lparr>cpu_A := d\<rparr>) s1;
         s3 = CPU_set_flag flag_Z (d = 0x00) s2;
         s4 = CPU_set_flag flag_N (d AND 0x80 \<noteq> 0) s3
     in (0, s4))"

definition CPU_PLP :: "('m, 'a, 'r) env \<Rightarrow> ('m, 'a, 'r) Bus \<Rightarrow> u8 \<times> ('m, 'a, 'r) Bus" where
  "CPU_PLP E s =
    (let (d, s1) = CPU_pop E s;
         s2 = upd_cpu (\<lambda>c. c\<lparr>cpu_P := d\<rparr>) s1;
         s3 = CPU_set_flag flag_U True s2
     in (0, s3))"

definition CPU_RTI :: "('m, 'a, 'r) env \<Rightarrow> ('m, 'a, 'r) Bus \<Rightarrow> u8 \<times> ('m, 'a, 'r) Bus" where
  "CPU_RTI E s =
    (let (d, s1) = CPU_pop E s;
         s2 = upd_cpu (\<lambda>c. c\<lparr>cpu_P := d\<rparr>) s1;
         s3 = CPU_set_flag flag_B False s2;
         s4 = CPU_set_flag flag_U False s3;
         (pc, s5) = CPU_pop16 E s4
     in (0, upd_cpu (\<lambda>c. c\<lparr>cpu_PC := pc\<rparr>) s5))"

definition CPU_LDA :: "('m, 'a, 'r) env \<Rightarrow> ('m, 'a, 'r) Bus \<Rightarrow> u8 \<times> ('m, 'a, 'r) Bus" where
  "CPU_LDA E s =
    (let (fetched, s1) = CPU_fetch E s;
         s2 = upd_cpu (\<lambda>c. c\<lparr>cpu_A := fetched\<rparr>) s1;
         s3 = CPU_set_flag flag_Z (fetched = 0x00) s2;
         s4 = CPU_set_flag flag_N (fetched AND 0x80 \<noteq> 0) s3
     in (1, s4))"

definition CPU_STA :: "('m, 'a, 'r) env \<Rightarrow> ('m, 'a, 'r) Bus \<Rightarrow> u8 \<times> ('m, 'a, 'r) Bus" where
  "CPU_STA E s = (0, Bus_cpu_write E s (cpu_addr_abs (bus_cpu s)) (cpu_A (bus_cpu s)))"

definition CPU_SEI :: "('m, 'a, 'r) Bus \<Rightarrow> u8 \<times> ('m, 'a, 'r) Bus" where
  "CPU_SEI s = (0, CPU_set_flag flag_I True s)"

definition CPU_CLI :: "('m, 'a, 'r) Bus \<Rightarrow> u8 \<times> ('m, 'a, 'r) Bus" where
  "CPU_CLI s = (0, CPU_set_flag flag_I False s)"

definition CPU_NOP :: "('m, 'a, 'r) Bus \<Rightarrow> u8 \<times> ('m, 'a, 'r) Bus" where
  "CPU_NOP s =
    ((if cpu_opcode (bus_cpu s) \<in> {0x1C, 0x3C, 0x5C, 0x7C, 0xDC, 0xFC} then 1 else 0), s)"

text \<open>
  The call \<^verbatim>\<open>(this->*instr.operate)()\<close> of \<^verbatim>\<open>CPU::clock\<close>: the operation named by the
  table entry, translated above or taken from \<open>env_cpu_operate\<close>.
\<close>

definition CPU_operate ::
    "('m, 'a, 'r) env \<Rightarrow> string \<Rightarrow> ('m, 'a, 'r) Bus \<Rightarrow> u8 \<times> ('m, 'a, 'r) Bus" where
  "CPU_operate E name s =
    (if name = ''ADC'' then CPU_ADC E s
     else if name = ''SBC'' then CPU_SBC E s
     else if name = ''BRK'' then CPU_BRK E s
     else if name = ''PHA'' then CPU_PHA E s
     else if name = ''PHP'' then CPU_PHP E s
     else if name = ''PLA'' then CPU_PLA E s
     else if name = ''PLP'' then CPU_PLP E s
     else if name = ''RTI'' then CPU_RTI E s
     else if name = ''LDA'' then CPU_LDA E s
     else if name = ''STA'' then CPU_STA E s
     else if name = ''SEI'' then CPU_SEI s
     else if name = ''CLI'' then CPU_CLI s
     else if name = ''NOP'' then CPU_NOP s
     else env_cpu_operate E name s)"

text \<open>\<^verbatim>\<open>CPU::clock\<close> (cpu.cpp 48-126).\<close>

definition CPU_clock :: "('m, 'a, 'r) env \<Rightarrow> ('m, 'a, 'r) Bus \<Rightarrow> ('m, 'a, 'r) Bus" where
  "CPU_clock E s =
    (let s' =
       (if cpu_cycles_remaining (bus_cpu s) = 0 then
          (let (opcode, s1) = Bus_cpu_read E s (cpu_PC (bus_cpu s));
               s2 = upd_cpu (\<lambda>c. c\<lparr>cpu_opcode := opcode\<rparr>) s1;
               s3 = CPU_set_flag flag_U True s2;
               s4 = upd_cpu (\<lambda>c. c\<lparr>cpu_PC := cpu_PC c + 1\<rparr>) s3;
               s5 = upd_cpu (\<lambda>c. c\<lparr>cpu_cycles_remaining := instr_cycles opcode\<rparr>) s4;
               (addr_mode_extra_cycle, s6) = CPU_addrmode E (instr_addrmode opcode) s5;
               (operation_extra_cycle, s7) = CPU_operate E (instr_name opcode) s6;
               s8 = upd_cpu (\<lambda>c. c\<lparr>cpu_cycles_remaining := cpu_cycles_remaining c
                                + (addr_mode_extra_cycle AND operation_extra_cycle)\<rparr>) s7
           in CPU_set_flag flag_U True s8)
        else s)
     in upd_cpu (\<lambda>c. c\<lparr>cpu_cycles_remaining := cpu_cycles_remaining c - 1,
                        cpu_total_cycles := cpu_total_cycles c + 1\<rparr>) s')"

subsection \<open>The system clock\<close>

text \<open>
  What \<^verbatim>\<open>Bus::clock\<close> does with the CPU's slot of a tick: nothing (the tick is not a
  multiple of three), a DMA alignment wait, a DMA read of an address giving a byte, a
  DMA write of a byte to \<^verbatim>\<open>$2004\<close>, or a call of \<^verbatim>\<open>CPU::clock\<close>.
\<close>

datatype slot = NoSlot | DmaDummy | DmaRead u16 u8 | DmaWrite u8 | CpuClock

text \<open>
  \<^verbatim>\<open>Bus::clock\<close> (emulator.cpp 197-263), block by block. First the DMA block
  (206-232), entered on a CPU slot while \<^verbatim>\<open>dma_transfer\<close> is set.
\<close>

definition Bus_dma_step ::
    "('m, 'a, 'r) env \<Rightarrow> ('m, 'a, 'r) Bus \<Rightarrow> slot \<times> ('m, 'a, 'r) Bus" where
  "Bus_dma_step E s =
    (let n = unat (bus_system_clock_counter s)
     in if bus_dma_dummy s then
          (DmaDummy, if n mod 2 = 1 then s\<lparr>bus_dma_dummy := False\<rparr> else s)
        else if n mod 2 = 0 then
          (let a = push_bit 8 (ucast (bus_dma_page s)) OR ucast (bus_dma_addr s);
               (d, sr) = Bus_cpu_read E s a
           in (DmaRead a d, sr\<lparr>bus_dma_data := d\<rparr>))
        else
          (let (p, c) = PPU_cpu_write (env_mapper E) (bus_ppu s) (bus_cartridge s)
                          0x0004 (bus_dma_data s);
               sw = s\<lparr>bus_ppu := p, bus_cartridge := c, bus_dma_addr := bus_dma_addr s + 1\<rparr>
           in (DmaWrite (bus_dma_data s),
               if bus_dma_addr sw = 0x00
               then sw\<lparr>bus_dma_transfer := False, bus_dma_dummy := True\<rparr>
               else sw)))"

text \<open>The CPU's slot of a tick (203-244): every third tick, DMA or CPU, then the APU.\<close>

definition Bus_cpu_slot ::
    "('m, 'a, 'r) env \<Rightarrow> ('m, 'a, 'r) Bus \<Rightarrow> slot \<times> ('m, 'a, 'r) Bus" where
  "Bus_cpu_slot E s =
    (if unat (bus_system_clock_counter s) mod 3 = 0 then
       (let (sl, sa) = (if bus_dma_transfer s then Bus_dma_step E s
                        else (CpuClock, CPU_clock E s))
        in (sl, sa\<lparr>bus_apu := env_apu_clock E (bus_apu sa) (\<lambda>a. fst (Bus_cpu_read E sa a))\<rparr>))
     else (NoSlot, s))"

text \<open>The NMI check (246-252) and the mapper IRQ check (254-260).\<close>

definition Bus_nmi_check :: "('m, 'a, 'r) env \<Rightarrow> ('m, 'a, 'r) Bus \<Rightarrow> ('m, 'a, 'r) Bus" where
  "Bus_nmi_check E s =
    (if ppu_nmi (bus_ppu s)
     then CPU_nmi E (s\<lparr>bus_ppu := (bus_ppu s)\<lparr>ppu_nmi := False\<rparr>\<rparr>)
     else s)"

definition Bus_irq_check :: "('m, 'a, 'r) env \<Rightarrow> ('m, 'a, 'r) Bus \<Rightarrow> ('m, 'a, 'r) Bus" where
  "Bus_irq_check E s =
    (case bus_cartridge s of
       Some c \<Rightarrow>
         (if Cartridge_irq_state (env_mapper E) c
          then CPU_irq E (s\<lparr>bus_cartridge := Some (Cartridge_irq_clear (env_mapper E) c)\<rparr>)
          else s)
     | None \<Rightarrow> s)"

text \<open>The whole tick: the slot taken and the machine after it.\<close>

definition Bus_clock_obs ::
    "('m, 'a, 'r) env \<Rightarrow> ('m, 'a, 'r) Bus \<Rightarrow> slot \<times> ('m, 'a, 'r) Bus" where
  "Bus_clock_obs E s =
    (let (p, c) = env_ppu_clock E (bus_ppu s) (bus_cartridge s);
         s1 = s\<lparr>bus_ppu := p, bus_cartridge := c\<rparr>;
         (sl, s2) = Bus_cpu_slot E s1;
         s3 = Bus_nmi_check E s2;
         s4 = Bus_irq_check E s3
     in (sl, s4\<lparr>bus_system_clock_counter := bus_system_clock_counter s4 + 1\<rparr>))"

definition Bus_clock :: "('m, 'a, 'r) env \<Rightarrow> ('m, 'a, 'r) Bus \<Rightarrow> ('m, 'a, 'r) Bus" where
  "Bus_clock E s = snd (Bus_clock_obs E s)"

text \<open>\<open>n\<close> ticks: the slots taken, in order, and the machine after them.\<close>

fun Bus_run :: "('m, 'a, 'r) env \<Rightarrow> nat \<Rightarrow> ('m, 'a, 'r) Bus \<Rightarrow> slot list \<times> ('m, 'a, 'r) Bus" where
  "Bus_run E 0 s = ([], s)"
| "Bus_run E (Suc n) s =
    (let (sl, s1) = Bus_clock_obs E s;
         (sls, s2) = Bus_run E n s1
     in (sl # sls, s2))"

text \<open>\<^verbatim>\<open>Bus::reset\<close> (emulator.cpp 130-136).\<close>

definition Bus_reset :: "('m, 'a, 'r) env \<Rightarrow> ('m, 'a, 'r) Bus \<Rightarrow> ('m, 'a, 'r) Bus" where
  "Bus_reset E s =
    (let s1 = CPU_reset E s;
         s2 = s1\<lparr>bus_ppu := PPU_reset (env_ppu_pipeline_reset E) (bus_ppu s1)\<rparr>;
         s3 = s2\<lparr>bus_apu := env_apu_reset E (bus_apu s2)\<rparr>
     in s3\<lparr>bus_system_clock_counter := 0, bus_dma_transfer := False\<rparr>)"

text \<open>
  \<^verbatim>\<open>Emulator::Emulator\<close> (emulator.cpp 9-18): the constructors of \<^verbatim>\<open>Bus\<close>, \<^verbatim>\<open>CPU\<close>
  (which runs \<^verbatim>\<open>CPU::reset\<close> on the new bus) and \<^verbatim>\<open>PPU\<close>, for a constructed APU
  \<open>apu\<close>. Members the constructors do not initialise (\<^verbatim>\<open>CPU::opcode\<close>) are 0 here.
\<close>

definition Emulator_new :: "('m, 'a, 'r) env \<Rightarrow> 'a \<Rightarrow> ('m, 'a, 'r) Bus" where
  "Emulator_new E apu =
    (let bus =
       \<lparr>bus_cpu = \<lparr>cpu_A = 0, cpu_X = 0, cpu_Y = 0, cpu_SP = 0, cpu_PC = 0, cpu_P = 0,
                   cpu_total_cycles = 0, cpu_cycles_remaining = 0, cpu_addr_abs = 0,
                   cpu_addr_rel = 0, cpu_opcode = 0, cpu_fetched = 0\<rparr>,
        bus_ppu = PPU_reset (env_ppu_pipeline_reset E)
                    \<lparr>ppu_nmi = False, ppu_control = 0, ppu_mask = 0, ppu_status = 0,
                     ppu_oam_addr = 0, ppu_data_buffer = 0, ppu_vram_addr = 0,
                     ppu_tram_addr = 0, ppu_fine_x = 0, ppu_address_latch = False,
                     ppu_oam = (\<lambda>_. 0), ppu_nametable = (\<lambda>_. 0), ppu_palette = (\<lambda>_. 0),
                     ppu_pipeline = env_ppu_pipeline_reset E\<rparr>,
        bus_apu = apu,
        bus_cartridge = None,
        bus_ram = (\<lambda>_. 0x00),
        bus_controller_state = (\<lambda>_. 0x00),
        bus_controller_shift = (\<lambda>_. 0x00),
        bus_system_clock_counter = 0,
        bus_dma_transfer = False, bus_dma_page = 0x00, bus_dma_addr = 0x00,
        bus_dma_data = 0x00, bus_dma_dummy = True\<rparr>
     in CPU_reset E bus)"

text \<open>
  The smallest instance of \<open>env\<close>, to run the definitions on concrete machines:
  mapper 004, the APU reduced to the noise channel and frame sequencer of the first
  section, a PPU whose clock does nothing, and the operations not translated above
  doing nothing (as \<^verbatim>\<open>CPU::XXX\<close>).
\<close>

definition env0 :: "(Mapper004, APU, unit) env" where
  "env0 =
    \<lparr>env_mapper = Mapper004_ops,
     env_apu_cpu_read = (\<lambda>a addr.
       if addr = 0x4015 \<and> noise_length_counter (apu_noise a) > 0 then 0x08 else 0x00),
     env_apu_cpu_write = APU_cpu_write,
     env_apu_clock = (\<lambda>a rd. APU_clock a),
     env_apu_reset = (\<lambda>a. APU_reset),
     env_ppu_pipeline_reset = (),
     env_ppu_clock = (\<lambda>p c. (p, c)),
     env_cpu_operate = (\<lambda>name s. (0, s))\<rparr>"

definition machine0 :: "(Mapper004, APU, unit) Bus" where
  "machine0 = Emulator_new env0 APU_reset"

section \<open>Runs, and the machines the theorems are tried on\<close>

text \<open>
  A mapper ignores a CPU address when its \<^verbatim>\<open>cpu_read\<close> and \<^verbatim>\<open>cpu_write\<close> return
  \<^verbatim>\<open>false\<close> for it and leave the mapper as it was. Every mapper of the repository
  ignores the addresses below \<^verbatim>\<open>$6000\<close>.
\<close>

definition mapper_ignores :: "'m mapper_ops \<Rightarrow> u16 \<Rightarrow> bool" where
  "mapper_ignores ops addr =
    (\<forall>m d rom. \<not> fst (mp_cpu_read ops m addr d rom) \<and> mp_cpu_write ops m addr d = (False, m))"

text \<open>A sequence of register writes to the PPU, in order.\<close>

fun PPU_writes ::
    "'m mapper_ops \<Rightarrow> (u16 \<times> u8) list \<Rightarrow> 'r PPU \<times> 'm Cartridge option
      \<Rightarrow> 'r PPU \<times> 'm Cartridge option" where
  "PPU_writes ops [] pc = pc"
| "PPU_writes ops ((addr, data) # ws) (p, cart) =
    PPU_writes ops ws (PPU_cpu_write ops p cart addr data)"

text \<open>\<open>n\<close> successive bus reads of one address: the bytes read and the machine after.\<close>

fun Bus_reads ::
    "('m, 'a, 'r) env \<Rightarrow> u16 \<Rightarrow> nat \<Rightarrow> ('m, 'a, 'r) Bus \<Rightarrow> u8 list \<times> ('m, 'a, 'r) Bus" where
  "Bus_reads E addr 0 s = ([], s)"
| "Bus_reads E addr (Suc n) s =
    (let (d, s1) = Bus_cpu_read E s addr;
         (ds, s2) = Bus_reads E addr n s1
     in (d # ds, s2))"

text \<open>
  An iNES file with one PRG bank and one declared CHR bank of which only three bytes
  are in the file.
\<close>

definition truncated_rom :: "u8 list" where
  "truncated_rom =
     [0x4E, 0x45, 0x53, 0x1A, 1, 1, 0, 0, 0, 0, 0, 0, 0, 0, 0, 0]
       @ replicate 16384 0xEA @ [1, 2, 3]"

text \<open>
  A 32 KiB cartridge on mapper 004 holding the mapper state \<open>m\<close>, and the mapper
  after the program has written \<^verbatim>\<open>$10\<close> to the IRQ latch (\<^verbatim>\<open>$C000\<close>) and enabled the
  IRQ (\<^verbatim>\<open>$E001\<close>).
\<close>

definition mmc3_cartridge :: "Mapper004 \<Rightarrow> Mapper004 Cartridge" where
  "mmc3_cartridge m =
    \<lparr>cart_valid = True, cart_prg_rom = replicate 32768 0xEA,
     cart_chr_rom = replicate 8192 0x00, cart_prg_ram = replicate 8192 0x00,
     cart_mapper_id = 4, cart_prg_banks = 2, cart_chr_banks = 1,
     cart_mirror_mode = HORIZONTAL, cart_battery_backed = False, cart_mapper = Some m\<rparr>"

definition mmc3_armed :: Mapper004 where
  "mmc3_armed =
     snd (Mapper004_cpu_write (snd (Mapper004_cpu_write (Mapper004_new 2 1) 0xC000 0x10))
            0xE001 0x00)"

text \<open>
  The machine after construction with \<^verbatim>\<open>A = $50\<close>, the carry clear, and the operation
  \<^verbatim>\<open>ADC #imm\<close> (opcode \<^verbatim>\<open>$69\<close>) decoded with its operand \<^verbatim>\<open>$50\<close> at \<^verbatim>\<open>$0010\<close>.
\<close>

definition adc_machine :: "(Mapper004, APU, unit) Bus" where
  "adc_machine =
     machine0\<lparr>bus_cpu := (bus_cpu machine0)\<lparr>cpu_A := 0x50, cpu_opcode := 0x69,
                                               cpu_addr_abs := 0x0010\<rparr>,
              bus_ram := (\<lambda>_. 0x00)(0x0010 := 0x50)\<rparr>"

text \<open>The machine after the PPU's part of a tick (emulator.cpp 199-201).\<close>

definition Bus_ppu_clocked :: "('m, 'a, 'r) env \<Rightarrow> ('m, 'a, 'r) Bus \<Rightarrow> ('m, 'a, 'r) Bus" where
  "Bus_ppu_clocked E s =
    (let (p, c) = env_ppu_clock E (bus_ppu s) (bus_cartridge s)
     in s\<lparr>bus_ppu := p, bus_cartridge := c\<rparr>)"

text \<open>
  \<^verbatim>\<open>PPU::clock\<close> reads OAM (sprite evaluation, part_000 220-231) and writes neither OAM
  nor \<^verbatim>\<open>oam_addr\<close>. This is what the DMA theorem needs of the function taken for it.
\<close>

definition ppu_clock_keeps_oam :: "('m, 'a, 'r) env \<Rightarrow> bool" where
  "ppu_clock_keeps_oam E =
    (\<forall>p c. ppu_oam (fst (env_ppu_clock E p c)) = ppu_oam p
          \<and> ppu_oam_addr (fst (env_ppu_clock E p c)) = ppu_oam_addr p)"

text \<open>
  The part of the machine that the DMA block of \<^verbatim>\<open>Bus::clock\<close> works on: the DMA
  registers, the tick counter, OAM and its address register, and with them the cycle
  counter of the CPU, which only \<^verbatim>\<open>CPU::clock\<close> advances.
\<close>

record DmaView =
  dv_transfer :: bool
  dv_dummy :: bool
  dv_page :: u8
  dv_addr :: u8
  dv_data :: u8
  dv_counter :: "64 word"
  dv_total_cycles :: "64 word"
  dv_oam :: "u8 \<Rightarrow> u8"
  dv_oam_addr :: u8

definition dma_view :: "('m, 'a, 'r) Bus \<Rightarrow> DmaView" where
  "dma_view s =
    \<lparr>dv_transfer = bus_dma_transfer s, dv_dummy = bus_dma_dummy s, dv_page = bus_dma_page s,
     dv_addr = bus_dma_addr s, dv_data = bus_dma_data s,
     dv_counter = bus_system_clock_counter s,
     dv_total_cycles = cpu_total_cycles (bus_cpu s),
     dv_oam = ppu_oam (bus_ppu s), dv_oam_addr = ppu_oam_addr (bus_ppu s)\<rparr>"

text \<open>
  With \<open>s\<close> the machine two ticks before a read slot of the DMA, the byte that the
  \<open>i\<close>-th read slot from there reads: the slots of a read-write pair are six ticks
  apart, and the read is made after the PPU's part of its tick.
\<close>

definition dma_read_byte :: "('m, 'a, 'r) env \<Rightarrow> ('m, 'a, 'r) Bus \<Rightarrow> nat \<Rightarrow> u8" where
  "dma_read_byte E s i =
     fst (Bus_cpu_read E (Bus_ppu_clocked E (snd (Bus_run E (6 * i + 2) s)))
            (push_bit 8 (ucast (bus_dma_page s)) OR ucast (bus_dma_addr s + of_nat i)))"

text \<open>
  The machine after construction with the reset sequence over, \<^verbatim>\<open>A = $02\<close>, and the
  instruction \<^verbatim>\<open>STA $4014\<close> at \<^verbatim>\<open>PC = $0000\<close> in RAM.
\<close>

definition sta_machine :: "(Mapper004, APU, unit) Bus" where
  "sta_machine =
     machine0\<lparr>bus_cpu := (bus_cpu machine0)\<lparr>cpu_A := 0x02, cpu_cycles_remaining := 0\<rparr>,
              bus_ram := (\<lambda>_. 0x00)(0x0000 := 0x8D, 0x0001 := 0x14, 0x0002 := 0x40)\<rparr>"

text \<open>
  The machine after construction with the reset sequence over, I clear, an MMC3
  cartridge whose mapper is in state \<open>m\<close>, and the instruction \<^verbatim>\<open>STA $E000\<close>, which
  acknowledges and disables the mapper's IRQ, at \<^verbatim>\<open>PC = $0000\<close> in RAM.
\<close>

definition irq_machine :: "Mapper004 \<Rightarrow> (Mapper004, APU, unit) Bus" where
  "irq_machine m =
     machine0\<lparr>bus_cpu := (bus_cpu machine0)\<lparr>cpu_P := 0x20, cpu_cycles_remaining := 0\<rparr>,
              bus_cartridge := Some (mmc3_cartridge m),
              bus_ram := (\<lambda>_. 0x00)(0x0000 := 0x8D, 0x0001 := 0x00, 0x0002 := 0xE0)\<rparr>"

section \<open>The noise shift register is never zero\<close>

lemma drop_bit_1_zero_imp_one:
  fixes s :: "16 word"
  assumes "s \<noteq> 0" and "drop_bit 1 s = 0"
  shows "s = 1"
proof -
  have "unat s div 2 = 0"
    using assms(2) by (metis unat_drop_bit_eq drop_bit_eq_div power_one_right unat_0 drop_bit_nat_def)
  then have "unat s < 2" by simp
  moreover have "unat s \<noteq> 0" using assms(1) by (simp add: unat_eq_0)
  ultimately have "unat s = 1" by simp
  then show ?thesis by (metis unat_1 word_unat_eq_iff)
qed

lemma lfsr_step_nonzero:
  fixes s :: "16 word"
  assumes "s \<noteq> 0" and "k = 1 \<or> k = 6"
  shows "drop_bit 1 s OR push_bit 14 ((s AND 1) XOR (drop_bit k s AND 1)) \<noteq> 0"
proof (cases "drop_bit 1 s = 0")
  case False
  then show ?thesis by (simp add: or_eq_0_iff)
next
  case True
  with assms(1) have "s = 1" by (rule drop_bit_1_zero_imp_one)
  then show ?thesis using assms(2) by auto
qed

lemma lfsr_step_bit14:
  fixes s :: "16 word"
  assumes "\<not> bit s 15" and "k = 1 \<or> k = 6"
  shows "bit (drop_bit 1 s OR push_bit 14 ((s AND 1) XOR (drop_bit k s AND 1))) 14
           = (bit s 0 \<noteq> bit s k)"
  using assms by (auto simp add: bit_simps)

lemma lfsr_step_low_bits:
  fixes s :: "16 word"
  assumes "i < 14"
  shows "bit (drop_bit 1 s OR push_bit 14 ((s AND 1) XOR (drop_bit k s AND 1))) i = bit s (Suc i)"
  using assms by (auto simp add: bit_simps)

lemma lfsr_step_bit15:
  fixes s :: "16 word"
  shows "\<not> bit (drop_bit 1 s OR push_bit 14 ((s AND 1) XOR (drop_bit k s AND 1))) 15"
  by (auto simp add: bit_simps dest: bit_imp_le_length)

lemma Noise_clock_timer_shift_register:
  "noise_shift_register (Noise_clock_timer n) =
     (if noise_timer_counter n = 0
      then drop_bit 1 (noise_shift_register n)
           OR push_bit 14 ((noise_shift_register n AND 1)
                XOR (drop_bit (if noise_mode n then 6 else 1) (noise_shift_register n) AND 1))
      else noise_shift_register n)"
  by (simp add: Noise_clock_timer_def Let_def)

lemma Noise_clock_timer_nonzero:
  "noise_shift_register n \<noteq> 0 \<Longrightarrow> noise_shift_register (Noise_clock_timer n) \<noteq> 0"
  unfolding Noise_clock_timer_shift_register
  using lfsr_step_nonzero [of "noise_shift_register n"] by simp

lemma Noise_clock_timer_bit15:
  "\<not> bit (noise_shift_register n) 15 \<Longrightarrow> \<not> bit (noise_shift_register (Noise_clock_timer n)) 15"
  unfolding Noise_clock_timer_shift_register using lfsr_step_bit15 by simp

lemma Noise_clock_envelope_shift_register [simp]:
  "noise_shift_register (Noise_clock_envelope n) = noise_shift_register n"
  by (simp add: Noise_clock_envelope_def Let_def)

lemma Noise_clock_length_shift_register [simp]:
  "noise_shift_register (Noise_clock_length n) = noise_shift_register n"
  by (simp add: Noise_clock_length_def)

lemma APU_clock_nonzero:
  assumes "noise_shift_register (apu_noise a) \<noteq> 0"
  shows "noise_shift_register (apu_noise (APU_clock a)) \<noteq> 0"
  using assms
  by (simp add: APU_clock_def Let_def clock_quarter_frame_def clock_half_frame_def
        Noise_clock_timer_nonzero)

lemma APU_clock_bit15:
  assumes "\<not> bit (noise_shift_register (apu_noise a)) 15"
  shows "\<not> bit (noise_shift_register (apu_noise (APU_clock a))) 15"
  using assms
  by (simp add: APU_clock_def Let_def clock_quarter_frame_def clock_half_frame_def
        Noise_clock_timer_bit15)

lemma APU_cpu_write_shift_register [simp]:
  "noise_shift_register (apu_noise (APU_cpu_write a addr data)) = noise_shift_register (apu_noise a)"
  by (simp add: APU_cpu_write_def Let_def clock_quarter_frame_def clock_half_frame_def)

lemma APU_reachable_shift_register:
  "APU_reachable a \<Longrightarrow>
     noise_shift_register (apu_noise a) \<noteq> 0 \<and> \<not> bit (noise_shift_register (apu_noise a)) 15"
proof (induction rule: APU_reachable.induct)
  case reach_reset
  show ?case by (simp add: APU_reset_def)
next
  case (reach_clock a)
  then show ?case by (simp add: APU_clock_nonzero APU_clock_bit15)
next
  case (reach_write a addr data)
  then show ?case by simp
qed

text \<open>
  C9. \<^verbatim>\<open>APU::reset\<close> seeds the noise shift register with 1. A step of
  \<^verbatim>\<open>Noise::clock_timer\<close> with the timer at 0 shifts a 15-bit value right by one and puts
  the feedback, bit 0 XOR bit 6 in mode 1 and bit 0 XOR bit 1 in mode 0, into bit 14;
  with the timer not at 0 it leaves the register alone. Either way a non-zero register
  stays non-zero. Hence in every APU state reachable from reset by clocks and register
  writes the shift register is non-zero (and has 15 bits).
\<close>

theorem noise_shift_register_never_zero:
  "noise_shift_register (apu_noise APU_reset) = 1
   \<and> (\<forall>n :: Noise. noise_timer_counter n = 0 \<and> \<not> bit (noise_shift_register n) 15 \<longrightarrow>
        bit (noise_shift_register (Noise_clock_timer n)) 14
          = (bit (noise_shift_register n) 0
               \<noteq> bit (noise_shift_register n) (if noise_mode n then 6 else 1))
        \<and> (\<forall>i < 14. bit (noise_shift_register (Noise_clock_timer n)) i
                       = bit (noise_shift_register n) (Suc i))
        \<and> \<not> bit (noise_shift_register (Noise_clock_timer n)) 15)
   \<and> (\<forall>n :: Noise. noise_timer_counter n \<noteq> 0 \<longrightarrow>
        noise_shift_register (Noise_clock_timer n) = noise_shift_register n)
   \<and> (\<forall>n :: Noise. noise_shift_register n \<noteq> 0 \<longrightarrow>
        noise_shift_register (Noise_clock_timer n) \<noteq> 0)
   \<and> (\<forall>a. APU_reachable a \<longrightarrow>
        noise_shift_register (apu_noise a) \<noteq> 0 \<and> \<not> bit (noise_shift_register (apu_noise a)) 15)"
proof (intro conjI allI impI)
  show "noise_shift_register (apu_noise APU_reset) = 1" by (simp add: APU_reset_def)
next
  fix n :: Noise
  assume a: "noise_timer_counter n = 0 \<and> \<not> bit (noise_shift_register n) 15"
  show "bit (noise_shift_register (Noise_clock_timer n)) 14
          = (bit (noise_shift_register n) 0
               \<noteq> bit (noise_shift_register n) (if noise_mode n then 6 else 1))"
    using a lfsr_step_bit14 [of "noise_shift_register n" "if noise_mode n then 6 else 1"]
    by (simp add: Noise_clock_timer_shift_register)
  show "\<not> bit (noise_shift_register (Noise_clock_timer n)) 15"
    using a by (simp add: Noise_clock_timer_bit15)
  fix i :: nat
  assume "i < 14"
  then show "bit (noise_shift_register (Noise_clock_timer n)) i = bit (noise_shift_register n) (Suc i)"
    using a lfsr_step_low_bits [of i "noise_shift_register n"]
    by (simp add: Noise_clock_timer_shift_register)
next
  fix n :: Noise
  assume "noise_timer_counter n \<noteq> 0"
  then show "noise_shift_register (Noise_clock_timer n) = noise_shift_register n"
    by (simp add: Noise_clock_timer_shift_register)
next
  fix n :: Noise
  assume "noise_shift_register n \<noteq> 0"
  then show "noise_shift_register (Noise_clock_timer n) \<noteq> 0"
    by (rule Noise_clock_timer_nonzero)
next
  fix a
  assume "APU_reachable a"
  then show "noise_shift_register (apu_noise a) \<noteq> 0"
    and "\<not> bit (noise_shift_register (apu_noise a)) 15"
    using APU_reachable_shift_register by blast+
qed

text \<open>
  The first clock after reset steps the register from 1 to \<^verbatim>\<open>$4000\<close>; the state is
  reachable and the register non-zero.
\<close>

theorem noise_shift_register_never_zero_witness:
  "APU_reachable (APU_clock APU_reset)
   \<and> noise_shift_register (apu_noise (APU_clock APU_reset)) = 0x4000
   \<and> noise_shift_register (apu_noise (APU_clock APU_reset)) \<noteq> 0"
proof -
  have r: "APU_reachable (APU_clock APU_reset)"
    by (rule reach_clock) (rule reach_reset)
  have v: "noise_shift_register (apu_noise (APU_clock APU_reset)) = 0x4000"
    by (simp add: APU_clock_def APU_reset_def Noise_clock_timer_def Let_def)
  show ?thesis
    using r v noise_shift_register_never_zero by blast
qed

section \<open>Mapper 004 reads stay inside the PRG ROM\<close>

lemma Mapper004_mapped_addr_bound:
  assumes "m4_prg_banks m \<noteq> 0"
  shows "Mapper004_mapped_addr m addr < unat (m4_prg_banks m) * 16384"
proof -
  let ?t = "Mapper004_total_8kb_banks m"
  have t: "0 < ?t"
    using assms by (simp add: Mapper004_total_8kb_banks_def unat_gt_0)
  have b: "unat (m4_prg_bank m (Mapper004_bank_idx addr)) mod ?t \<le> ?t - 1"
    using t by (metis Suc_pred' less_Suc_eq_le mod_less_divisor)
  have "unat (addr AND 0x1FFF) \<le> unat (0x1FFF :: u16)"
    by (rule word_and_le1 [THEN word_le_nat_alt [THEN iffD1]])
  then have o: "unat (addr AND 0x1FFF) < 0x2000" by simp
  have "Mapper004_mapped_addr m addr < (?t - 1) * 0x2000 + 0x2000"
    unfolding Mapper004_mapped_addr_def using b o
    by (meson add_le_less_mono mult_le_mono1)
  also have "\<dots> = ?t * 0x2000" using t by (simp add: algebra_simps)
  also have "\<dots> = unat (m4_prg_banks m) * 16384"
    by (simp add: Mapper004_total_8kb_banks_def)
  finally show ?thesis .
qed

text \<open>
  C10. For every mapper state with \<^verbatim>\<open>prg_banks >= 1\<close> and every address in
  \<^verbatim>\<open>$8000-$FFFF\<close>, \<^verbatim>\<open>Mapper004::cpu_read\<close> takes the selected bank register modulo
  \<^verbatim>\<open>2 * prg_banks\<close> before it forms the offset, the offset is below
  \<^verbatim>\<open>prg_banks * 16384\<close>, and on a PRG ROM of that size the read is in range and returns
  the byte at the offset.
\<close>

theorem Mapper004_cpu_read_in_prg_rom:
  assumes "m4_prg_banks m \<noteq> 0" and "0x8000 \<le> addr"
    and "length prg_rom = unat (m4_prg_banks m) * 16384"
  shows "Mapper004_mapped_addr m addr =
           (unat (m4_prg_bank m (Mapper004_bank_idx addr)) mod (2 * unat (m4_prg_banks m))) * 8192
             + unat (addr AND 0x1FFF)
         \<and> Mapper004_mapped_addr m addr < unat (m4_prg_banks m) * 16384
         \<and> Mapper004_cpu_read m addr data prg_rom
             = Some (True, prg_rom ! Mapper004_mapped_addr m addr)"
proof -
  have t: "Mapper004_total_8kb_banks m \<noteq> 0"
    using assms(1) by (simp add: Mapper004_total_8kb_banks_def unat_eq_0)
  have r: "\<not> addr \<le> 0x7FFF"
    using assms(2) by (auto simp: word_le_nat_alt)
  have r2: "addr \<le> 0xFFFF"
    using unsigned_less [of addr, where ?'a = nat] by (simp add: word_le_nat_alt)
  show ?thesis
    using Mapper004_mapped_addr_bound [OF assms(1), of addr] t r r2 assms(2,3)
    by (simp add: Mapper004_cpu_read_def Mapper004_mapped_addr_def
          Mapper004_total_8kb_banks_def mult.commute)
qed

theorem Mapper004_cpu_read_in_prg_rom_witness:
  "Mapper004_mapped_addr (Mapper004_new 2 1) 0xFFFC = 0x7FFC
   \<and> Mapper004_cpu_read (Mapper004_new 2 1) 0xFFFC 0 (replicate 32768 0xEA) = Some (True, 0xEA)"
proof -
  have b: "m4_prg_banks (Mapper004_new 2 1) = 2"
    by (simp add: Mapper004_new_def Mapper004_reset_def Mapper004_update_banks_def Let_def)
  have h1: "m4_prg_banks (Mapper004_new 2 1) \<noteq> 0" by (simp add: b)
  have h2: "(0x8000 :: u16) \<le> 0xFFFC" by simp
  have h3: "length (replicate 32768 (0xEA :: u8)) = unat (m4_prg_banks (Mapper004_new 2 1)) * 16384"
    by (simp add: b)
  have pb: "m4_prg_bank (Mapper004_new 2 1) 3 = 3"
    by (simp add: Mapper004_new_def Mapper004_reset_def Mapper004_update_banks_def Let_def)
  have i: "Mapper004_bank_idx 0xFFFC = 3" by (simp add: Mapper004_bank_idx_def)
  have a: "(0xFFFC :: u16) AND 0x1FFF = 0x1FFC" by simp
  have m: "Mapper004_mapped_addr (Mapper004_new 2 1) 0xFFFC = 0x7FFC"
    by (simp add: Mapper004_mapped_addr_def Mapper004_total_8kb_banks_def b pb i a)
  show ?thesis
    using Mapper004_cpu_read_in_prg_rom [OF h1 h2 h3, of 0] m
    by simp
qed

section \<open>The MMC3 scanline counter and its IRQ\<close>

lemma scanlines_Suc_right: "scanlines (Suc n) m = Mapper004_scanline (scanlines n m)"
  by (induction n arbitrary: m) simp_all

lemma scanlines_countdown:
  assumes "\<not> m4_irq_reload m" and "n < unat (m4_irq_counter m)"
  shows "scanlines n m = m\<lparr>m4_irq_counter := m4_irq_counter m - of_nat n\<rparr>"
  using assms
proof (induction n arbitrary: m)
  case 0
  then show ?case by simp
next
  case (Suc n)
  let ?c = "m4_irq_counter m"
  have c0: "?c \<noteq> 0" using Suc.prems(2) by (auto simp: unat_eq_0)
  have u1: "unat (?c - 1) = unat ?c - 1" using c0
    by (simp add: unat_minus_one)
  have c1: "?c - 1 \<noteq> 0" using Suc.prems(2) u1 by (auto simp: unat_eq_0 simp flip: unat_eq_0)
  have step: "Mapper004_scanline m = m\<lparr>m4_irq_counter := ?c - 1\<rparr>"
    using Suc.prems(1) c0 c1 by (simp add: Mapper004_scanline_def Let_def)
  have "scanlines n (m\<lparr>m4_irq_counter := ?c - 1\<rparr>)
          = (m\<lparr>m4_irq_counter := ?c - 1\<rparr>)\<lparr>m4_irq_counter := (?c - 1) - of_nat n\<rparr>"
    using Suc.IH [of "m\<lparr>m4_irq_counter := ?c - 1\<rparr>"] Suc.prems u1 by simp
  then show ?case by (simp add: step algebra_simps)
qed

lemma scanlines_latch_16:
  assumes l: "m4_irq_latch m = 0x10" and e: "m4_irq_enable m" and c: "m4_irq_counter m = 0"
    and a: "\<not> m4_irq_active m"
  shows "(\<forall>n < 17. \<not> Mapper004_irq_state (scanlines n m))
         \<and> scanlines 17 m = m\<lparr>m4_irq_counter := 0, m4_irq_reload := False, m4_irq_active := True\<rparr>"
proof -
  define m1 where "m1 = m\<lparr>m4_irq_counter := 0x10, m4_irq_reload := False\<rparr>"
  have first: "Mapper004_scanline m = m1"
    using l c by (simp add: Mapper004_scanline_def Let_def m1_def)
  have down: "scanlines k m1 = m1\<lparr>m4_irq_counter := 0x10 - of_nat k\<rparr>" if "k < 16" for k
    using scanlines_countdown [of m1 k] that by (simp add: m1_def)
  have early: "\<not> Mapper004_irq_state (scanlines n m)" if "n < 17" for n
  proof (cases n)
    case 0
    then show ?thesis using a by (simp add: Mapper004_irq_state_def)
  next
    case (Suc k)
    then have "k < 16" using that by simp
    then show ?thesis using Suc first down [of k] a
      by (simp add: Mapper004_irq_state_def m1_def)
  qed
  have "scanlines 17 m = Mapper004_scanline (scanlines 15 m1)"
  proof -
    have "scanlines 17 m = scanlines 16 m1"
      using first by (simp add: eval_nat_numeral)
    also have "\<dots> = Mapper004_scanline (scanlines 15 m1)"
      using scanlines_Suc_right [of 15 m1] by (simp add: eval_nat_numeral)
    finally show ?thesis .
  qed
  also have "\<dots> = Mapper004_scanline (m1\<lparr>m4_irq_counter := 1\<rparr>)"
    using down [of 15] by simp
  finally have "scanlines 17 m
      = m\<lparr>m4_irq_counter := 0, m4_irq_reload := False, m4_irq_active := True\<rparr>"
    using e by (simp add: Mapper004_scanline_def Let_def m1_def)
  then show ?thesis using early by blast
qed

lemma Mapper004_scanline_counter:
  "(m4_irq_reload m \<or> m4_irq_counter m = 0 \<longrightarrow>
        m4_irq_counter (Mapper004_scanline m) = m4_irq_latch m)
   \<and> (\<not> (m4_irq_reload m \<or> m4_irq_counter m = 0) \<longrightarrow>
        m4_irq_counter (Mapper004_scanline m) = m4_irq_counter m - 1)
   \<and> \<not> m4_irq_reload (Mapper004_scanline m)
   \<and> Mapper004_irq_state (Mapper004_scanline m)
        = (m4_irq_active m \<or> (m4_irq_counter (Mapper004_scanline m) = 0 \<and> m4_irq_enable m))
   \<and> (m4_irq_counter m = 1 \<and> \<not> m4_irq_reload m \<and> m4_irq_enable m \<longrightarrow>
        Mapper004_irq_state (Mapper004_scanline m))
   \<and> m4_irq_latch (Mapper004_scanline m) = m4_irq_latch m
   \<and> m4_irq_enable (Mapper004_scanline m) = m4_irq_enable m"
  by (auto simp add: Mapper004_scanline_def Mapper004_irq_state_def Let_def)

lemma mmc3_armed_eq:
  "mmc3_armed = (Mapper004_new 2 1)\<lparr>m4_irq_latch := 0x10, m4_irq_enable := True\<rparr>"
  by (simp add: mmc3_armed_def Mapper004_cpu_write_def)

section \<open>Loading a ROM file whose CHR data is cut short\<close>

lemma resize_length [simp]: "length (resize n v xs) = n"
  by (simp add: resize_def)

lemma resize_0 [simp]: "resize 0 v xs = []"
  by (simp add: resize_def)

lemma memcpy_from_all:
  "length dst = n \<Longrightarrow> memcpy_from dst src offset n = take n (drop offset src)"
  by (simp add: memcpy_from_def)

text \<open>
  C6. \<open>offset\<close> is where the CHR data starts in the file: after the header, the
  trainer if there is one, and the PRG ROM. When the PRG ROM is all there, the file
  declares CHR banks, and fewer than the declared \<^verbatim>\<open>8192 * data[5]\<close> bytes remain from
  \<open>offset\<close>, \<^verbatim>\<open>load_ines\<close> returns \<^verbatim>\<open>true\<close>, but the CHR store is only the bytes that
  remain: it is shorter than the declared size and no tail of zeros is added. The
  mapper is still created for the declared number of banks and reads the store at
  offsets up to the declared size, so a pattern read past the bytes of the file is a
  read past the end of the store (\<open>None\<close> in \<open>Mapper004_ppu_read\<close>).
\<close>

theorem load_ines_truncated_chr:
  fixes c :: "'m Cartridge"
  assumes "16 \<le> length data"
    and "offset = 16 + (if data ! 6 AND 0x04 \<noteq> 0 then 512 else 0) + unat (data ! 4) * 16384"
    and "offset \<le> length data"
    and "data ! 5 \<noteq> 0"
    and "length data < offset + unat (data ! 5) * 8192"
  shows "map_option fst (load_ines data dirty c) = Some True
       \<and> map_option (cart_chr_rom \<circ> snd) (load_ines data dirty c) = Some (drop offset data)
       \<and> length (drop offset data) = length data - offset
       \<and> length data - offset < unat (data ! 5) * 8192"
proof -
  have l: "\<not> length data < 16" using assms(1) by simp
  have p: "\<not> (16 + (if data ! 6 AND 0x04 \<noteq> 0 then 512 else 0) + unat (data ! 4) * 16384
              > length data)"
    using assms(2,3) by simp
  show ?thesis
    using l p assms(2-5)
    by (auto simp add: load_ines_def Let_def memcpy_from_all)
qed

theorem load_ines_truncated_chr_witness:
  "map_option fst (load_ines truncated_rom False (Cartridge_empty :: unit Cartridge)) = Some True
   \<and> map_option (cart_chr_rom \<circ> snd) (load_ines truncated_rom False (Cartridge_empty :: unit Cartridge))
       = Some (drop 16400 truncated_rom)
   \<and> length truncated_rom - 16400 = 3"
proof -
  have len: "length truncated_rom = 16403" by (simp add: truncated_rom_def)
  have b: "truncated_rom ! 4 = 1" "truncated_rom ! 5 = 1" "truncated_rom ! 6 = 0"
    by (simp_all add: truncated_rom_def)
  show ?thesis
    using load_ines_truncated_chr [of truncated_rom 16400 False "Cartridge_empty :: unit Cartridge"]
    by (simp add: len b)
qed

theorem load_ines_truncated_chr_not_filled:
  "map_option fst (load_ines truncated_rom False (Cartridge_empty :: unit Cartridge)) = Some True
   \<and> map_option (cart_chr_rom \<circ> snd) (load_ines truncated_rom False (Cartridge_empty :: unit Cartridge))
       = Some [1, 2, 3]
   \<and> unat (truncated_rom ! 5) * 8192 = 8192"
  by (simp add: load_ines_def truncated_rom_def Let_def memcpy_from_def resize_def
        Cartridge_empty_def nth_append)

text \<open>
  On the three-byte store that the file above is loaded to, a mapper 004 made for one
  declared CHR bank reads the third byte, and is past the end of the store at the
  fourth: the mappers take the declared size as the bound.
\<close>

lemma truncated_chr_read_past_end:
  "Mapper004_ppu_read (Mapper004_new 1 1) 0x0002 0x00 [1, 2, 3] = Some (True, 3)
   \<and> Mapper004_ppu_read (Mapper004_new 1 1) 0x0003 0x00 [1, 2, 3] = None"
  by (simp add: Mapper004_ppu_read_def Mapper004_chr_addr_def Mapper004_new_def
        Mapper004_reset_def Mapper004_update_banks_def Let_def)

section \<open>Bytes, flags, the stack and the machine after construction\<close>

subsection \<open>Bytes and 16-bit words\<close>

lemma and_0x80_bit7: "(w AND 0x80 \<noteq> 0) = bit w 7" for w :: "'a::len word"
  using and_exp_eq_0_iff_not_bit [of w 7] by simp

lemma xFF_mask: "(0xFF :: 'a::len word) = mask 8"
  by (simp add: mask_eq_decr_exp)

lemma unat_u8_less: "unat (a :: u8) < 256"
  using unsigned_less [of a, where ?'a = nat] by simp

lemma unat_ucast_8_16: "unat (ucast (a :: u8) :: u16) = unat a"
proof -
  have "unat a < 2 ^ 16" using unat_u8_less [of a] by simp
  then show ?thesis by (simp add: unsigned_ucast_eq take_bit_nat_eq_self)
qed

lemma adc_sum:
  fixes a m :: u8 and c :: nat
  assumes "c \<le> 1"
  shows "unat ((ucast a :: u16) + ucast m + of_nat c) = unat a + unat m + c"
proof -
  have "unat a + unat m + c < 2 ^ 16"
    using assms(1) unat_u8_less [of a] unat_u8_less [of m] by simp
  then show ?thesis
    by (simp add: unat_word_ariths unat_ucast_8_16 unat_of_nat)
qed

lemma unat_and_xFF: "unat (t AND 0xFF) = unat t mod 256" for t :: u16
proof -
  have "t AND 0xFF = take_bit 8 t" unfolding xFF_mask by (simp add: take_bit_eq_mask)
  then have "unat (t AND 0xFF) = take_bit 8 (unat t)" by (simp only: unsigned_take_bit_eq)
  then show ?thesis by (simp add: take_bit_eq_mod)
qed

lemma unat_ucast_16_8: "unat (ucast t :: u8) = unat t mod 256" for t :: u16
  by (simp add: unsigned_ucast_eq take_bit_eq_mod)

lemma low_byte: "(ucast (t AND 0xFF) :: u8) = ucast t" for t :: u16
proof -
  have "unat (ucast (t AND 0xFF) :: u8) = unat (ucast t :: u8)"
    by (simp add: unat_ucast_16_8 unat_and_xFF)
  then show ?thesis by (simp only: word_unat_eq_iff)
qed

lemma low_byte_zero: "(t AND 0xFF = 0) = ((ucast t :: u8) = 0)" for t :: u16
proof -
  have "(t AND 0xFF = 0) = (unat (t AND 0xFF) = 0)" by (simp add: unat_eq_0)
  also have "\<dots> = (unat (ucast t :: u8) = 0)" by (simp add: unat_ucast_16_8 unat_and_xFF)
  also have "\<dots> = ((ucast t :: u8) = 0)" by (simp add: unat_eq_0)
  finally show ?thesis .
qed

subsection \<open>Status flags\<close>

lemmas flag_defs = flag_C_def flag_Z_def flag_I_def flag_D_def flag_B_def flag_U_def flag_V_def flag_N_def

lemma get_flag_bit:
  "get_flag flag_C p = bit p 0" "get_flag flag_Z p = bit p 1" "get_flag flag_I p = bit p 2"
  "get_flag flag_D p = bit p 3" "get_flag flag_B p = bit p 4" "get_flag flag_U p = bit p 5"
  "get_flag flag_V p = bit p 6" "get_flag flag_N p = bit p 7"
  using and_exp_eq_0_iff_not_bit [of p 0] and_exp_eq_0_iff_not_bit [of p 1]
    and_exp_eq_0_iff_not_bit [of p 2] and_exp_eq_0_iff_not_bit [of p 3]
    and_exp_eq_0_iff_not_bit [of p 4] and_exp_eq_0_iff_not_bit [of p 5]
    and_exp_eq_0_iff_not_bit [of p 6] and_exp_eq_0_iff_not_bit [of p 7]
  by (simp_all add: get_flag_def flag_defs)

lemma set_flag_exp:
  "set_flag flag_C v p = (if v then set_bit 0 p else unset_bit 0 p)"
  "set_flag flag_Z v p = (if v then set_bit 1 p else unset_bit 1 p)"
  "set_flag flag_I v p = (if v then set_bit 2 p else unset_bit 2 p)"
  "set_flag flag_D v p = (if v then set_bit 3 p else unset_bit 3 p)"
  "set_flag flag_B v p = (if v then set_bit 4 p else unset_bit 4 p)"
  "set_flag flag_U v p = (if v then set_bit 5 p else unset_bit 5 p)"
  "set_flag flag_V v p = (if v then set_bit 6 p else unset_bit 6 p)"
  "set_flag flag_N v p = (if v then set_bit 7 p else unset_bit 7 p)"
  by (simp_all add: set_flag_def flag_defs set_bit_eq_or unset_bit_eq_and_not)

lemma bit_set_flag:
  "bit (set_flag flag_C v p) n = (if n = 0 then v else bit p n)"
  "bit (set_flag flag_Z v p) n = (if n = 1 then v else bit p n)"
  "bit (set_flag flag_I v p) n = (if n = 2 then v else bit p n)"
  "bit (set_flag flag_D v p) n = (if n = 3 then v else bit p n)"
  "bit (set_flag flag_B v p) n = (if n = 4 then v else bit p n)"
  "bit (set_flag flag_U v p) n = (if n = 5 then v else bit p n)"
  "bit (set_flag flag_V v p) n = (if n = 6 then v else bit p n)"
  "bit (set_flag flag_N v p) n = (if n = 7 then v else bit p n)"
  by (auto simp add: set_flag_exp bit_simps)

lemma Bus_cpu_read_cpu [simp]: "bus_cpu (snd (Bus_cpu_read E s a)) = bus_cpu s"
  by (simp add: Bus_cpu_read_def Let_def split_beta split: option.splits)

lemma CPU_fetch_cpu:
  "bus_cpu (snd (CPU_fetch E s)) = (bus_cpu s)\<lparr>cpu_fetched := fst (CPU_fetch E s)\<rparr>"
  by (simp add: CPU_fetch_def Let_def split_beta upd_cpu_def)

lemma upd_cpu_cpu [simp]: "bus_cpu (upd_cpu f s) = f (bus_cpu s)"
  by (simp add: upd_cpu_def)

lemma CPU_set_flag_cpu [simp]:
  "bus_cpu (CPU_set_flag f v s) = (bus_cpu s)\<lparr>cpu_P := set_flag f v (cpu_P (bus_cpu s))\<rparr>"
  by (simp add: CPU_set_flag_def)

lemma bit7_ucast: "bit (ucast (a :: u8) :: u16) 7 = bit a 7"
  by (simp add: bit_simps)

lemma bit7_ucast_down: "bit (ucast (t :: u16) :: u8) 7 = bit t 7"
  by (simp add: bit_simps)

subsection \<open>The stack page and the cartridge space\<close>

lemma stack_addr_unat: "unat (0x0100 + ucast (sp :: u8) :: u16) = 256 + unat sp"
proof -
  have "256 + unat sp < 2 ^ 16" using unat_u8_less [of sp] by simp
  then show ?thesis by (simp add: unat_word_ariths unat_ucast_8_16)
qed

lemma stack_addr_range:
  "(0x0100 :: u16) \<le> 0x0100 + ucast (sp :: u8)" "0x0100 + ucast (sp :: u8) \<le> (0x01FF :: u16)"
  "0x0100 + ucast (sp :: u8) \<le> (0x1FFF :: u16)"
  using unat_u8_less [of sp] by (simp_all add: word_le_nat_alt stack_addr_unat)

lemma stack_addr_mask: "(0x0100 + ucast (sp :: u8) :: u16) AND 0x07FF = 0x0100 + ucast sp"
proof -
  have m: "(0x07FF :: u16) = mask 11" by (simp add: mask_eq_decr_exp)
  have "(0x0100 + ucast sp :: u16) < 2 ^ 11"
    using unat_u8_less [of sp] by (simp add: word_less_nat_alt stack_addr_unat)
  then have "(0x0100 + ucast sp :: u16) AND mask 11 = 0x0100 + ucast sp"
    by (rule less_mask_eq)
  then show ?thesis by (simp only: m)
qed

lemma Cartridge_cpu_write_ignored:
  assumes "mapper_ignores ops a"
  shows "Cartridge_cpu_write ops c a d = (False, c)"
  using assms by (auto simp add: Cartridge_cpu_write_def mapper_ignores_def split: option.splits)

lemma Cartridge_cpu_read_ignored:
  assumes "mapper_ignores ops a"
  shows "\<not> fst (Cartridge_cpu_read ops c a d)"
  using assms by (auto simp add: Cartridge_cpu_read_def mapper_ignores_def split: option.splits)

lemma Bus_cpu_write_ram:
  assumes "mapper_ignores (env_mapper E) a" and "a \<le> 0x1FFF"
  shows "Bus_cpu_write E s a d = s\<lparr>bus_ram := (bus_ram s)(a AND 0x07FF := d)\<rparr>"
  using assms
  by (cases "bus_cartridge s") (simp_all add: Bus_cpu_write_def Cartridge_cpu_write_ignored)

lemma Bus_cpu_read_ram:
  assumes "mapper_ignores (env_mapper E) a" and "a \<le> 0x1FFF"
  shows "Bus_cpu_read E s a = (bus_ram s (a AND 0x07FF), s)"
  using assms Cartridge_cpu_read_ignored [OF assms(1)]
  by (cases "bus_cartridge s") (auto simp add: Bus_cpu_read_def split_beta)

lemma CPU_push_ram:
  assumes "\<forall>a. 0x0100 \<le> a \<and> a \<le> 0x01FF \<longrightarrow> mapper_ignores (env_mapper E) a"
  shows "CPU_push E d s =
    s\<lparr>bus_ram := (bus_ram s)(0x0100 + ucast (cpu_SP (bus_cpu s)) := d),
      bus_cpu := (bus_cpu s)\<lparr>cpu_SP := cpu_SP (bus_cpu s) - 1\<rparr>\<rparr>"
proof -
  have "mapper_ignores (env_mapper E) (0x0100 + ucast (cpu_SP (bus_cpu s)))"
    using assms stack_addr_range by blast
  then show ?thesis
    by (simp add: CPU_push_def Bus_cpu_write_ram stack_addr_range stack_addr_mask upd_cpu_def)
qed

lemma CPU_pop_ram:
  assumes "\<forall>a. 0x0100 \<le> a \<and> a \<le> 0x01FF \<longrightarrow> mapper_ignores (env_mapper E) a"
  shows "CPU_pop E s =
    (bus_ram s (0x0100 + ucast (cpu_SP (bus_cpu s) + 1)),
     s\<lparr>bus_cpu := (bus_cpu s)\<lparr>cpu_SP := cpu_SP (bus_cpu s) + 1\<rparr>\<rparr>)"
proof -
  have "mapper_ignores (env_mapper E) (0x0100 + ucast (cpu_SP (bus_cpu s) + 1))"
    using assms stack_addr_range by blast
  then show ?thesis
    by (simp add: CPU_pop_def Let_def Bus_cpu_read_ram stack_addr_range stack_addr_mask upd_cpu_def)
qed

text \<open>A read at \<^verbatim>\<open>$4018\<close> or above depends on the cartridge only and changes nothing.\<close>

lemma Bus_cpu_read_cart_space:
  assumes "0x4018 \<le> a" and "bus_cartridge s' = bus_cartridge s"
  shows "Bus_cpu_read E s' a = (fst (Bus_cpu_read E s a), s')"
proof -
  have n: "\<not> a \<le> 0x1FFF" "\<not> a \<le> 0x3FFF" "\<not> a \<le> 0x4015" "a \<noteq> 0x4016" "a \<noteq> 0x4017"
    using assms(1) by (auto simp add: word_le_nat_alt)
  show ?thesis
    using n assms(2) by (simp add: Bus_cpu_read_def split_beta split: option.splits)
qed

lemma hi_byte: "(ucast (drop_bit 8 t AND 0xFF) :: u8) = ucast (drop_bit 8 t)" for t :: u16
  by (rule low_byte)

lemma interrupt_P:
  "set_flag flag_I True (set_flag flag_U True (set_flag flag_B False p))
     = ((p AND NOT flag_B) OR flag_U) OR flag_I"
  by (simp add: set_flag_def)

lemma interrupt_pushes:
  fixes E :: "('m, 'a, 'r) env" and s :: "('m, 'a, 'r) Bus"
  assumes ign: "\<forall>a. 0x0100 \<le> a \<and> a \<le> 0x01FF \<longrightarrow> mapper_ignores (env_mapper E) a"
  defines "s1 \<equiv> CPU_push16 E (cpu_PC (bus_cpu s)) s"
  defines "s2 \<equiv> CPU_set_flag flag_I True (CPU_set_flag flag_U True (CPU_set_flag flag_B False s1))"
  shows "CPU_push E (cpu_P (bus_cpu s2)) s2 =
     s\<lparr>bus_ram := (bus_ram s)
          (0x0100 + ucast (cpu_SP (bus_cpu s)) := ucast (drop_bit 8 (cpu_PC (bus_cpu s))),
           0x0100 + ucast (cpu_SP (bus_cpu s) - 1) := ucast (cpu_PC (bus_cpu s)),
           0x0100 + ucast (cpu_SP (bus_cpu s) - 2) :=
              ((cpu_P (bus_cpu s) AND NOT flag_B) OR flag_U) OR flag_I),
       bus_cpu := (bus_cpu s)\<lparr>cpu_SP := cpu_SP (bus_cpu s) - 3,
          cpu_P := ((cpu_P (bus_cpu s) AND NOT flag_B) OR flag_U) OR flag_I\<rparr>\<rparr>"
  unfolding s2_def s1_def
  by (simp add: CPU_push16_def CPU_push_ram [OF ign] low_byte hi_byte interrupt_P
        CPU_set_flag_def upd_cpu_def)

text \<open>
  The two vector reads that end \<^verbatim>\<open>nmi()\<close> and \<^verbatim>\<open>irq()\<close>, then the whole of each entry and
  of \<^verbatim>\<open>RTI\<close> on a machine whose mapper ignores the stack page.
\<close>

lemma interrupt_vector:
  fixes E :: "('m, 'a, 'r) env" and s :: "('m, 'a, 'r) Bus"
  assumes c: "bus_cartridge s' = bus_cartridge s" and v: "0x4018 \<le> v" "0x4018 \<le> v + 1"
  shows "(let (lo, s4) = Bus_cpu_read E s' v; (hi, s5) = Bus_cpu_read E s4 (v + 1)
          in upd_cpu (\<lambda>c. c\<lparr>cpu_PC := push_bit 8 (ucast hi) OR ucast lo,
                             cpu_cycles_remaining := n\<rparr>) s5)
         = s'\<lparr>bus_cpu := (bus_cpu s')\<lparr>
               cpu_PC := push_bit 8 (ucast (fst (Bus_cpu_read E s (v + 1))))
                           OR ucast (fst (Bus_cpu_read E s v)),
               cpu_cycles_remaining := n\<rparr>\<rparr>"
  by (simp add: Bus_cpu_read_cart_space [OF v(1) c] Bus_cpu_read_cart_space [OF v(2) c]
        upd_cpu_def)

lemma CPU_nmi_ram:
  fixes E :: "('m, 'a, 'r) env" and s :: "('m, 'a, 'r) Bus"
  assumes ign: "\<forall>a. 0x0100 \<le> a \<and> a \<le> 0x01FF \<longrightarrow> mapper_ignores (env_mapper E) a"
  shows "CPU_nmi E s =
     s\<lparr>bus_ram := (bus_ram s)
          (0x0100 + ucast (cpu_SP (bus_cpu s)) := ucast (drop_bit 8 (cpu_PC (bus_cpu s))),
           0x0100 + ucast (cpu_SP (bus_cpu s) - 1) := ucast (cpu_PC (bus_cpu s)),
           0x0100 + ucast (cpu_SP (bus_cpu s) - 2) :=
              ((cpu_P (bus_cpu s) AND NOT flag_B) OR flag_U) OR flag_I),
       bus_cpu := (bus_cpu s)\<lparr>cpu_SP := cpu_SP (bus_cpu s) - 3,
          cpu_P := ((cpu_P (bus_cpu s) AND NOT flag_B) OR flag_U) OR flag_I,
          cpu_PC := push_bit 8 (ucast (fst (Bus_cpu_read E s 0xFFFB)))
                      OR ucast (fst (Bus_cpu_read E s 0xFFFA)),
          cpu_cycles_remaining := 8\<rparr>\<rparr>"
  unfolding CPU_nmi_def Let_def interrupt_pushes [OF ign]
  using interrupt_vector [where v = "0xFFFA" and s = s and E = E and n = 8, unfolded Let_def]
  by simp

lemma CPU_irq_ram:
  fixes E :: "('m, 'a, 'r) env" and s :: "('m, 'a, 'r) Bus"
  assumes ign: "\<forall>a. 0x0100 \<le> a \<and> a \<le> 0x01FF \<longrightarrow> mapper_ignores (env_mapper E) a"
    and i: "\<not> CPU_get_flag flag_I s"
  shows "CPU_irq E s =
     s\<lparr>bus_ram := (bus_ram s)
          (0x0100 + ucast (cpu_SP (bus_cpu s)) := ucast (drop_bit 8 (cpu_PC (bus_cpu s))),
           0x0100 + ucast (cpu_SP (bus_cpu s) - 1) := ucast (cpu_PC (bus_cpu s)),
           0x0100 + ucast (cpu_SP (bus_cpu s) - 2) :=
              ((cpu_P (bus_cpu s) AND NOT flag_B) OR flag_U) OR flag_I),
       bus_cpu := (bus_cpu s)\<lparr>cpu_SP := cpu_SP (bus_cpu s) - 3,
          cpu_P := ((cpu_P (bus_cpu s) AND NOT flag_B) OR flag_U) OR flag_I,
          cpu_PC := push_bit 8 (ucast (fst (Bus_cpu_read E s 0xFFFF)))
                      OR ucast (fst (Bus_cpu_read E s 0xFFFE)),
          cpu_cycles_remaining := 7\<rparr>\<rparr>"
  unfolding CPU_irq_def Let_def interrupt_pushes [OF ign]
  using i interrupt_vector [where v = "0xFFFE" and s = s and E = E and n = 7, unfolded Let_def]
  by simp

lemma CPU_RTI_ram:
  fixes E :: "('m, 'a, 'r) env" and s :: "('m, 'a, 'r) Bus"
  assumes ign: "\<forall>a. 0x0100 \<le> a \<and> a \<le> 0x01FF \<longrightarrow> mapper_ignores (env_mapper E) a"
  shows "snd (CPU_RTI E s) =
     s\<lparr>bus_cpu := (bus_cpu s)\<lparr>cpu_SP := cpu_SP (bus_cpu s) + 3,
          cpu_P := set_flag flag_U False (set_flag flag_B False
                     (bus_ram s (0x0100 + ucast (cpu_SP (bus_cpu s) + 1)))),
          cpu_PC := push_bit 8 (ucast (bus_ram s (0x0100 + ucast (cpu_SP (bus_cpu s) + 3))))
                      OR ucast (bus_ram s (0x0100 + ucast (cpu_SP (bus_cpu s) + 2)))\<rparr>\<rparr>"
  apply (simp add: CPU_RTI_def CPU_pop16_def CPU_pop_ram [OF ign] Let_def upd_cpu_def
        CPU_set_flag_def)
  apply (simp add: add.commute)
  done

subsection \<open>The machine after construction and mapper 004 below \<^verbatim>\<open>$6000\<close>\<close>

lemma machine0_eq:
  "machine0 =
     \<lparr>bus_cpu = \<lparr>cpu_A = 0, cpu_X = 0, cpu_Y = 0, cpu_SP = 0xFD, cpu_PC = 0, cpu_P = 0x24,
                 cpu_total_cycles = 0, cpu_cycles_remaining = 8, cpu_addr_abs = 0,
                 cpu_addr_rel = 0, cpu_opcode = 0, cpu_fetched = 0\<rparr>,
      bus_ppu = \<lparr>ppu_nmi = False, ppu_control = 0, ppu_mask = 0, ppu_status = 0,
                 ppu_oam_addr = 0, ppu_data_buffer = 0, ppu_vram_addr = 0,
                 ppu_tram_addr = 0, ppu_fine_x = 0, ppu_address_latch = False,
                 ppu_oam = (\<lambda>_. 0xFF), ppu_nametable = (\<lambda>_. 0), ppu_palette = (\<lambda>_. 0),
                 ppu_pipeline = ()\<rparr>,
      bus_apu = APU_reset,
      bus_cartridge = None,
      bus_ram = (\<lambda>_. 0x00),
      bus_controller_state = (\<lambda>_. 0x00),
      bus_controller_shift = (\<lambda>_. 0x00),
      bus_system_clock_counter = 0,
      bus_dma_transfer = False, bus_dma_page = 0x00, bus_dma_addr = 0x00,
      bus_dma_data = 0x00, bus_dma_dummy = True\<rparr>"
  by (simp add: machine0_def Emulator_new_def CPU_reset_def Bus_cpu_read_def upd_cpu_def
        PPU_reset_def env0_def Let_def flag_defs)

lemma env0_mapper: "env_mapper env0 = Mapper004_ops"
  by (simp add: env0_def)

lemma Mapper004_ignores:
  assumes "a < 0x6000"
  shows "mapper_ignores Mapper004_ops a"
  using assms
  by (auto simp add: mapper_ignores_def Mapper004_ops_def Mapper004_cpu_read_def
        Mapper004_cpu_write_def word_le_nat_alt word_less_nat_alt)

lemma env0_ignores_stack:
  "\<forall>a. 0x0100 \<le> a \<and> a \<le> 0x01FF \<longrightarrow> mapper_ignores (env_mapper env0) a"
  by (auto simp add: env0_mapper word_le_nat_alt word_less_nat_alt intro!: Mapper004_ignores)

section \<open>What a read of PPUSTATUS returns\<close>

lemma PPU_ppu_write_data_buffer [simp]:
  "ppu_data_buffer (fst (PPU_ppu_write ops p cart addr data)) = ppu_data_buffer p"
  by (simp add: PPU_ppu_write_def Let_def split: option.splits)

lemma PPU_cpu_write_data_buffer [simp]:
  "ppu_data_buffer (fst (PPU_cpu_write ops p cart addr data)) = ppu_data_buffer p"
  by (simp add: PPU_cpu_write_def Let_def split_beta)

lemma PPU_writes_data_buffer:
  "ppu_data_buffer (fst (PPU_writes ops ws (p, cart))) = ppu_data_buffer p"
proof (induction ws arbitrary: p cart)
  case Nil
  show ?case by simp
next
  case (Cons w ws)
  obtain addr data where w: "w = (addr, data)" by (cases w)
  obtain p' cart' where pc: "PPU_cpu_write ops p cart addr data = (p', cart')"
    by (cases "PPU_cpu_write ops p cart addr data")
  have "ppu_data_buffer p' = ppu_data_buffer p"
    using PPU_cpu_write_data_buffer [of ops p cart addr data] pc by simp
  then show ?case using Cons.IH [of p' cart'] w pc by simp
qed

lemma PPU_cpu_read_status:
  "fst (PPU_cpu_read ops p cart 0x0002) = (ppu_status p AND 0xE0) OR (ppu_data_buffer p AND 0x1F)"
  by (simp add: PPU_cpu_read_def Let_def)

lemma PPU_cpu_read_data_buffer:
  "ppu_data_buffer (fst (snd (PPU_cpu_read ops p cart a)))
     = (if a AND 0x0007 = 0x0007 then fst (PPU_ppu_read ops p cart (ppu_vram_addr p))
        else ppu_data_buffer p)"
  by (simp add: PPU_cpu_read_def Let_def split_beta)

lemma status_low5:
  fixes s b :: u8
  shows "((s AND 0xE0) OR (b AND 0x1F)) AND 0x1F = b AND 0x1F"
  by (simp add: bit.conj_disj_distrib2 and.assoc)

lemma status_high3:
  fixes s b :: u8
  shows "bit ((s AND 0xE0) OR (b AND 0x1F)) 5 = bit s 5"
    and "bit ((s AND 0xE0) OR (b AND 0x1F)) 6 = bit s 6"
    and "bit ((s AND 0xE0) OR (b AND 0x1F)) 7 = bit s 7"
  by (simp_all add: bit_simps)

text \<open>
  C5. A read of \<^verbatim>\<open>PPUSTATUS\<close> returns bits 5-7 of the status register (sprite
  overflow, sprite-zero hit, vblank) over the low 5 bits of the PPU's read buffer
  \<^verbatim>\<open>data_buffer\<close>. The comment in \<^verbatim>\<open>PPU::cpu_read\<close> calls these bits the stale bus
  contents of the last read or write, but no register write changes the read buffer,
  whatever the sequence \<open>ws\<close> of writes: the low 5 bits read after the writes are those
  of the buffer before them, not of a value written. Of the register reads only that
  of \<^verbatim>\<open>$2007\<close> changes the buffer, to the byte it fetches from the PPU bus.
\<close>

theorem PPUSTATUS_read_low_bits:
  "fst (PPU_cpu_read ops p cart 0x0002) = (ppu_status p AND 0xE0) OR (ppu_data_buffer p AND 0x1F)
   \<and> fst (PPU_cpu_read ops p cart 0x0002) AND 0x1F = ppu_data_buffer p AND 0x1F
   \<and> bit (fst (PPU_cpu_read ops p cart 0x0002)) 5 = bit (ppu_status p) 5
   \<and> bit (fst (PPU_cpu_read ops p cart 0x0002)) 6 = bit (ppu_status p) 6
   \<and> bit (fst (PPU_cpu_read ops p cart 0x0002)) 7 = bit (ppu_status p) 7
   \<and> ppu_data_buffer (fst (PPU_writes ops ws (p, cart))) = ppu_data_buffer p
   \<and> fst (PPU_cpu_read ops (fst (PPU_writes ops ws (p, cart)))
             (snd (PPU_writes ops ws (p, cart))) 0x0002) AND 0x1F
       = ppu_data_buffer p AND 0x1F
   \<and> ppu_data_buffer (fst (snd (PPU_cpu_read ops p cart a)))
       = (if a AND 0x0007 = 0x0007 then fst (PPU_ppu_read ops p cart (ppu_vram_addr p))
          else ppu_data_buffer p)"
  by (simp only: PPU_cpu_read_status status_low5 status_high3 PPU_writes_data_buffer
        PPU_cpu_read_data_buffer simp_thms if_True if_False)

theorem PPUSTATUS_read_low_bits_witness:
  "fst (PPU_cpu_read Mapper004_ops
          (fst (PPU_writes Mapper004_ops [(0x0000, 0xFF), (0x0005, 0x0A)]
                  ((bus_ppu machine0)\<lparr>ppu_status := 0xE0, ppu_data_buffer := 0x15\<rparr>, None)))
          (snd (PPU_writes Mapper004_ops [(0x0000, 0xFF), (0x0005, 0x0A)]
                  ((bus_ppu machine0)\<lparr>ppu_status := 0xE0, ppu_data_buffer := 0x15\<rparr>, None)))
          0x0002) AND 0x1F = 0x15"
  using PPUSTATUS_read_low_bits [of Mapper004_ops
          "(bus_ppu machine0)\<lparr>ppu_status := 0xE0, ppu_data_buffer := 0x15\<rparr>" None
          "[(0x0000, 0xFF), (0x0005, 0x0A)]" 0]
  by simp

theorem PPUSTATUS_read_after_write:
  "fst (PPU_cpu_read Mapper004_ops
          (fst (PPU_cpu_write Mapper004_ops (bus_ppu machine0) None 0x0000 0xFF)) None 0x0002)
     = 0x00
   \<and> fst (Bus_cpu_read env0 (Bus_cpu_write env0 machine0 0x2000 0xFF) 0x2002) = 0x00"
  by (simp add: Bus_cpu_read_def Bus_cpu_write_def machine0_eq
        PPU_cpu_write_def PPU_cpu_read_def Let_def)

section \<open>Interrupt entry\<close>

text \<open>
  C1. On a machine whose mapper ignores the stack page, \<^verbatim>\<open>nmi()\<close> stores the high byte
  of \<^verbatim>\<open>PC\<close> at \<^verbatim>\<open>$0100 + SP\<close>, the low byte at \<^verbatim>\<open>$0100 + (SP - 1)\<close> and a status
  byte \<open>p'\<close> at \<^verbatim>\<open>$0100 + (SP - 2)\<close>. The byte pushed has B clear and U set, but it is
  not \<^verbatim>\<open>P\<close> with B clear and U set: \<^verbatim>\<open>set_flag(I, true)\<close> comes before \<^verbatim>\<open>push(P)\<close>, so
  \<open>p'\<close> has I set whatever I was on entry, and the I of the interrupted program is
  lost. The entry leaves \<^verbatim>\<open>SP - 3\<close> in \<^verbatim>\<open>SP\<close> and \<open>p'\<close> in \<^verbatim>\<open>P\<close>, loads \<^verbatim>\<open>PC\<close> from
  \<^verbatim>\<open>$FFFA/$FFFB\<close> and sets the cycle count to 8, not 7; nothing else changes.
  \<^verbatim>\<open>irq()\<close> with I set changes nothing, and with I clear does the same with the vector
  at \<^verbatim>\<open>$FFFE/$FFFF\<close> and a cycle count of 7.
\<close>

theorem CPU_interrupt_entry:
  fixes E :: "('m, 'a, 'r) env" and s :: "('m, 'a, 'r) Bus"
  assumes ign: "\<forall>a. 0x0100 \<le> a \<and> a \<le> 0x01FF \<longrightarrow> mapper_ignores (env_mapper E) a"
  shows
    "(let c = bus_cpu s; sp = cpu_SP c; pc = cpu_PC c;
          p' = ((cpu_P c AND NOT flag_B) OR flag_U) OR flag_I;
          pushed = (bus_ram s)(0x0100 + ucast sp := ucast (drop_bit 8 pc),
                               0x0100 + ucast (sp - 1) := ucast pc,
                               0x0100 + ucast (sp - 2) := p');
          vec = (\<lambda>v. push_bit 8 (ucast (fst (Bus_cpu_read E s (v + 1))))
                      OR ucast (fst (Bus_cpu_read E s v)))
      in \<not> get_flag flag_B p' \<and> get_flag flag_U p' \<and> get_flag flag_I p'
         \<and> CPU_nmi E s =
             s\<lparr>bus_ram := pushed,
               bus_cpu := c\<lparr>cpu_SP := sp - 3, cpu_P := p', cpu_PC := vec 0xFFFA,
                            cpu_cycles_remaining := 8\<rparr>\<rparr>
         \<and> (if CPU_get_flag flag_I s then CPU_irq E s = s
             else CPU_irq E s =
               s\<lparr>bus_ram := pushed,
                 bus_cpu := c\<lparr>cpu_SP := sp - 3, cpu_P := p', cpu_PC := vec 0xFFFE,
                              cpu_cycles_remaining := 7\<rparr>\<rparr>))"
proof -
  define p' where "p' = ((cpu_P (bus_cpu s) AND NOT flag_B) OR flag_U) OR flag_I"
  define s3 where "s3 = s\<lparr>bus_ram := (bus_ram s)
          (0x0100 + ucast (cpu_SP (bus_cpu s)) := ucast (drop_bit 8 (cpu_PC (bus_cpu s))),
           0x0100 + ucast (cpu_SP (bus_cpu s) - 1) := ucast (cpu_PC (bus_cpu s)),
           0x0100 + ucast (cpu_SP (bus_cpu s) - 2) := p'),
       bus_cpu := (bus_cpu s)\<lparr>cpu_SP := cpu_SP (bus_cpu s) - 3, cpu_P := p'\<rparr>\<rparr>"
  have flags: "\<not> get_flag flag_B p' \<and> get_flag flag_U p' \<and> get_flag flag_I p'"
    unfolding p'_def by (simp only: get_flag_bit) (simp add: flag_defs bit_simps)
  have push: "CPU_push E
       (cpu_P (bus_cpu (CPU_set_flag flag_I True (CPU_set_flag flag_U True
          (CPU_set_flag flag_B False (CPU_push16 E (cpu_PC (bus_cpu s)) s))))))
       (CPU_set_flag flag_I True (CPU_set_flag flag_U True
          (CPU_set_flag flag_B False (CPU_push16 E (cpu_PC (bus_cpu s)) s)))) = s3"
    unfolding s3_def p'_def by (rule interrupt_pushes [OF ign])
  have c3: "bus_cartridge s3 = bus_cartridge s" by (simp add: s3_def)
  have rd: "Bus_cpu_read E s3 a = (fst (Bus_cpu_read E s a), s3)" if "0x4018 \<le> a" for a
    using that c3 by (rule Bus_cpu_read_cart_space)
  have nmi: "CPU_nmi E s = s3\<lparr>bus_cpu := (bus_cpu s3)\<lparr>
          cpu_PC := push_bit 8 (ucast (fst (Bus_cpu_read E s 0xFFFB)))
                      OR ucast (fst (Bus_cpu_read E s 0xFFFA)),
          cpu_cycles_remaining := 8\<rparr>\<rparr>"
    unfolding CPU_nmi_def Let_def push by (simp add: rd upd_cpu_def)
  have irq: "CPU_irq E s = s3\<lparr>bus_cpu := (bus_cpu s3)\<lparr>
          cpu_PC := push_bit 8 (ucast (fst (Bus_cpu_read E s 0xFFFF)))
                      OR ucast (fst (Bus_cpu_read E s 0xFFFE)),
          cpu_cycles_remaining := 7\<rparr>\<rparr>" if "\<not> CPU_get_flag flag_I s"
    unfolding CPU_irq_def Let_def push using that by (simp add: rd upd_cpu_def)
  have irq0: "CPU_irq E s = s" if "CPU_get_flag flag_I s"
    using that by (simp add: CPU_irq_def)
  show ?thesis
    unfolding Let_def using flags nmi irq irq0 by (simp add: s3_def p'_def)
qed

lemma mmc3_vector_read:
  assumes "0xE000 \<le> a" and "bus_cartridge s = Some (mmc3_cartridge (Mapper004_new 2 1))"
  shows "Bus_cpu_read env0 s a = (0xEA, s)"
proof -
  have b: "m4_prg_banks (Mapper004_new 2 1) \<noteq> 0"
    by (simp add: Mapper004_new_def Mapper004_reset_def Mapper004_update_banks_def Let_def)
  have h: "0x8000 \<le> a" using assms(1) by (simp add: word_le_nat_alt)
  have l: "length (replicate 32768 (0xEA :: u8)) = unat (m4_prg_banks (Mapper004_new 2 1)) * 16384"
    by (simp add: Mapper004_new_def Mapper004_reset_def Mapper004_update_banks_def Let_def)
  have "Mapper004_mapped_addr (Mapper004_new 2 1) a < 32768"
    using Mapper004_mapped_addr_bound [OF b, of a] l by simp
  moreover have "Mapper004_total_8kb_banks (Mapper004_new 2 1) \<noteq> 0"
    using b by (simp add: Mapper004_total_8kb_banks_def unat_eq_0)
  moreover have "\<not> a \<le> 0x7FFF" "a \<le> 0xFFFF"
    using h unsigned_less [of a, where ?'a = nat] by (auto simp add: word_le_nat_alt)
  ultimately show ?thesis
    using h assms(2)
    by (simp add: Bus_cpu_read_def Cartridge_cpu_read_def mmc3_cartridge_def env0_mapper
          Mapper004_ops_def Mapper004_cpu_read_def)
qed

theorem CPU_interrupt_entry_witness:
  "CPU_nmi env0 (machine0\<lparr>bus_cartridge := Some (mmc3_cartridge (Mapper004_new 2 1))\<rparr>)
     = machine0
         \<lparr>bus_cartridge := Some (mmc3_cartridge (Mapper004_new 2 1)),
          bus_ram := (\<lambda>_. 0x00)(0x01FD := 0x00, 0x01FC := 0x00, 0x01FB := 0x24),
          bus_cpu := (bus_cpu machine0)\<lparr>cpu_SP := 0xFA, cpu_P := 0x24, cpu_PC := 0xEAEA,
                                        cpu_cycles_remaining := 8\<rparr>\<rparr>
   \<and> CPU_irq env0 (machine0\<lparr>bus_cartridge := Some (mmc3_cartridge (Mapper004_new 2 1))\<rparr>)
       = machine0\<lparr>bus_cartridge := Some (mmc3_cartridge (Mapper004_new 2 1))\<rparr>
   \<and> CPU_irq env0 (snd (CPU_CLI
         (machine0\<lparr>bus_cartridge := Some (mmc3_cartridge (Mapper004_new 2 1))\<rparr>)))
       = machine0
         \<lparr>bus_cartridge := Some (mmc3_cartridge (Mapper004_new 2 1)),
          bus_ram := (\<lambda>_. 0x00)(0x01FD := 0x00, 0x01FC := 0x00, 0x01FB := 0x24),
          bus_cpu := (bus_cpu machine0)\<lparr>cpu_SP := 0xFA, cpu_P := 0x24, cpu_PC := 0xEAEA,
                                        cpu_cycles_remaining := 7\<rparr>\<rparr>"
proof -
  let ?s = "machine0\<lparr>bus_cartridge := Some (mmc3_cartridge (Mapper004_new 2 1))\<rparr>"
  have cli: "snd (CPU_CLI ?s) = ?s\<lparr>bus_cpu := (bus_cpu machine0)\<lparr>cpu_P := 0x20\<rparr>\<rparr>"
    by (simp add: CPU_CLI_def CPU_set_flag_def upd_cpu_def set_flag_def flag_defs machine0_eq)
  show ?thesis
    using CPU_interrupt_entry [OF env0_ignores_stack, of ?s]
          CPU_interrupt_entry [OF env0_ignores_stack, of "snd (CPU_CLI ?s)"]
    unfolding cli
    by (simp add: mmc3_vector_read Let_def machine0_eq CPU_get_flag_def get_flag_def flag_defs)
qed

text \<open>
  After \<^verbatim>\<open>CLI\<close> the status byte is \<^verbatim>\<open>$20\<close>: I is clear. \<^verbatim>\<open>nmi()\<close> then pushes \<^verbatim>\<open>$24\<close>, not
  \<^verbatim>\<open>$20\<close>, and charges 8 cycles; the \<^verbatim>\<open>RTI\<close> of the handler comes back to the same \<^verbatim>\<open>PC\<close>
  and \<^verbatim>\<open>SP\<close> with I set, so the program that had enabled IRQs has them masked.
\<close>

theorem CPU_nmi_pushes_I_set:
  "(let s = snd (CPU_CLI (machine0\<lparr>bus_cartridge := Some (mmc3_cartridge (Mapper004_new 2 1))\<rparr>));
        n = CPU_nmi env0 s;
        r = snd (CPU_RTI env0 n)
    in cpu_P (bus_cpu s) = 0x20 \<and> \<not> CPU_get_flag flag_I s
       \<and> bus_ram n 0x01FB = 0x24
       \<and> cpu_cycles_remaining (bus_cpu n) = 8
       \<and> cpu_PC (bus_cpu r) = cpu_PC (bus_cpu s) \<and> cpu_SP (bus_cpu r) = cpu_SP (bus_cpu s)
       \<and> CPU_get_flag flag_I r)"
proof -
  let ?s = "machine0\<lparr>bus_cartridge := Some (mmc3_cartridge (Mapper004_new 2 1))\<rparr>"
  let ?n = "machine0
         \<lparr>bus_cartridge := Some (mmc3_cartridge (Mapper004_new 2 1)),
          bus_ram := (\<lambda>_. 0x00)(0x01FD := 0x00, 0x01FC := 0x00, 0x01FB := 0x24),
          bus_cpu := (bus_cpu machine0)\<lparr>cpu_SP := 0xFA, cpu_P := 0x24, cpu_PC := 0xEAEA,
                                        cpu_cycles_remaining := 8\<rparr>\<rparr>"
  have cli: "snd (CPU_CLI ?s) = ?s\<lparr>bus_cpu := (bus_cpu machine0)\<lparr>cpu_P := 0x20\<rparr>\<rparr>"
    by (simp add: CPU_CLI_def CPU_set_flag_def upd_cpu_def set_flag_def flag_defs machine0_eq)
  have nmi: "CPU_nmi env0 (?s\<lparr>bus_cpu := (bus_cpu machine0)\<lparr>cpu_P := 0x20\<rparr>\<rparr>) = ?n"
    unfolding CPU_nmi_ram [OF env0_ignores_stack]
    by (simp add: mmc3_vector_read machine0_eq flag_defs)
  have rti: "snd (CPU_RTI env0 ?n) =
      ?n\<lparr>bus_cpu := (bus_cpu machine0)\<lparr>cpu_SP := 0xFD, cpu_P := 0x04, cpu_PC := 0x0000,
                                        cpu_cycles_remaining := 8\<rparr>\<rparr>"
    unfolding CPU_RTI_ram [OF env0_ignores_stack]
    by (simp add: machine0_eq set_flag_def flag_defs)
  show ?thesis
    unfolding Let_def cli nmi rti
    by (simp add: machine0_eq CPU_get_flag_def get_flag_def flag_defs)
qed

text \<open>The entry by \<^verbatim>\<open>nmi()\<close> on the machine after construction: 8 cycles, not 7.\<close>

theorem CPU_nmi_charges_8:
  "cpu_cycles_remaining (bus_cpu (CPU_nmi env0 machine0)) = 8"
  by (simp add: CPU_nmi_def Let_def split_beta upd_cpu_def)

section \<open>The status byte through PHP and PLP\<close>

lemma CPU_PHP_ram:
  assumes "\<forall>a. 0x0100 \<le> a \<and> a \<le> 0x01FF \<longrightarrow> mapper_ignores (env_mapper E) a"
  shows "snd (CPU_PHP E s) =
    s\<lparr>bus_ram := (bus_ram s)(0x0100 + ucast (cpu_SP (bus_cpu s))
                      := cpu_P (bus_cpu s) OR flag_B OR flag_U),
      bus_cpu := (bus_cpu s)\<lparr>cpu_SP := cpu_SP (bus_cpu s) - 1,
                   cpu_P := (cpu_P (bus_cpu s) AND NOT flag_B) AND NOT flag_U\<rparr>\<rparr>"
  by (simp add: CPU_PHP_def Let_def CPU_push_ram [OF assms] CPU_set_flag_def upd_cpu_def
        set_flag_def)

lemma CPU_PLP_ram:
  assumes "\<forall>a. 0x0100 \<le> a \<and> a \<le> 0x01FF \<longrightarrow> mapper_ignores (env_mapper E) a"
  shows "snd (CPU_PLP E s) =
    s\<lparr>bus_cpu := (bus_cpu s)\<lparr>cpu_SP := cpu_SP (bus_cpu s) + 1,
                   cpu_P := bus_ram s (0x0100 + ucast (cpu_SP (bus_cpu s) + 1)) OR flag_U\<rparr>\<rparr>"
  by (simp add: CPU_PLP_def Let_def CPU_pop_ram [OF assms] CPU_set_flag_def upd_cpu_def
        set_flag_def)

lemma bit_or_B_U:
  fixes p :: u8
  shows "bit ((p OR flag_B OR flag_U) OR flag_U) n = (n = 4 \<or> n = 5 \<or> bit p n)"
proof -
  have f: "flag_B = 2 ^ 4" "flag_U = 2 ^ 5" by (simp_all add: flag_defs)
  show ?thesis
    unfolding f by (simp only: bit_or_iff bit_exp_iff possible_bit_word) auto
qed

text \<open>
  C2. On a machine whose mapper ignores the stack page, \<^verbatim>\<open>PHP\<close> followed by \<^verbatim>\<open>PLP\<close>
  leaves in \<^verbatim>\<open>P\<close> the starting status byte with B and U set: C, Z, I, D, V and N are
  as before the \<^verbatim>\<open>PHP\<close> and U is 1, but B is 1, whatever it was. \<^verbatim>\<open>PLP\<close> restores the
  pushed byte, in which \<^verbatim>\<open>PHP\<close> set B, and does not clear B as \<^verbatim>\<open>RTI\<close> does. The stack
  pointer and the rest of the CPU are as before, and the pushed byte stays in the
  stack page.
\<close>

theorem PHP_PLP_status:
  fixes E :: "('m, 'a, 'r) env" and s :: "('m, 'a, 'r) Bus"
  assumes "\<forall>a. 0x0100 \<le> a \<and> a \<le> 0x01FF \<longrightarrow> mapper_ignores (env_mapper E) a"
  shows "(let p = cpu_P (bus_cpu s); s' = snd (CPU_PLP E (snd (CPU_PHP E s)))
          in s' = s\<lparr>bus_ram := (bus_ram s)(0x0100 + ucast (cpu_SP (bus_cpu s))
                                    := p OR flag_B OR flag_U),
                    bus_cpu := (bus_cpu s)\<lparr>cpu_P := p OR flag_B OR flag_U\<rparr>\<rparr>
             \<and> CPU_get_flag flag_C s' = get_flag flag_C p
             \<and> CPU_get_flag flag_Z s' = get_flag flag_Z p
             \<and> CPU_get_flag flag_I s' = get_flag flag_I p
             \<and> CPU_get_flag flag_D s' = get_flag flag_D p
             \<and> CPU_get_flag flag_V s' = get_flag flag_V p
             \<and> CPU_get_flag flag_N s' = get_flag flag_N p
             \<and> CPU_get_flag flag_B s'
             \<and> CPU_get_flag flag_U s')"
proof -
  have e: "snd (CPU_PLP E (snd (CPU_PHP E s)))
      = s\<lparr>bus_ram := (bus_ram s)(0x0100 + ucast (cpu_SP (bus_cpu s))
                         := cpu_P (bus_cpu s) OR flag_B OR flag_U),
          bus_cpu := (bus_cpu s)\<lparr>cpu_P := cpu_P (bus_cpu s) OR flag_B OR flag_U\<rparr>\<rparr>"
    by (simp add: CPU_PHP_ram [OF assms] CPU_PLP_ram [OF assms] ac_simps)
  have b: "bit (cpu_P (bus_cpu s) OR flag_B OR flag_U) n
             = (n = 4 \<or> n = 5 \<or> bit (cpu_P (bus_cpu s)) n)" for n
    using bit_or_B_U [of "cpu_P (bus_cpu s)" n] by (simp add: ac_simps)
  show ?thesis
    unfolding Let_def e by (simp add: CPU_get_flag_def get_flag_bit b)
qed

theorem PHP_PLP_status_witness:
  "cpu_P (bus_cpu machine0) = 0x24
   \<and> cpu_P (bus_cpu (snd (CPU_PLP env0 (snd (CPU_PHP env0 machine0))))) = 0x34
   \<and> CPU_get_flag flag_B (snd (CPU_PLP env0 (snd (CPU_PHP env0 machine0))))
   \<and> \<not> CPU_get_flag flag_B machine0"
  using PHP_PLP_status [OF env0_ignores_stack, of machine0]
  by (simp add: Let_def machine0_eq flag_defs CPU_get_flag_def get_flag_def)

section \<open>ADC and its overflow flag\<close>

lemma ADC_cpu:
  fixes E :: "('m, 'a, 'r) env" and s :: "('m, 'a, 'r) Bus"
  defines "a \<equiv> cpu_A (bus_cpu s)"
    and "m \<equiv> fst (CPU_fetch E s)"
    and "c \<equiv> (if CPU_get_flag flag_C s then 1 else 0 :: nat)"
  defines "s' \<equiv> snd (CPU_ADC E s)"
  shows "cpu_A (bus_cpu s') = of_nat (unat a + unat m + c)"
    and "CPU_get_flag flag_C s' = (unat a + unat m + c > 255)"
    and "CPU_get_flag flag_Z s' = (cpu_A (bus_cpu s') = 0)"
    and "CPU_get_flag flag_N s' = bit (cpu_A (bus_cpu s')) 7"
    and "CPU_get_flag flag_V s' = bit (NOT (a XOR m) AND (a XOR cpu_A (bus_cpu s'))) 7"
proof -
  define temp where "temp = (ucast a :: u16) + ucast m + of_nat c"
  have c1: "c \<le> 1" by (simp add: c_def)
  have ut: "unat temp = unat a + unat m + c" unfolding temp_def using adc_sum [OF c1] .
  have cf: "(if CPU_get_flag flag_C (snd (CPU_fetch E s)) then 1 else 0 :: u16) = of_nat c"
    by (simp add: CPU_get_flag_def CPU_fetch_cpu c_def)
  have P': "cpu_P (bus_cpu s') =
      set_flag flag_N (temp AND 0x80 \<noteq> 0)
        (set_flag flag_V ((NOT (ucast a XOR ucast m) AND (ucast a XOR temp)) AND 0x0080 \<noteq> 0)
          (set_flag flag_Z (temp AND 0x00FF = 0)
            (set_flag flag_C (temp > 255) (cpu_P (bus_cpu s)))))"
    and A': "cpu_A (bus_cpu s') = ucast (temp AND 0xFF)"
    unfolding s'_def temp_def a_def m_def
    using cf by (simp_all add: CPU_ADC_def Let_def split_beta CPU_fetch_cpu CPU_get_flag_def)
  show A: "cpu_A (bus_cpu s') = of_nat (unat a + unat m + c)"
    by (simp add: A' low_byte ut [symmetric])
  show "CPU_get_flag flag_C s' = (unat a + unat m + c > 255)"
    by (simp add: CPU_get_flag_def P' get_flag_bit bit_set_flag word_less_nat_alt ut)
  show "CPU_get_flag flag_Z s' = (cpu_A (bus_cpu s') = 0)"
    by (simp add: CPU_get_flag_def P' get_flag_bit bit_set_flag A' low_byte low_byte_zero)
  show "CPU_get_flag flag_N s' = bit (cpu_A (bus_cpu s')) 7"
    by (simp add: CPU_get_flag_def P' get_flag_bit bit_set_flag A' low_byte and_0x80_bit7
          bit7_ucast_down)
  show "CPU_get_flag flag_V s' = bit (NOT (a XOR m) AND (a XOR cpu_A (bus_cpu s'))) 7"
    by (simp add: CPU_get_flag_def P' get_flag_bit bit_set_flag A' low_byte and_0x80_bit7
          bit_simps)
qed

lemma unat_of_nat_u8: "unat (of_nat n :: u8) = n mod 256"
  by (simp add: unat_of_nat)

text \<open>
  C7. \<^verbatim>\<open>ADC\<close> with accumulator \<open>a\<close>, fetched operand \<open>m\<close> and carry \<open>c\<close> leaves in \<^verbatim>\<open>A\<close>
  the low byte of the sum \<open>a + m + c\<close>, the carry flag set exactly when the sum exceeds
  255, Z and N from the new \<^verbatim>\<open>A\<close>, and the overflow flag equal to
  \<^verbatim>\<open>(~(a ^ m) & (a ^ result)) & 0x80\<close>. With \<^verbatim>\<open>A = $50\<close>, \<^verbatim>\<open>M = $50\<close> and the carry clear
  the result is \<^verbatim>\<open>A = $A0\<close> with N = 1, V = 1, Z = 0, C = 0.
\<close>

theorem ADC_overflow:
  fixes E :: "('m, 'a, 'r) env" and s :: "('m, 'a, 'r) Bus"
  shows "(let a = cpu_A (bus_cpu s); m = fst (CPU_fetch E s);
              c = (if CPU_get_flag flag_C s then 1 else 0 :: nat);
              s' = snd (CPU_ADC E s); r = cpu_A (bus_cpu s')
          in unat r = (unat a + unat m + c) mod 256
             \<and> CPU_get_flag flag_C s' = (255 < unat a + unat m + c)
             \<and> CPU_get_flag flag_Z s' = (r = 0)
             \<and> CPU_get_flag flag_N s' = (r AND 0x80 \<noteq> 0)
             \<and> CPU_get_flag flag_V s' = ((NOT (a XOR m) AND (a XOR r)) AND 0x80 \<noteq> 0)
             \<and> (a = 0x50 \<and> m = 0x50 \<and> c = 0 \<longrightarrow>
                  r = 0xA0 \<and> CPU_get_flag flag_N s' \<and> CPU_get_flag flag_V s'
                  \<and> \<not> CPU_get_flag flag_Z s' \<and> \<not> CPU_get_flag flag_C s'))"
proof -
  note adc = ADC_cpu [of E s]
  have r: "unat (cpu_A (bus_cpu (snd (CPU_ADC E s))))
        = (unat (cpu_A (bus_cpu s)) + unat (fst (CPU_fetch E s))
            + (if CPU_get_flag flag_C s then 1 else 0)) mod 256"
    by (simp only: adc(1) unat_of_nat_u8)
  have conc: "cpu_A (bus_cpu (snd (CPU_ADC E s))) = 0xA0
      \<and> CPU_get_flag flag_N (snd (CPU_ADC E s)) \<and> CPU_get_flag flag_V (snd (CPU_ADC E s))
      \<and> \<not> CPU_get_flag flag_Z (snd (CPU_ADC E s)) \<and> \<not> CPU_get_flag flag_C (snd (CPU_ADC E s))"
    if "cpu_A (bus_cpu s) = 0x50" "fst (CPU_fetch E s) = 0x50" "\<not> CPU_get_flag flag_C s"
  proof -
    have A: "cpu_A (bus_cpu (snd (CPU_ADC E s))) = 0xA0"
      using adc(1) that by simp
    show ?thesis
      using adc(2-5) that unfolding A by (simp add: bit_simps)
  qed
  show ?thesis
    unfolding Let_def
    using r adc(2-5) conc by (auto simp add: and_0x80_bit7 split: if_splits)
qed

lemma adc_machine_fetch: "fst (CPU_fetch env0 adc_machine) = 0x50"
  by (simp add: CPU_fetch_def adc_machine_def machine0_eq instr_addrmode_def
        instruction_table_def Bus_cpu_read_def Let_def)

theorem ADC_overflow_witness:
  "cpu_A (bus_cpu adc_machine) = 0x50
   \<and> fst (CPU_fetch env0 adc_machine) = 0x50
   \<and> \<not> CPU_get_flag flag_C adc_machine
   \<and> cpu_A (bus_cpu (snd (CPU_ADC env0 adc_machine))) = 0xA0
   \<and> CPU_get_flag flag_N (snd (CPU_ADC env0 adc_machine))
   \<and> CPU_get_flag flag_V (snd (CPU_ADC env0 adc_machine))
   \<and> \<not> CPU_get_flag flag_Z (snd (CPU_ADC env0 adc_machine))
   \<and> \<not> CPU_get_flag flag_C (snd (CPU_ADC env0 adc_machine))"
proof -
  have a: "cpu_A (bus_cpu adc_machine) = 0x50"
    by (simp add: adc_machine_def)
  have c: "\<not> CPU_get_flag flag_C adc_machine"
    by (simp add: adc_machine_def machine0_eq CPU_get_flag_def get_flag_def flag_defs)
  show ?thesis
    using ADC_overflow [where E = env0 and s = adc_machine] a c adc_machine_fetch
    by (simp add: Let_def)
qed

section \<open>The controller ports\<close>

lemma Bus_cpu_write_4016:
  assumes "mapper_ignores (env_mapper E) 0x4016"
  shows "Bus_cpu_write E s 0x4016 d =
    s\<lparr>bus_controller_shift :=
        (bus_controller_shift s)(0 := bus_controller_state s 0, 1 := bus_controller_state s 1)\<rparr>"
  using assms
  by (cases "bus_cartridge s") (simp_all add: Bus_cpu_write_def Cartridge_cpu_write_ignored)

lemma Bus_cpu_read_4016:
  assumes "mapper_ignores (env_mapper E) 0x4016"
  shows "Bus_cpu_read E s 0x4016 =
    ((if bit (bus_controller_shift s 0) 7 then 1 else 0),
     s\<lparr>bus_controller_shift :=
         (bus_controller_shift s)(0 := push_bit 1 (bus_controller_shift s 0))\<rparr>)"
proof -
  have g: "(bus_controller_shift s 0 AND 0x80 > 0) = bit (bus_controller_shift s 0) 7"
    using and_0x80_bit7 [of "bus_controller_shift s 0"] by (simp add: word_greater_zero_iff)
  show ?thesis
    using Cartridge_cpu_read_ignored [OF assms] g
    by (cases "bus_cartridge s") (auto simp add: Bus_cpu_read_def split_beta)
qed

lemma Bus_cpu_read_4017:
  assumes "mapper_ignores (env_mapper E) 0x4017"
  shows "Bus_cpu_read E s 0x4017 =
    ((if bit (bus_controller_shift s 1) 7 then 1 else 0),
     s\<lparr>bus_controller_shift :=
         (bus_controller_shift s)(1 := push_bit 1 (bus_controller_shift s 1))\<rparr>)"
proof -
  have g: "(bus_controller_shift s 1 AND 0x80 > 0) = bit (bus_controller_shift s 1) 7"
    using and_0x80_bit7 [of "bus_controller_shift s 1"] by (simp add: word_greater_zero_iff)
  show ?thesis
    using Cartridge_cpu_read_ignored [OF assms] g
    by (cases "bus_cartridge s") (auto simp add: Bus_cpu_read_def split_beta)
qed

lemma map_upt_Suc: "map f [0..<Suc n] = f 0 # map (\<lambda>k. f (Suc k)) [0..<n]"
  by (simp add: upt_conv_Cons map_Suc_upt [symmetric] del: upt_Suc)

lemma Bus_reads_4016:
  assumes "mapper_ignores (env_mapper E) 0x4016"
  shows "fst (Bus_reads E 0x4016 n s)
           = map (\<lambda>k. if bit (push_bit k (bus_controller_shift s 0)) 7 then 1 else 0) [0..<n]"
proof (induction n arbitrary: s)
  case 0
  show ?case by simp
next
  case (Suc n)
  show ?case
    unfolding map_upt_Suc
    by (simp add: Bus_cpu_read_4016 [OF assms] split_beta Suc.IH push_bit_push_bit
          del: upt_Suc)
qed

lemma Bus_reads_4017:
  assumes "mapper_ignores (env_mapper E) 0x4017"
  shows "fst (Bus_reads E 0x4017 n s)
           = map (\<lambda>k. if bit (push_bit k (bus_controller_shift s 1)) 7 then 1 else 0) [0..<n]"
proof (induction n arbitrary: s)
  case 0
  show ?case by simp
next
  case (Suc n)
  show ?case
    unfolding map_upt_Suc
    by (simp add: Bus_cpu_read_4017 [OF assms] split_beta Suc.IH push_bit_push_bit
          del: upt_Suc)
qed

lemma Bus_reads_numeral:
  "Bus_reads E addr (numeral k) s =
    (let (d, s1) = Bus_cpu_read E s addr;
         (ds, s2) = Bus_reads E addr (pred_numeral k) s1
     in (d # ds, s2))"
  by (simp add: numeral_eq_Suc)

lemma bit_push_bit_7: "bit (push_bit k w) 7 = (k < 8 \<and> bit w (7 - k))" for w :: u8
  by (auto simp add: bit_push_bit_iff)

text \<open>
  C8 (amended). On a machine whose mapper ignores \<^verbatim>\<open>$4016\<close> and \<^verbatim>\<open>$4017\<close>: a write to
  \<^verbatim>\<open>$4016\<close>, whatever the byte written, copies the two controller state bytes into the
  two shift registers and changes nothing else (the bus keeps no strobe bit); a read
  of \<^verbatim>\<open>$4016\<close> or \<^verbatim>\<open>$4017\<close> returns bit 7 of the port's shift register and shifts that
  register left by one. So the \<open>k\<close>-th of \<open>n\<close> successive reads of a port after a write
  to \<^verbatim>\<open>$4016\<close> (counted from 0) returns bit \<open>7 - k\<close> of the latched state byte while
  \<open>k < 8\<close> and 0 from then on, the written byte having its strobe bit set or not.
\<close>

theorem controller_reads_after_latch:
  fixes E :: "('m, 'a, 'r) env" and s :: "('m, 'a, 'r) Bus"
  assumes "mapper_ignores (env_mapper E) 0x4016" and "mapper_ignores (env_mapper E) 0x4017"
  shows "Bus_cpu_write E s 0x4016 d =
           s\<lparr>bus_controller_shift :=
               (bus_controller_shift s)(0 := bus_controller_state s 0,
                                        1 := bus_controller_state s 1)\<rparr>
       \<and> Bus_cpu_read E s 0x4016 =
           ((if bit (bus_controller_shift s 0) 7 then 1 else 0),
            s\<lparr>bus_controller_shift :=
                (bus_controller_shift s)(0 := push_bit 1 (bus_controller_shift s 0))\<rparr>)
       \<and> Bus_cpu_read E s 0x4017 =
           ((if bit (bus_controller_shift s 1) 7 then 1 else 0),
            s\<lparr>bus_controller_shift :=
                (bus_controller_shift s)(1 := push_bit 1 (bus_controller_shift s 1))\<rparr>)
       \<and> fst (Bus_reads E 0x4016 n (Bus_cpu_write E s 0x4016 d))
           = map (\<lambda>k. if k < 8 \<and> bit (bus_controller_state s 0) (7 - k) then 1 else 0) [0..<n]
       \<and> fst (Bus_reads E 0x4017 n (Bus_cpu_write E s 0x4016 d))
           = map (\<lambda>k. if k < 8 \<and> bit (bus_controller_state s 1) (7 - k) then 1 else 0) [0..<n]"
  by (simp add: Bus_cpu_write_4016 [OF assms(1)] Bus_cpu_read_4016 [OF assms(1)]
        Bus_cpu_read_4017 [OF assms(2)] Bus_reads_4016 [OF assms(1)]
        Bus_reads_4017 [OF assms(2)] bit_push_bit_7)

lemma env0_ignores_ports:
  "mapper_ignores (env_mapper env0) 0x4016" "mapper_ignores (env_mapper env0) 0x4017"
  by (simp_all add: env0_mapper Mapper004_ignores)

theorem controller_reads_after_latch_witness:
  "fst (Bus_reads env0 0x4016 4
          (Bus_cpu_write env0 (Bus_set_controller_state machine0 0 0xA0) 0x4016 0x00))
     = [1, 0, 1, 0]
   \<and> fst (Bus_reads env0 0x4017 2
          (Bus_cpu_write env0 (Bus_set_controller_state machine0 0 0xA0) 0x4016 0x00))
     = [0, 0]"
proof -
  let ?s = "Bus_set_controller_state machine0 0 0xA0"
  note t = controller_reads_after_latch [OF env0_ignores_ports, where s = ?s and d = "0x00"]
  have a: "fst (Bus_reads env0 0x4016 4 (Bus_cpu_write env0 ?s 0x4016 0x00))
      = map (\<lambda>k. if k < 8 \<and> bit (bus_controller_state ?s 0) (7 - k) then 1 else 0) [0..<4]"
    by (rule t [THEN conjunct2, THEN conjunct2, THEN conjunct2, THEN conjunct1])
  have b: "fst (Bus_reads env0 0x4017 2 (Bus_cpu_write env0 ?s 0x4016 0x00))
      = map (\<lambda>k. if k < 8 \<and> bit (bus_controller_state ?s 1) (7 - k) then 1 else 0) [0..<2]"
    by (rule t [THEN conjunct2, THEN conjunct2, THEN conjunct2, THEN conjunct2])
  show ?thesis
    unfolding a b
    by (simp add: Bus_set_controller_state_def machine0_eq upt_conv_Cons bit_simps
          del: upt_Suc)
qed

text \<open>
  Controller 1 with only the A button down (bit 7 of the state byte), the strobe bit
  written high: the second read of \<^verbatim>\<open>$4016\<close> returns 0.
\<close>

theorem controller_reads_strobe_high:
  "fst (Bus_reads env0 0x4016 2
          (Bus_cpu_write env0 (Bus_set_controller_state machine0 0 0x80) 0x4016 0x01))
     = [1, 0]"
  by (simp add: Bus_reads_numeral Bus_cpu_write_def Bus_cpu_read_def
        Bus_set_controller_state_def machine0_eq Let_def)

section \<open>OAM DMA\<close>

subsection \<open>What leaves the DMA state alone\<close>

lemma PPU_cpu_read_oam [simp]:
  "ppu_oam (fst (snd (PPU_cpu_read ops p cart a))) = ppu_oam p"
  "ppu_oam_addr (fst (snd (PPU_cpu_read ops p cart a))) = ppu_oam_addr p"
  by (simp_all add: PPU_cpu_read_def Let_def split_beta)

lemma dma_view_Bus_cpu_read [simp]: "dma_view (snd (Bus_cpu_read E s a)) = dma_view s"
  by (simp add: dma_view_def Bus_cpu_read_def Let_def split_beta)

lemma dma_view_Bus_cpu_write_ram:
  assumes "a \<le> 0x1FFF"
  shows "dma_view (Bus_cpu_write E s a d) = dma_view s"
  using assms by (simp add: dma_view_def Bus_cpu_write_def Let_def split_beta split: option.splits)

lemma dma_view_upd_cpu:
  assumes "cpu_total_cycles (f (bus_cpu s)) = cpu_total_cycles (bus_cpu s)"
  shows "dma_view (upd_cpu f s) = dma_view s"
  using assms by (simp add: dma_view_def upd_cpu_def)

lemma dma_view_CPU_set_flag [simp]: "dma_view (CPU_set_flag f v s) = dma_view s"
  by (simp add: CPU_set_flag_def dma_view_upd_cpu)

lemma dma_view_CPU_push [simp]: "dma_view (CPU_push E d s) = dma_view s"
proof -
  have "cpu_total_cycles (bus_cpu (Bus_cpu_write E s a d)) = cpu_total_cycles (bus_cpu s)"
    if "a \<le> 0x1FFF" for a
    using dma_view_Bus_cpu_write_ram [OF that, of E s d] by (simp add: dma_view_def)
  then show ?thesis
    by (simp add: CPU_push_def dma_view_upd_cpu dma_view_Bus_cpu_write_ram stack_addr_range)
qed

lemma dma_view_CPU_push16 [simp]: "dma_view (CPU_push16 E d s) = dma_view s"
  by (simp add: CPU_push16_def)

lemma dma_view_CPU_nmi [simp]: "dma_view (CPU_nmi E s) = dma_view s"
  by (simp add: CPU_nmi_def Let_def split_beta dma_view_upd_cpu)

lemma dma_view_CPU_irq [simp]: "dma_view (CPU_irq E s) = dma_view s"
  by (simp add: CPU_irq_def Let_def split_beta dma_view_upd_cpu)

lemma dma_view_fields [simp]:
  "dma_view (s\<lparr>bus_apu := a\<rparr>) = dma_view s"
  "dma_view (s\<lparr>bus_cartridge := c\<rparr>) = dma_view s"
  "dma_view (s\<lparr>bus_ppu := (bus_ppu s)\<lparr>ppu_nmi := b\<rparr>\<rparr>) = dma_view s"
  by (simp_all add: dma_view_def)

lemma dma_view_Bus_nmi_check [simp]: "dma_view (Bus_nmi_check E s) = dma_view s"
  by (simp add: Bus_nmi_check_def)

lemma dma_view_Bus_irq_check [simp]: "dma_view (Bus_irq_check E s) = dma_view s"
  by (simp add: Bus_irq_check_def split: option.splits)

lemma dma_view_Bus_ppu_clocked [simp]:
  assumes "ppu_clock_keeps_oam E"
  shows "dma_view (Bus_ppu_clocked E s) = dma_view s"
  using assms by (simp add: Bus_ppu_clocked_def ppu_clock_keeps_oam_def dma_view_def split_beta)


lemma dma_view_sel [simp]:
  "dv_transfer (dma_view s) = bus_dma_transfer s"
  "dv_dummy (dma_view s) = bus_dma_dummy s"
  "dv_page (dma_view s) = bus_dma_page s"
  "dv_addr (dma_view s) = bus_dma_addr s"
  "dv_data (dma_view s) = bus_dma_data s"
  "dv_counter (dma_view s) = bus_system_clock_counter s"
  "dv_total_cycles (dma_view s) = cpu_total_cycles (bus_cpu s)"
  "dv_oam (dma_view s) = ppu_oam (bus_ppu s)"
  "dv_oam_addr (dma_view s) = ppu_oam_addr (bus_ppu s)"
  by (simp_all add: dma_view_def)

lemma dma_view_eqD:
  assumes "dma_view s' = dma_view s"
  shows "bus_dma_transfer s' = bus_dma_transfer s"
    and "bus_dma_dummy s' = bus_dma_dummy s"
    and "bus_dma_page s' = bus_dma_page s"
    and "bus_dma_addr s' = bus_dma_addr s"
    and "bus_dma_data s' = bus_dma_data s"
    and "bus_system_clock_counter s' = bus_system_clock_counter s"
    and "ppu_oam (bus_ppu s') = ppu_oam (bus_ppu s)"
    and "ppu_oam_addr (bus_ppu s') = ppu_oam_addr (bus_ppu s)"
  using assms by (simp_all add: dma_view_def)

lemma dma_view_counter [simp]:
  "dma_view (s\<lparr>bus_system_clock_counter := x\<rparr>) = (dma_view s)\<lparr>dv_counter := x\<rparr>"
  by (simp add: dma_view_def)

subsection \<open>One tick\<close>

lemma Bus_clock_obs_clocked:
  "Bus_clock_obs E s =
    (fst (Bus_cpu_slot E (Bus_ppu_clocked E s)),
     (Bus_irq_check E (Bus_nmi_check E (snd (Bus_cpu_slot E (Bus_ppu_clocked E s)))))
       \<lparr>bus_system_clock_counter :=
          bus_system_clock_counter
            (Bus_irq_check E (Bus_nmi_check E (snd (Bus_cpu_slot E (Bus_ppu_clocked E s))))) + 1\<rparr>)"
  by (simp add: Bus_clock_obs_def Bus_ppu_clocked_def Let_def split_beta)

lemma Bus_dma_step_dummy:
  assumes "bus_dma_dummy u"
  shows "fst (Bus_dma_step E u) = DmaDummy"
    and "dma_view (snd (Bus_dma_step E u))
           = (if odd (unat (bus_system_clock_counter u))
              then (dma_view u)\<lparr>dv_dummy := False\<rparr> else dma_view u)"
  using assms by (simp_all add: Bus_dma_step_def Let_def dma_view_def odd_iff_mod_2_eq_one)

lemma Bus_dma_step_read:
  assumes "\<not> bus_dma_dummy u" and "even (unat (bus_system_clock_counter u))"
  shows "fst (Bus_dma_step E u)
           = DmaRead (push_bit 8 (ucast (bus_dma_page u)) OR ucast (bus_dma_addr u))
               (fst (Bus_cpu_read E u (push_bit 8 (ucast (bus_dma_page u)) OR ucast (bus_dma_addr u))))"
    and "dma_view (snd (Bus_dma_step E u))
           = (dma_view u)\<lparr>dv_data :=
                fst (Bus_cpu_read E u (push_bit 8 (ucast (bus_dma_page u)) OR ucast (bus_dma_addr u)))\<rparr>"
proof -
  let ?a = "push_bit 8 (ucast (bus_dma_page u)) OR ucast (bus_dma_addr u) :: u16"
  have v: "dma_view (snd (Bus_cpu_read E u ?a)) = dma_view u" by simp
  show "fst (Bus_dma_step E u) = DmaRead ?a (fst (Bus_cpu_read E u ?a))"
    using assms by (simp add: Bus_dma_step_def Let_def split_beta even_iff_mod_2_eq_zero)
  show "dma_view (snd (Bus_dma_step E u)) = (dma_view u)\<lparr>dv_data := fst (Bus_cpu_read E u ?a)\<rparr>"
    using assms dma_view_eqD [OF v]
    by (simp add: Bus_dma_step_def Let_def split_beta even_iff_mod_2_eq_zero dma_view_def)
qed

lemma Bus_dma_step_write:
  assumes "\<not> bus_dma_dummy u" and "odd (unat (bus_system_clock_counter u))"
  shows "fst (Bus_dma_step E u) = DmaWrite (bus_dma_data u)"
    and "dma_view (snd (Bus_dma_step E u))
           = (dma_view u)\<lparr>dv_oam := (ppu_oam (bus_ppu u))(ppu_oam_addr (bus_ppu u) := bus_dma_data u),
                           dv_oam_addr := ppu_oam_addr (bus_ppu u) + 1,
                           dv_addr := bus_dma_addr u + 1,
                           dv_transfer := (if bus_dma_addr u + 1 = 0 then False else bus_dma_transfer u),
                           dv_dummy := (bus_dma_addr u + 1 = 0)\<rparr>"
  using assms
  by (simp_all add: Bus_dma_step_def Let_def split_beta even_iff_mod_2_eq_zero dma_view_def
        PPU_cpu_write_def)

lemma tick_idle:
  assumes "ppu_clock_keeps_oam E" and "unat (bus_system_clock_counter s) mod 3 \<noteq> 0"
  shows "fst (Bus_clock_obs E s) = NoSlot"
    and "dma_view (snd (Bus_clock_obs E s))
           = (dma_view s)\<lparr>dv_counter := bus_system_clock_counter s + 1\<rparr>"
proof -
  note k = dma_view_eqD [OF dma_view_Bus_ppu_clocked [OF assms(1), of s]]
  have sl: "Bus_cpu_slot E (Bus_ppu_clocked E s) = (NoSlot, Bus_ppu_clocked E s)"
    using assms(2) k(6) by (simp add: Bus_cpu_slot_def)
  have v: "dma_view (Bus_irq_check E (Bus_nmi_check E (Bus_ppu_clocked E s))) = dma_view s"
    using assms(1) by simp
  show "fst (Bus_clock_obs E s) = NoSlot"
    by (simp add: Bus_clock_obs_clocked sl)
  show "dma_view (snd (Bus_clock_obs E s))
           = (dma_view s)\<lparr>dv_counter := bus_system_clock_counter s + 1\<rparr>"
    using dma_view_eqD(6) [OF v] v by (simp add: Bus_clock_obs_clocked sl)
qed

lemma tick_dma:
  assumes "ppu_clock_keeps_oam E" and "unat (bus_system_clock_counter s) mod 3 = 0"
    and "bus_dma_transfer s"
  shows "fst (Bus_clock_obs E s) = fst (Bus_dma_step E (Bus_ppu_clocked E s))"
    and "dma_view (snd (Bus_clock_obs E s))
           = (dma_view (snd (Bus_dma_step E (Bus_ppu_clocked E s))))
               \<lparr>dv_counter := bus_system_clock_counter
                                (snd (Bus_dma_step E (Bus_ppu_clocked E s))) + 1\<rparr>"
proof -
  let ?u = "Bus_ppu_clocked E s"
  note k = dma_view_eqD [OF dma_view_Bus_ppu_clocked [OF assms(1), of s]]
  have sl: "Bus_cpu_slot E ?u
      = (fst (Bus_dma_step E ?u),
         (snd (Bus_dma_step E ?u))\<lparr>bus_apu := env_apu_clock E (bus_apu (snd (Bus_dma_step E ?u)))
            (\<lambda>a. fst (Bus_cpu_read E (snd (Bus_dma_step E ?u)) a))\<rparr>)"
    using assms(2,3) k(1,6) by (simp add: Bus_cpu_slot_def split_beta)
  have v: "dma_view (Bus_irq_check E (Bus_nmi_check E (snd (Bus_cpu_slot E ?u))))
             = dma_view (snd (Bus_dma_step E ?u))"
    by (simp add: sl)
  show "fst (Bus_clock_obs E s) = fst (Bus_dma_step E ?u)"
    by (simp add: Bus_clock_obs_clocked sl)
  show "dma_view (snd (Bus_clock_obs E s))
           = (dma_view (snd (Bus_dma_step E ?u)))
               \<lparr>dv_counter := bus_system_clock_counter (snd (Bus_dma_step E ?u)) + 1\<rparr>"
    using dma_view_eqD(6) [OF v] v by (simp add: Bus_clock_obs_clocked)
qed

lemma tick_cpu:
  assumes "ppu_clock_keeps_oam E" and "unat (bus_system_clock_counter s) mod 3 = 0"
    and "\<not> bus_dma_transfer s"
  shows "fst (Bus_clock_obs E s) = CpuClock"
proof -
  note k = dma_view_eqD [OF dma_view_Bus_ppu_clocked [OF assms(1), of s]]
  show ?thesis
    using assms(2,3) k(1,6) by (simp add: Bus_clock_obs_clocked Bus_cpu_slot_def split_beta)
qed


subsection \<open>Three ticks: one slot of the CPU\<close>

lemma Bus_run_add:
  "Bus_run E (m + n) s =
    (fst (Bus_run E m s) @ fst (Bus_run E n (snd (Bus_run E m s))),
     snd (Bus_run E n (snd (Bus_run E m s))))"
  by (induction m arbitrary: s) (simp_all add: split_beta)

lemma Bus_run_1: "Bus_run E (Suc 0) s = ([fst (Bus_clock_obs E s)], snd (Bus_clock_obs E s))"
  by (simp add: split_beta)

lemma Bus_run_2:
  "Bus_run E 2 s =
    ([fst (Bus_clock_obs E s), fst (Bus_clock_obs E (snd (Bus_clock_obs E s)))],
     snd (Bus_clock_obs E (snd (Bus_clock_obs E s))))"
  by (simp add: numeral_2_eq_2 split_beta)

lemma Bus_run_3:
  "Bus_run E 3 s =
    (fst (Bus_run E 2 s) @ [fst (Bus_clock_obs E (snd (Bus_run E 2 s)))],
     snd (Bus_clock_obs E (snd (Bus_run E 2 s))))"
  using Bus_run_add [of E 2 "Suc 0" s] by (simp add: split_beta)

lemma unat_counter_add:
  fixes c :: "64 word"
  assumes "unat c + n < 2 ^ 64"
  shows "unat (c + of_nat n) = unat c + n"
proof -
  have "unat (of_nat n :: 64 word) = n"
    using assms by (simp add: unat_of_nat)
  then show ?thesis
    using assms unat_add_lem [of c "of_nat n"] by simp
qed

lemma Bus_dma_step_counter:
  "bus_system_clock_counter (snd (Bus_dma_step E u)) = bus_system_clock_counter u"
proof -
  have "bus_system_clock_counter (snd (Bus_cpu_read E u a)) = bus_system_clock_counter u" for a
    using dma_view_eqD(6) [OF dma_view_Bus_cpu_read] .
  then show ?thesis
    by (simp add: Bus_dma_step_def Let_def split_beta)
qed

lemma run2_idle:
  assumes "ppu_clock_keeps_oam E"
    and "unat (bus_system_clock_counter s) mod 3 = 1"
    and "unat (bus_system_clock_counter s) + 3 < 2 ^ 64"
  shows "fst (Bus_run E 2 s) = [NoSlot, NoSlot]"
    and "dma_view (snd (Bus_run E 2 s))
           = (dma_view s)\<lparr>dv_counter := bus_system_clock_counter s + 2\<rparr>"
    and "dma_view (Bus_ppu_clocked E (snd (Bus_run E 2 s)))
           = (dma_view s)\<lparr>dv_counter := bus_system_clock_counter s + 2\<rparr>"
proof -
  let ?c = "bus_system_clock_counter s"
  let ?s1 = "snd (Bus_clock_obs E s)"
  have m0: "unat ?c mod 3 \<noteq> 0" using assms(2) by simp
  note t1 = tick_idle [OF assms(1) m0]
  have c1: "bus_system_clock_counter ?s1 = ?c + 1"
    using arg_cong [OF t1(2), of dv_counter] by simp
  have u1: "unat (?c + 1) = unat ?c + 1"
    using unat_counter_add [of ?c 1] assms(3) by simp
  have m1: "unat (bus_system_clock_counter ?s1) mod 3 \<noteq> 0"
    unfolding c1 u1 using assms(2) by presburger
  note t2 = tick_idle [OF assms(1) m1]
  show "fst (Bus_run E 2 s) = [NoSlot, NoSlot]"
    by (simp add: Bus_run_2 t1(1) t2(1))
  show v2: "dma_view (snd (Bus_run E 2 s)) = (dma_view s)\<lparr>dv_counter := ?c + 2\<rparr>"
    by (simp add: Bus_run_2 t2(2) t1(2) c1 add.assoc)
  show "dma_view (Bus_ppu_clocked E (snd (Bus_run E 2 s))) = (dma_view s)\<lparr>dv_counter := ?c + 2\<rparr>"
    using assms(1) v2 by simp
qed

lemma run3_dma:
  assumes "ppu_clock_keeps_oam E"
    and "unat (bus_system_clock_counter s) mod 3 = 1"
    and "unat (bus_system_clock_counter s) + 3 < 2 ^ 64"
    and "bus_dma_transfer s"
  shows "fst (Bus_run E 3 s)
           = [NoSlot, NoSlot, fst (Bus_dma_step E (Bus_ppu_clocked E (snd (Bus_run E 2 s))))]"
    and "dma_view (snd (Bus_run E 3 s))
           = (dma_view (snd (Bus_dma_step E (Bus_ppu_clocked E (snd (Bus_run E 2 s))))))
               \<lparr>dv_counter := bus_system_clock_counter s + 3\<rparr>"
proof -
  let ?c = "bus_system_clock_counter s"
  let ?s2 = "snd (Bus_run E 2 s)"
  note r2 = run2_idle [OF assms(1-3)]
  have c2: "bus_system_clock_counter ?s2 = ?c + 2"
    using arg_cong [OF r2(2), of dv_counter] by simp
  have cu: "bus_system_clock_counter (Bus_ppu_clocked E ?s2) = ?c + 2"
    using arg_cong [OF r2(3), of dv_counter] by simp
  have tr: "bus_dma_transfer ?s2"
    using arg_cong [OF r2(2), of dv_transfer] assms(4) by simp
  have u2: "unat (?c + 2) = unat ?c + 2"
    using unat_counter_add [of ?c 2] assms(3) by simp
  have m2: "unat (bus_system_clock_counter ?s2) mod 3 = 0"
    unfolding c2 u2 using assms(2) by presburger
  note t3 = tick_dma [OF assms(1) m2 tr]
  show "fst (Bus_run E 3 s)
           = [NoSlot, NoSlot, fst (Bus_dma_step E (Bus_ppu_clocked E ?s2))]"
    by (simp add: Bus_run_3 r2(1) t3(1))
  show "dma_view (snd (Bus_run E 3 s))
           = (dma_view (snd (Bus_dma_step E (Bus_ppu_clocked E ?s2))))\<lparr>dv_counter := ?c + 3\<rparr>"
    by (simp add: Bus_run_3 t3(2) Bus_dma_step_counter cu add.assoc)
qed

lemma run3_cpu:
  assumes "ppu_clock_keeps_oam E"
    and "unat (bus_system_clock_counter s) mod 3 = 1"
    and "unat (bus_system_clock_counter s) + 3 < 2 ^ 64"
    and "\<not> bus_dma_transfer s"
  shows "fst (Bus_run E 3 s) = [NoSlot, NoSlot, CpuClock]"
proof -
  let ?c = "bus_system_clock_counter s"
  let ?s2 = "snd (Bus_run E 2 s)"
  note r2 = run2_idle [OF assms(1-3)]
  have c2: "bus_system_clock_counter ?s2 = ?c + 2"
    using arg_cong [OF r2(2), of dv_counter] by simp
  have tr: "\<not> bus_dma_transfer ?s2"
    using arg_cong [OF r2(2), of dv_transfer] assms(4) by simp
  have u2: "unat (?c + 2) = unat ?c + 2"
    using unat_counter_add [of ?c 2] assms(3) by simp
  have m2: "unat (bus_system_clock_counter ?s2) mod 3 = 0"
    unfolding c2 u2 using assms(2) by presburger
  show ?thesis
    by (simp add: Bus_run_3 r2(1) tick_cpu [OF assms(1) m2 tr])
qed


lemma dma_view_eq_iff:
  "(dma_view s = v) =
     (bus_dma_transfer s = dv_transfer v \<and> bus_dma_dummy s = dv_dummy v
      \<and> bus_dma_page s = dv_page v \<and> bus_dma_addr s = dv_addr v
      \<and> bus_dma_data s = dv_data v \<and> bus_system_clock_counter s = dv_counter v
      \<and> cpu_total_cycles (bus_cpu s) = dv_total_cycles v
      \<and> ppu_oam (bus_ppu s) = dv_oam v \<and> ppu_oam_addr (bus_ppu s) = dv_oam_addr v)"
  by (cases v) (auto simp add: dma_view_def)

lemma step3_dummy:
  assumes "ppu_clock_keeps_oam E"
    and "unat (bus_system_clock_counter s) mod 3 = 1"
    and "unat (bus_system_clock_counter s) + 3 < 2 ^ 64"
    and "bus_dma_transfer s" and "bus_dma_dummy s"
  shows "fst (Bus_run E 3 s) = [NoSlot, NoSlot, DmaDummy]"
    and "dma_view (snd (Bus_run E 3 s))
           = (dma_view s)\<lparr>dv_dummy := even (unat (bus_system_clock_counter s)),
                           dv_counter := bus_system_clock_counter s + 3\<rparr>"
proof -
  let ?c = "bus_system_clock_counter s"
  let ?u = "Bus_ppu_clocked E (snd (Bus_run E 2 s))"
  note r3 = run3_dma [OF assms(1-4)]
  note vu = run2_idle(3) [OF assms(1-3)]
  have u: "bus_dma_dummy ?u" "bus_system_clock_counter ?u = ?c + 2"
    using vu assms(5) by (simp_all add: dma_view_eq_iff)
  have u2: "unat (?c + 2) = unat ?c + 2"
    using unat_counter_add [of ?c 2] assms(3) by simp
  note st = Bus_dma_step_dummy [OF u(1), of E]
  show "fst (Bus_run E 3 s) = [NoSlot, NoSlot, DmaDummy]"
    by (simp add: r3(1) st(1))
  show "dma_view (snd (Bus_run E 3 s))
           = (dma_view s)\<lparr>dv_dummy := even (unat ?c), dv_counter := ?c + 3\<rparr>"
    using assms(5) by (simp add: r3(2) st(2) u(2) u2 vu)
qed

lemma step3_read:
  assumes "ppu_clock_keeps_oam E"
    and "unat (bus_system_clock_counter s) mod 3 = 1"
    and "unat (bus_system_clock_counter s) + 3 < 2 ^ 64"
    and "bus_dma_transfer s" and "\<not> bus_dma_dummy s"
    and "even (unat (bus_system_clock_counter s))"
  shows "fst (Bus_run E 3 s)
           = [NoSlot, NoSlot,
              DmaRead (push_bit 8 (ucast (bus_dma_page s)) OR ucast (bus_dma_addr s))
                (fst (Bus_cpu_read E (Bus_ppu_clocked E (snd (Bus_run E 2 s)))
                        (push_bit 8 (ucast (bus_dma_page s)) OR ucast (bus_dma_addr s))))]"
    and "dma_view (snd (Bus_run E 3 s))
           = (dma_view s)\<lparr>dv_data :=
                 fst (Bus_cpu_read E (Bus_ppu_clocked E (snd (Bus_run E 2 s)))
                        (push_bit 8 (ucast (bus_dma_page s)) OR ucast (bus_dma_addr s))),
               dv_counter := bus_system_clock_counter s + 3\<rparr>"
proof -
  let ?c = "bus_system_clock_counter s"
  let ?u = "Bus_ppu_clocked E (snd (Bus_run E 2 s))"
  note r3 = run3_dma [OF assms(1-4)]
  note vu = run2_idle(3) [OF assms(1-3)]
  have u: "\<not> bus_dma_dummy ?u" "bus_system_clock_counter ?u = ?c + 2"
      "bus_dma_page ?u = bus_dma_page s" "bus_dma_addr ?u = bus_dma_addr s"
    using vu assms(5) by (simp_all add: dma_view_eq_iff)
  have u2: "unat (?c + 2) = unat ?c + 2"
    using unat_counter_add [of ?c 2] assms(3) by simp
  have ev: "even (unat (bus_system_clock_counter ?u))"
    unfolding u(2) u2 using assms(6) by simp
  note st = Bus_dma_step_read [OF u(1) ev, of E]
  show "fst (Bus_run E 3 s)
           = [NoSlot, NoSlot,
              DmaRead (push_bit 8 (ucast (bus_dma_page s)) OR ucast (bus_dma_addr s))
                (fst (Bus_cpu_read E ?u
                        (push_bit 8 (ucast (bus_dma_page s)) OR ucast (bus_dma_addr s))))]"
    by (simp add: r3(1) st(1) u(3,4))
  show "dma_view (snd (Bus_run E 3 s))
           = (dma_view s)\<lparr>dv_data :=
                 fst (Bus_cpu_read E ?u
                        (push_bit 8 (ucast (bus_dma_page s)) OR ucast (bus_dma_addr s))),
               dv_counter := ?c + 3\<rparr>"
    by (simp add: r3(2) st(2) u(3,4) vu)
qed

lemma step3_write:
  assumes "ppu_clock_keeps_oam E"
    and "unat (bus_system_clock_counter s) mod 3 = 1"
    and "unat (bus_system_clock_counter s) + 3 < 2 ^ 64"
    and "bus_dma_transfer s" and "\<not> bus_dma_dummy s"
    and "odd (unat (bus_system_clock_counter s))"
  shows "fst (Bus_run E 3 s) = [NoSlot, NoSlot, DmaWrite (bus_dma_data s)]"
    and "dma_view (snd (Bus_run E 3 s))
           = (dma_view s)\<lparr>dv_oam := (ppu_oam (bus_ppu s))(ppu_oam_addr (bus_ppu s) := bus_dma_data s),
                           dv_oam_addr := ppu_oam_addr (bus_ppu s) + 1,
                           dv_addr := bus_dma_addr s + 1,
                           dv_transfer := (bus_dma_addr s + 1 \<noteq> 0),
                           dv_dummy := (bus_dma_addr s + 1 = 0),
                           dv_counter := bus_system_clock_counter s + 3\<rparr>"
proof -
  let ?c = "bus_system_clock_counter s"
  let ?u = "Bus_ppu_clocked E (snd (Bus_run E 2 s))"
  note r3 = run3_dma [OF assms(1-4)]
  note vu = run2_idle(3) [OF assms(1-3)]
  have u: "\<not> bus_dma_dummy ?u" "bus_system_clock_counter ?u = ?c + 2"
      "bus_dma_data ?u = bus_dma_data s" "bus_dma_addr ?u = bus_dma_addr s"
      "bus_dma_transfer ?u" "ppu_oam (bus_ppu ?u) = ppu_oam (bus_ppu s)"
      "ppu_oam_addr (bus_ppu ?u) = ppu_oam_addr (bus_ppu s)"
    using vu assms(4,5) by (simp_all add: dma_view_eq_iff)
  have u2: "unat (?c + 2) = unat ?c + 2"
    using unat_counter_add [of ?c 2] assms(3) by simp
  have od: "odd (unat (bus_system_clock_counter ?u))"
    unfolding u(2) u2 using assms(6) by simp
  note st = Bus_dma_step_write [OF u(1) od, of E]
  show "fst (Bus_run E 3 s) = [NoSlot, NoSlot, DmaWrite (bus_dma_data s)]"
    by (simp add: r3(1) st(1) u(3))
  show "dma_view (snd (Bus_run E 3 s))
           = (dma_view s)\<lparr>dv_oam := (ppu_oam (bus_ppu s))(ppu_oam_addr (bus_ppu s) := bus_dma_data s),
                           dv_oam_addr := ppu_oam_addr (bus_ppu s) + 1,
                           dv_addr := bus_dma_addr s + 1,
                           dv_transfer := (bus_dma_addr s + 1 \<noteq> 0),
                           dv_dummy := (bus_dma_addr s + 1 = 0),
                           dv_counter := ?c + 3\<rparr>"
    by (simp add: r3(2) st(2) u(3-7) vu)
qed


subsection \<open>A read slot and the write slot after it\<close>

lemma pair6:
  assumes "ppu_clock_keeps_oam E"
    and "unat (bus_system_clock_counter s) mod 3 = 1"
    and "unat (bus_system_clock_counter s) + 6 < 2 ^ 64"
    and "bus_dma_transfer s" and "\<not> bus_dma_dummy s"
    and "even (unat (bus_system_clock_counter s))"
  shows "fst (Bus_run E 6 s)
           = [NoSlot, NoSlot,
              DmaRead (push_bit 8 (ucast (bus_dma_page s)) OR ucast (bus_dma_addr s))
                (fst (Bus_cpu_read E (Bus_ppu_clocked E (snd (Bus_run E 2 s)))
                        (push_bit 8 (ucast (bus_dma_page s)) OR ucast (bus_dma_addr s)))),
              NoSlot, NoSlot,
              DmaWrite (fst (Bus_cpu_read E (Bus_ppu_clocked E (snd (Bus_run E 2 s)))
                        (push_bit 8 (ucast (bus_dma_page s)) OR ucast (bus_dma_addr s))))]"
    and "dma_view (snd (Bus_run E 6 s))
           = (dma_view s)\<lparr>dv_data :=
                 fst (Bus_cpu_read E (Bus_ppu_clocked E (snd (Bus_run E 2 s)))
                        (push_bit 8 (ucast (bus_dma_page s)) OR ucast (bus_dma_addr s))),
               dv_oam := (ppu_oam (bus_ppu s))(ppu_oam_addr (bus_ppu s) :=
                 fst (Bus_cpu_read E (Bus_ppu_clocked E (snd (Bus_run E 2 s)))
                        (push_bit 8 (ucast (bus_dma_page s)) OR ucast (bus_dma_addr s)))),
               dv_oam_addr := ppu_oam_addr (bus_ppu s) + 1,
               dv_addr := bus_dma_addr s + 1,
               dv_transfer := (bus_dma_addr s + 1 \<noteq> 0),
               dv_dummy := (bus_dma_addr s + 1 = 0),
               dv_counter := bus_system_clock_counter s + 6\<rparr>"
proof -
  let ?c = "bus_system_clock_counter s"
  let ?d = "fst (Bus_cpu_read E (Bus_ppu_clocked E (snd (Bus_run E 2 s)))
                   (push_bit 8 (ucast (bus_dma_page s)) OR ucast (bus_dma_addr s)))"
  let ?s3 = "snd (Bus_run E 3 s)"
  have b3: "unat ?c + 3 < 2 ^ 64" using assms(3) by simp
  note rd = step3_read [OF assms(1,2) b3 assms(4,5,6)]
  have s3: "bus_dma_transfer ?s3" "\<not> bus_dma_dummy ?s3"
      "bus_system_clock_counter ?s3 = ?c + 3" "bus_dma_data ?s3 = ?d"
      "bus_dma_addr ?s3 = bus_dma_addr s" "ppu_oam (bus_ppu ?s3) = ppu_oam (bus_ppu s)"
      "ppu_oam_addr (bus_ppu ?s3) = ppu_oam_addr (bus_ppu s)"
    using rd(2) assms(4,5) by (simp_all add: dma_view_eq_iff)
  have u3: "unat (?c + 3) = unat ?c + 3"
    using unat_counter_add [of ?c 3] b3 by simp
  have m3: "unat (bus_system_clock_counter ?s3) mod 3 = 1"
    unfolding s3(3) u3 using assms(2) by presburger
  have b6: "unat (bus_system_clock_counter ?s3) + 3 < 2 ^ 64"
    unfolding s3(3) u3 using assms(3) by simp
  have od: "odd (unat (bus_system_clock_counter ?s3))"
    unfolding s3(3) u3 using assms(6) by simp
  note wr = step3_write [OF assms(1) m3 b6 s3(1,2) od]
  have r6: "Bus_run E 6 s = (fst (Bus_run E 3 s) @ fst (Bus_run E 3 ?s3), snd (Bus_run E 3 ?s3))"
    using Bus_run_add [of E 3 3 s] by simp
  show "fst (Bus_run E 6 s)
           = [NoSlot, NoSlot,
              DmaRead (push_bit 8 (ucast (bus_dma_page s)) OR ucast (bus_dma_addr s)) ?d,
              NoSlot, NoSlot, DmaWrite ?d]"
    by (simp add: r6 rd(1) wr(1) s3(4))
  show "dma_view (snd (Bus_run E 6 s))
           = (dma_view s)\<lparr>dv_data := ?d,
               dv_oam := (ppu_oam (bus_ppu s))(ppu_oam_addr (bus_ppu s) := ?d),
               dv_oam_addr := ppu_oam_addr (bus_ppu s) + 1,
               dv_addr := bus_dma_addr s + 1,
               dv_transfer := (bus_dma_addr s + 1 \<noteq> 0),
               dv_dummy := (bus_dma_addr s + 1 = 0),
               dv_counter := ?c + 6\<rparr>"
    by (simp add: r6 wr(2) s3 rd(2) add.assoc)
qed


subsection \<open>The pairs of the transfer\<close>

lemma dma_addr_wrap:
  fixes a :: u8
  assumes "unat a + Suc k \<le> 256"
  shows "(a + of_nat k + 1 = 0) = (unat a + Suc k = 256)"
proof -
  have "unat (a + of_nat (Suc k)) = (unat a + Suc k) mod 256"
    by (simp add: unat_word_ariths unat_of_nat mod_simps)
  moreover have "((unat a + Suc k) mod 256 = 0) = (unat a + Suc k = 256)"
    using assms by (cases "unat a + Suc k = 256") simp_all
  ultimately have "(a + of_nat (Suc k) = 0) = (unat a + Suc k = 256)"
    by (simp add: unat_eq_0 [symmetric])
  then show ?thesis by (simp add: ac_simps)
qed

lemma oam_index:
  fixes x oa :: u8
  assumes "k < 256"
  shows "(x = oa + of_nat k) = (unat (x - oa) = k)"
proof -
  have u: "unat (of_nat k :: u8) = k" using assms by (simp add: unat_of_nat)
  have "(x = oa + of_nat k) = (x - oa = of_nat k)" by (auto simp add: algebra_simps)
  also have "\<dots> = (unat (x - oa) = unat (of_nat k :: u8))"
    by (simp only: word_unat_eq_iff)
  finally show ?thesis by (simp add: u)
qed

lemma pairs:
  assumes q: "ppu_clock_keeps_oam E"
    and m: "unat (bus_system_clock_counter s) mod 3 = 1"
    and ev: "even (unat (bus_system_clock_counter s))"
    and tr: "bus_dma_transfer s" and du: "\<not> bus_dma_dummy s"
  shows "unat (bus_system_clock_counter s) + 6 * k < 2 ^ 64 \<Longrightarrow>
         unat (bus_dma_addr s) + k \<le> 256 \<Longrightarrow>
         filter (\<lambda>l. l \<noteq> NoSlot) (fst (Bus_run E (6 * k) s))
           = concat (map (\<lambda>i. [DmaRead (push_bit 8 (ucast (bus_dma_page s))
                                           OR ucast (bus_dma_addr s + of_nat i))
                                   (dma_read_byte E s i),
                                 DmaWrite (dma_read_byte E s i)]) [0..<k])
         \<and> dma_view (snd (Bus_run E (6 * k) s))
           = (dma_view s)\<lparr>
               dv_data := (if k = 0 then bus_dma_data s else dma_read_byte E s (k - 1)),
               dv_oam := (\<lambda>x. if unat (x - ppu_oam_addr (bus_ppu s)) < k
                               then dma_read_byte E s (unat (x - ppu_oam_addr (bus_ppu s)))
                               else ppu_oam (bus_ppu s) x),
               dv_oam_addr := ppu_oam_addr (bus_ppu s) + of_nat k,
               dv_addr := bus_dma_addr s + of_nat k,
               dv_transfer := (unat (bus_dma_addr s) + k < 256),
               dv_dummy := (unat (bus_dma_addr s) + k = 256),
               dv_counter := bus_system_clock_counter s + of_nat (6 * k)\<rparr>"
proof (induction k)
  case 0
  show ?case
    using tr du unat_u8_less [of "bus_dma_addr s"] by (simp add: dma_view_def)
next
  case (Suc k)
  let ?c = "bus_system_clock_counter s"
  let ?oa = "ppu_oam_addr (bus_ppu s)"
  let ?sk = "snd (Bus_run E (6 * k) s)"
  let ?rd = "dma_read_byte E s"
  have bk: "unat ?c + 6 * k < 2 ^ 64" and ak: "unat (bus_dma_addr s) + k \<le> 256"
    and lt: "unat (bus_dma_addr s) + k < 256" and k256: "k < 256"
    using Suc.prems by simp_all
  note IH = Suc.IH [OF bk ak]
  have sk: "bus_dma_transfer ?sk" "\<not> bus_dma_dummy ?sk"
      "bus_system_clock_counter ?sk = ?c + of_nat (6 * k)"
      "bus_dma_page ?sk = bus_dma_page s" "bus_dma_addr ?sk = bus_dma_addr s + of_nat k"
      "ppu_oam_addr (bus_ppu ?sk) = ?oa + of_nat k"
      "ppu_oam (bus_ppu ?sk) = (\<lambda>x. if unat (x - ?oa) < k then ?rd (unat (x - ?oa))
                                      else ppu_oam (bus_ppu s) x)"
      "cpu_total_cycles (bus_cpu ?sk) = cpu_total_cycles (bus_cpu s)"
    using IH lt by (simp_all add: dma_view_eq_iff)
  have uk: "unat (?c + of_nat (6 * k)) = unat ?c + 6 * k"
    using unat_counter_add [OF bk] .
  have mk: "unat (bus_system_clock_counter ?sk) mod 3 = 1"
    unfolding sk(3) uk using m by presburger
  have bk6: "unat (bus_system_clock_counter ?sk) + 6 < 2 ^ 64"
    unfolding sk(3) uk using Suc.prems(1) by simp
  have evk: "even (unat (bus_system_clock_counter ?sk))"
    unfolding sk(3) uk using ev by simp
  note p = pair6 [OF q mk bk6 sk(1,2) evk]
  have r2: "snd (Bus_run E 2 ?sk) = snd (Bus_run E (6 * k + 2) s)"
    using Bus_run_add [of E "6 * k" 2 s] by simp
  have d: "fst (Bus_cpu_read E (Bus_ppu_clocked E (snd (Bus_run E 2 ?sk)))
                  (push_bit 8 (ucast (bus_dma_page s)) OR ucast (bus_dma_addr s + of_nat k)))
             = ?rd k"
    by (simp add: dma_read_byte_def r2)
  have run: "Bus_run E (6 * Suc k) s
               = (fst (Bus_run E (6 * k) s) @ fst (Bus_run E 6 ?sk), snd (Bus_run E 6 ?sk))"
    using Bus_run_add [of E "6 * k" 6 s] by (simp add: add.commute)
  have run_fst: "fst (Bus_run E (6 * Suc k) s) = fst (Bus_run E (6 * k) s) @ fst (Bus_run E 6 ?sk)"
    and run_snd: "snd (Bus_run E (6 * Suc k) s) = snd (Bus_run E 6 ?sk)"
    by (simp_all only: run fst_conv snd_conv)
  have p1: "fst (Bus_run E 6 ?sk)
      = [NoSlot, NoSlot,
         DmaRead (push_bit 8 (ucast (bus_dma_page s)) OR ucast (bus_dma_addr s + of_nat k)) (?rd k),
         NoSlot, NoSlot, DmaWrite (?rd k)]"
    using p(1) unfolding sk(4,5) d .
  have p2: "dma_view (snd (Bus_run E 6 ?sk))
      = (dma_view ?sk)\<lparr>dv_data := ?rd k,
           dv_oam := (ppu_oam (bus_ppu ?sk))(ppu_oam_addr (bus_ppu ?sk) := ?rd k),
           dv_oam_addr := ppu_oam_addr (bus_ppu ?sk) + 1,
           dv_addr := bus_dma_addr ?sk + 1,
           dv_transfer := (bus_dma_addr ?sk + 1 \<noteq> 0),
           dv_dummy := (bus_dma_addr ?sk + 1 = 0),
           dv_counter := bus_system_clock_counter ?sk + 6\<rparr>"
    using p(2) unfolding sk(4,5) d unfolding sk(4,5) [symmetric] .
  have labels: "filter (\<lambda>l. l \<noteq> NoSlot) (fst (Bus_run E (6 * Suc k) s))
           = concat (map (\<lambda>i. [DmaRead (push_bit 8 (ucast (bus_dma_page s))
                                           OR ucast (bus_dma_addr s + of_nat i)) (?rd i),
                                 DmaWrite (?rd i)]) [0..<Suc k])"
    unfolding run_fst filter_append p1 using IH by simp
  have wrap: "(bus_dma_addr s + of_nat k + 1 = 0) = (unat (bus_dma_addr s) + Suc k = 256)"
    using dma_addr_wrap [of "bus_dma_addr s" k] Suc.prems(2) by simp
  have oam: "(\<lambda>x. if unat (x - ?oa) < k then ?rd (unat (x - ?oa)) else ppu_oam (bus_ppu s) x)
               (?oa + of_nat k := ?rd k)
             = (\<lambda>x. if unat (x - ?oa) < Suc k then ?rd (unat (x - ?oa))
                     else ppu_oam (bus_ppu s) x)"
  proof
    fix x
    show "((\<lambda>x. if unat (x - ?oa) < k then ?rd (unat (x - ?oa)) else ppu_oam (bus_ppu s) x)
               (?oa + of_nat k := ?rd k)) x
             = (if unat (x - ?oa) < Suc k then ?rd (unat (x - ?oa))
                else ppu_oam (bus_ppu s) x)"
      using oam_index [OF k256, of x ?oa] by (auto simp add: less_Suc_eq)
  qed
  have cnt: "?c + of_nat (6 * k) + 6 = ?c + of_nat (6 * Suc k)"
    by simp
  have view: "dma_view (snd (Bus_run E (6 * Suc k) s))
           = (dma_view s)\<lparr>
               dv_data := (if Suc k = 0 then bus_dma_data s else ?rd (Suc k - 1)),
               dv_oam := (\<lambda>x. if unat (x - ?oa) < Suc k then ?rd (unat (x - ?oa))
                               else ppu_oam (bus_ppu s) x),
               dv_oam_addr := ?oa + of_nat (Suc k),
               dv_addr := bus_dma_addr s + of_nat (Suc k),
               dv_transfer := (unat (bus_dma_addr s) + Suc k < 256),
               dv_dummy := (unat (bus_dma_addr s) + Suc k = 256),
               dv_counter := ?c + of_nat (6 * Suc k)\<rparr>"
    unfolding run_snd p2 sk(3,5,6,7) wrap oam cnt
    using Suc.prems(2) IH
    by (auto simp add: dma_view_def ac_simps)
  show ?case using labels view by blast
qed


subsection \<open>The alignment slots\<close>

lemma slot_parity:
  fixes n :: nat
  assumes "n mod 3 = 1"
  shows "even (n div 3) = odd n"
  using assms by presburger

lemma dummies:
  assumes q: "ppu_clock_keeps_oam E"
    and m: "unat (bus_system_clock_counter t) mod 3 = 1"
    and b: "unat (bus_system_clock_counter t) + 6 < 2 ^ 64"
    and tr: "bus_dma_transfer t" and du: "bus_dma_dummy t"
    and d: "d = (if even (unat (bus_system_clock_counter t) div 3) then 1 else 2)"
  shows "filter (\<lambda>l. l \<noteq> NoSlot) (fst (Bus_run E (3 * d) t)) = replicate d DmaDummy"
    and "dma_view (snd (Bus_run E (3 * d) t))
           = (dma_view t)\<lparr>dv_dummy := False,
                           dv_counter := bus_system_clock_counter t + of_nat (3 * d)\<rparr>"
    and "even (unat (bus_system_clock_counter t) + 3 * d)"
proof -
  let ?c = "bus_system_clock_counter t"
  have b3: "unat ?c + 3 < 2 ^ 64" using b by simp
  note s1 = step3_dummy [OF q m b3 tr du]
  have par: "even (unat ?c div 3) = odd (unat ?c)" using slot_parity [OF m] .
  have main: "filter (\<lambda>l. l \<noteq> NoSlot) (fst (Bus_run E (3 * d) t)) = replicate d DmaDummy
     \<and> dma_view (snd (Bus_run E (3 * d) t))
           = (dma_view t)\<lparr>dv_dummy := False, dv_counter := ?c + of_nat (3 * d)\<rparr>
     \<and> even (unat ?c + 3 * d)"
  proof (cases "odd (unat ?c)")
    case True
    then have d1: "d = 1" using d par by simp
    have "filter (\<lambda>l. l \<noteq> NoSlot) (fst (Bus_run E (3 * d) t)) = replicate d DmaDummy"
      unfolding d1 by (simp add: s1(1))
    moreover have "dma_view (snd (Bus_run E (3 * d) t))
           = (dma_view t)\<lparr>dv_dummy := False, dv_counter := ?c + of_nat (3 * d)\<rparr>"
      unfolding d1 using True by (simp add: s1(2))
    moreover have "even (unat ?c + 3 * d)"
      unfolding d1 using True by simp
    ultimately show ?thesis by blast
  next
    case False
    then have d2: "d = 2" using d par by simp
    let ?s3 = "snd (Bus_run E 3 t)"
    have s3: "bus_dma_transfer ?s3" "bus_dma_dummy ?s3" "bus_system_clock_counter ?s3 = ?c + 3"
      using s1(2) tr False by (simp_all add: dma_view_eq_iff)
    have u3: "unat (?c + 3) = unat ?c + 3"
      using unat_counter_add [of ?c 3] b3 by simp
    have m3: "unat (bus_system_clock_counter ?s3) mod 3 = 1"
      unfolding s3(3) u3 using m by presburger
    have b6: "unat (bus_system_clock_counter ?s3) + 3 < 2 ^ 64"
      unfolding s3(3) u3 using b by simp
    note s2 = step3_dummy [OF q m3 b6 s3(1,2)]
    have r6: "Bus_run E 6 t = (fst (Bus_run E 3 t) @ fst (Bus_run E 3 ?s3), snd (Bus_run E 3 ?s3))"
      using Bus_run_add [of E 3 3 t] by simp
    have od: "odd (unat (bus_system_clock_counter ?s3))"
      unfolding s3(3) u3 using False by simp
    have "filter (\<lambda>l. l \<noteq> NoSlot) (fst (Bus_run E (3 * d) t)) = replicate d DmaDummy"
      unfolding d2 by (simp add: r6 s1(1) s2(1) numeral_2_eq_2)
    moreover have "dma_view (snd (Bus_run E (3 * d) t))
           = (dma_view t)\<lparr>dv_dummy := False, dv_counter := ?c + of_nat (3 * d)\<rparr>"
      unfolding d2 using od by (simp add: r6 s2(2) s1(2) s3(3) add.assoc)
    moreover have "even (unat ?c + 3 * d)"
      unfolding d2 using False by simp
    ultimately show ?thesis by blast
  qed
  show "filter (\<lambda>l. l \<noteq> NoSlot) (fst (Bus_run E (3 * d) t)) = replicate d DmaDummy"
    and "dma_view (snd (Bus_run E (3 * d) t))
           = (dma_view t)\<lparr>dv_dummy := False, dv_counter := ?c + of_nat (3 * d)\<rparr>"
    and "even (unat ?c + 3 * d)"
    using main by blast+
qed

lemma Bus_cpu_write_4014:
  assumes "mapper_ignores (env_mapper E) 0x4014"
  shows "Bus_cpu_write E s 0x4014 p =
    s\<lparr>bus_dma_page := p, bus_dma_addr := 0x00, bus_dma_transfer := True\<rparr>"
  using assms
  by (cases "bus_cartridge s") (simp_all add: Bus_cpu_write_def Cartridge_cpu_write_ignored)

lemma ucast_of_nat_u8:
  assumes "i < 256"
  shows "(ucast (of_nat i :: u8) :: u16) = of_nat i"
proof -
  have "unat (ucast (of_nat i :: u8) :: u16) = unat (of_nat i :: u16)"
    using assms by (simp add: unat_ucast_8_16 unat_of_nat)
  then show ?thesis by (simp only: word_unat_eq_iff)
qed


subsection \<open>The whole transfer\<close>


lemma instr_8D:
  "instr_name 0x8D = ''STA''" "instr_addrmode 0x8D = ABS" "instr_cycles 0x8D = 4"
  by (simp_all add: instr_name_def instr_addrmode_def instr_cycles_def instruction_table_def)

lemma sta_cpu_clock:
  "CPU_clock env0 sta_machine =
     sta_machine\<lparr>bus_cpu := (bus_cpu machine0)\<lparr>cpu_A := 0x02, cpu_PC := 0x0003,
                      cpu_total_cycles := 1, cpu_cycles_remaining := 3,
                      cpu_addr_abs := 0x4014, cpu_opcode := 0x8D\<rparr>,
                  bus_dma_page := 0x02, bus_dma_addr := 0x00, bus_dma_transfer := True\<rparr>"
  by (simp add: CPU_clock_def sta_machine_def machine0_eq Let_def Bus_cpu_read_def
        upd_cpu_def CPU_set_flag_def set_flag_def flag_defs instr_8D
        CPU_addrmode_def CPU_read_pc_def CPU_operate_def CPU_STA_def Bus_cpu_write_def)


lemma env0_clocks:
  "env_ppu_clock env0 p c = (p, c)" "env_apu_clock env0 a r = APU_clock a"
  by (simp_all add: env0_def)

lemma sta_machine_fields:
  "bus_system_clock_counter sta_machine = 0" "\<not> bus_dma_transfer sta_machine"
  "bus_dma_dummy sta_machine" "bus_dma_data sta_machine = 0x00"
  "bus_cartridge sta_machine = None"
  "ppu_nmi (bus_ppu sta_machine) = False"
  "ppu_oam (bus_ppu sta_machine) = (\<lambda>_. 0xFF)" "ppu_oam_addr (bus_ppu sta_machine) = 0x00"
  "cpu_total_cycles (bus_cpu machine0) = 0"
  by (simp_all add: sta_machine_def machine0_eq)

lemma env0_ppu_clocked: "Bus_ppu_clocked env0 s = s"
  by (simp add: Bus_ppu_clocked_def env0_def)

lemma sta_machine_tick:
  "fst (Bus_clock_obs env0 sta_machine) = CpuClock"
  "dma_view (snd (Bus_clock_obs env0 sta_machine))
     = \<lparr>dv_transfer = True, dv_dummy = True, dv_page = 0x02, dv_addr = 0x00, dv_data = 0x00,
        dv_counter = 1, dv_total_cycles = 1, dv_oam = (\<lambda>_. 0xFF), dv_oam_addr = 0x00\<rparr>"
  by (simp_all add: Bus_clock_obs_clocked env0_ppu_clocked Bus_cpu_slot_def Let_def env0_clocks
        sta_machine_fields sta_cpu_clock Bus_nmi_check_def Bus_irq_check_def dma_view_def)

lemma env0_dma:
  "mapper_ignores (env_mapper env0) 0x4014" "ppu_clock_keeps_oam env0"
  by (simp_all add: env0_mapper Mapper004_ignores) (simp add: ppu_clock_keeps_oam_def env0_def)


section \<open>The MMC3 IRQ in a tick of the bus\<close>

subsection \<open>A CPU slot that executes \<^verbatim>\<open>STA\<close> with an absolute address\<close>

lemma Bus_cpu_read_bus_cpu:
  "Bus_cpu_read E (s\<lparr>bus_cpu := c\<rparr>) a
     = (fst (Bus_cpu_read E s a), (snd (Bus_cpu_read E s a))\<lparr>bus_cpu := c\<rparr>)"
  by (simp add: Bus_cpu_read_def Let_def split_beta split: option.splits)

lemma Bus_cpu_write_cpu [simp]: "bus_cpu (Bus_cpu_write E s a d) = bus_cpu s"
  by (simp add: Bus_cpu_write_def Let_def split_beta split: option.splits)

lemma CPU_clock_STA_abs:
  fixes E :: "('m, 'a, 'r) env" and s :: "('m, 'a, 'r) Bus"
  assumes c0: "cpu_cycles_remaining (bus_cpu s) = 0"
    and r0: "Bus_cpu_read E s (cpu_PC (bus_cpu s)) = (0x8D, s)"
    and r1: "Bus_cpu_read E s (cpu_PC (bus_cpu s) + 1) = (lo, s)"
    and r2: "Bus_cpu_read E s (cpu_PC (bus_cpu s) + 2) = (hi, s)"
  shows "CPU_clock E s =
     (Bus_cpu_write E
        (s\<lparr>bus_cpu := (bus_cpu s)\<lparr>cpu_opcode := 0x8D,
              cpu_P := cpu_P (bus_cpu s) OR flag_U,
              cpu_PC := cpu_PC (bus_cpu s) + 3, cpu_cycles_remaining := 4,
              cpu_addr_abs := push_bit 8 (ucast hi) OR ucast lo\<rparr>\<rparr>)
        (push_bit 8 (ucast hi) OR ucast lo) (cpu_A (bus_cpu s)))
      \<lparr>bus_cpu := (bus_cpu s)\<lparr>cpu_opcode := 0x8D,
              cpu_P := cpu_P (bus_cpu s) OR flag_U,
              cpu_PC := cpu_PC (bus_cpu s) + 3, cpu_cycles_remaining := 3,
              cpu_total_cycles := cpu_total_cycles (bus_cpu s) + 1,
              cpu_addr_abs := push_bit 8 (ucast hi) OR ucast lo\<rparr>\<rparr>"
proof -
  have rd: "Bus_cpu_read E (s\<lparr>bus_cpu := c\<rparr>) (cpu_PC (bus_cpu s)) = (0x8D, s\<lparr>bus_cpu := c\<rparr>)"
      "Bus_cpu_read E (s\<lparr>bus_cpu := c\<rparr>) (cpu_PC (bus_cpu s) + 1) = (lo, s\<lparr>bus_cpu := c\<rparr>)"
      "Bus_cpu_read E (s\<lparr>bus_cpu := c\<rparr>) (cpu_PC (bus_cpu s) + 2) = (hi, s\<lparr>bus_cpu := c\<rparr>)" for c
    by (simp_all add: Bus_cpu_read_bus_cpu r0 r1 r2)
  have a: "cpu_PC (bus_cpu s) + 1 + 1 = cpu_PC (bus_cpu s) + 2" by simp
  show ?thesis
    unfolding CPU_clock_def Let_def
    apply (simp add: c0 r0 upd_cpu_def CPU_set_flag_def set_flag_def instr_8D
        CPU_addrmode_def CPU_read_pc_def CPU_operate_def CPU_STA_def rd a)
    apply (cases "bus_cpu s")
    apply (simp add: add.commute)
    done
qed

subsection \<open>The IRQ check, last in the tick\<close>

lemma Bus_ppu_clocked_fields:
  "bus_cpu (Bus_ppu_clocked E s) = bus_cpu s"
  "bus_ram (Bus_ppu_clocked E s) = bus_ram s"
  "bus_system_clock_counter (Bus_ppu_clocked E s) = bus_system_clock_counter s"
  "bus_dma_transfer (Bus_ppu_clocked E s) = bus_dma_transfer s"
  by (simp_all add: Bus_ppu_clocked_def split_beta)

lemma counter_CPU_irq:
  "bus_system_clock_counter (CPU_irq E s) = bus_system_clock_counter s"
  by (metis dma_view_CPU_irq dma_view_sel(6))

lemma counter_CPU_nmi:
  "bus_system_clock_counter (CPU_nmi E s) = bus_system_clock_counter s"
  by (metis dma_view_CPU_nmi dma_view_sel(6))

lemma Bus_irq_check_mmc3:
  assumes "env_mapper E = Mapper004_ops" and "bus_cartridge s = Some c"
    and "cart_mapper c = Some m"
  shows "Bus_irq_check E s =
     (if Mapper004_irq_state m
      then CPU_irq E (s\<lparr>bus_cartridge := Some (c\<lparr>cart_mapper := Some (m\<lparr>m4_irq_active := False\<rparr>)\<rparr>)\<rparr>)
      else s)"
  using assms
  by (simp add: Bus_irq_check_def Cartridge_irq_state_def Cartridge_irq_clear_def
        Mapper004_ops_def Mapper004_irq_clear_def)

lemma Bus_clock_irq_check:
  "Bus_clock E s =
     (Bus_irq_check E (Bus_nmi_check E (snd (Bus_cpu_slot E (Bus_ppu_clocked E s)))))
       \<lparr>bus_system_clock_counter :=
          bus_system_clock_counter (Bus_nmi_check E (snd (Bus_cpu_slot E (Bus_ppu_clocked E s)))) + 1\<rparr>"
proof -
  have "bus_system_clock_counter (Bus_irq_check E u) = bus_system_clock_counter u" for u
    by (metis dma_view_Bus_irq_check dma_view_sel(6))
  then show ?thesis
    by (simp add: Bus_clock_def Bus_clock_obs_clocked)
qed

lemma Bus_clock_no_slot:
  assumes "unat (bus_system_clock_counter s) mod 3 \<noteq> 0"
    and "\<not> ppu_nmi (bus_ppu (Bus_ppu_clocked E s))"
  shows "Bus_clock E s =
     (Bus_irq_check E (Bus_ppu_clocked E s))
       \<lparr>bus_system_clock_counter := bus_system_clock_counter s + 1\<rparr>"
  unfolding Bus_clock_irq_check using assms
  by (simp add: Bus_cpu_slot_def Bus_nmi_check_def Bus_ppu_clocked_fields)

lemma Mapper004_ops_ignores_stack:
  assumes "env_mapper E = Mapper004_ops"
  shows "\<forall>a. 0x0100 \<le> a \<and> a \<le> 0x01FF \<longrightarrow> mapper_ignores (env_mapper E) a"
  using assms
  by (auto simp add: word_le_nat_alt word_less_nat_alt intro!: Mapper004_ignores)


subsection \<open>The tick on a machine with the IRQ pending\<close>

lemma scanlines_17_armed:
  "scanlines 17 mmc3_armed
     = (Mapper004_new 2 1)\<lparr>m4_irq_latch := 0x10, m4_irq_enable := True,
          m4_irq_counter := 0, m4_irq_reload := False, m4_irq_active := True\<rparr>"
  "\<not> m4_irq_active (scanlines 16 mmc3_armed)"
proof -
  have h: "m4_irq_latch mmc3_armed = 0x10" "m4_irq_enable mmc3_armed"
      "m4_irq_counter mmc3_armed = 0" "\<not> m4_irq_active mmc3_armed"
    by (simp_all add: mmc3_armed_eq Mapper004_new_def Mapper004_reset_def
          Mapper004_update_banks_def Let_def)
  note sc = scanlines_latch_16 [OF h]
  show "scanlines 17 mmc3_armed
     = (Mapper004_new 2 1)\<lparr>m4_irq_latch := 0x10, m4_irq_enable := True,
          m4_irq_counter := 0, m4_irq_reload := False, m4_irq_active := True\<rparr>"
    using sc by (simp add: mmc3_armed_eq)
  show "\<not> m4_irq_active (scanlines 16 mmc3_armed)"
    using sc by (simp add: Mapper004_irq_state_def)
qed

lemma irq_machine_fields:
  "bus_cartridge (irq_machine k) = Some (mmc3_cartridge k)"
  "bus_cpu (irq_machine k) = (bus_cpu machine0)\<lparr>cpu_P := 0x20, cpu_cycles_remaining := 0\<rparr>"
  "bus_ram (irq_machine k) = (\<lambda>_. 0x00)(0x0000 := 0x8D, 0x0001 := 0x00, 0x0002 := 0xE0)"
  "bus_system_clock_counter (irq_machine k) = 0"
  "\<not> bus_dma_transfer (irq_machine k)"
  "\<not> ppu_nmi (bus_ppu (irq_machine k))"
  "\<not> CPU_get_flag flag_I (irq_machine k)"
  by (simp_all add: irq_machine_def machine0_eq CPU_get_flag_def get_flag_def flag_defs)

lemma irq_machine_reads:
  "Bus_cpu_read env0 (irq_machine k) (cpu_PC (bus_cpu (irq_machine k))) = (0x8D, irq_machine k)"
  "Bus_cpu_read env0 (irq_machine k) (cpu_PC (bus_cpu (irq_machine k)) + 1) = (0x00, irq_machine k)"
  "Bus_cpu_read env0 (irq_machine k) (cpu_PC (bus_cpu (irq_machine k)) + 2) = (0xE0, irq_machine k)"
  by (simp_all add: irq_machine_fields machine0_eq Bus_cpu_read_ram env0_mapper Mapper004_ignores)

lemma irq_cpu_clock:
  "CPU_clock env0 (irq_machine k) =
     (irq_machine (k\<lparr>m4_irq_enable := False, m4_irq_active := False\<rparr>))
       \<lparr>bus_cpu := (bus_cpu machine0)\<lparr>cpu_P := 0x20, cpu_PC := 0x0003,
                      cpu_total_cycles := 1, cpu_cycles_remaining := 3,
                      cpu_addr_abs := 0xE000, cpu_opcode := 0x8D\<rparr>\<rparr>"
proof -
  have c0: "cpu_cycles_remaining (bus_cpu (irq_machine k)) = 0"
    by (simp add: irq_machine_fields)
  show ?thesis
    unfolding CPU_clock_STA_abs [OF c0 irq_machine_reads]
    by (simp add: irq_machine_def machine0_eq Bus_cpu_write_def Cartridge_cpu_write_def
          mmc3_cartridge_def env0_mapper Mapper004_ops_def Mapper004_cpu_write_def flag_defs)
qed

lemma irq_machine_tick:
  "Bus_clock env0 (irq_machine k) =
     (irq_machine (k\<lparr>m4_irq_enable := False, m4_irq_active := False\<rparr>))
       \<lparr>bus_cpu := (bus_cpu machine0)\<lparr>cpu_P := 0x20, cpu_PC := 0x0003,
                      cpu_total_cycles := 1, cpu_cycles_remaining := 3,
                      cpu_addr_abs := 0xE000, cpu_opcode := 0x8D\<rparr>,
        bus_apu := APU_clock APU_reset,
        bus_system_clock_counter := 1\<rparr>"
  unfolding Bus_clock_irq_check env0_ppu_clocked
  by (simp add: Bus_cpu_slot_def irq_machine_fields irq_cpu_clock env0_clocks Let_def
        Bus_nmi_check_def Bus_irq_check_def Cartridge_irq_state_def mmc3_cartridge_def
        env0_mapper Mapper004_ops_def Mapper004_irq_state_def)
    (simp add: irq_machine_def machine0_eq)

lemma mmc3_cartridge_read:
  assumes "0x8000 \<le> a" and "bus_cartridge s = Some (mmc3_cartridge m)"
    and "m4_prg_banks m = 2"
  shows "Bus_cpu_read env0 s a = (0xEA, s)"
proof -
  have b: "m4_prg_banks m \<noteq> 0" using assms(3) by simp
  have "Mapper004_mapped_addr m a < 32768"
    using Mapper004_mapped_addr_bound [OF b, of a] assms(3) by simp
  moreover have "Mapper004_total_8kb_banks m \<noteq> 0"
    using assms(3) by (simp add: Mapper004_total_8kb_banks_def)
  moreover have "\<not> a \<le> 0x7FFF" "a \<le> 0xFFFF"
    using assms(1) unsigned_less [of a, where ?'a = nat] by (auto simp add: word_le_nat_alt)
  ultimately show ?thesis
    using assms(1,2)
    by (simp add: Bus_cpu_read_def Cartridge_cpu_read_def mmc3_cartridge_def env0_mapper
          Mapper004_ops_def Mapper004_cpu_read_def)
qed

lemma scanlines_prg_banks [simp]: "m4_prg_banks (scanlines n m) = m4_prg_banks m"
  by (induction n arbitrary: m) (simp_all add: Mapper004_scanline_def Let_def)

lemma armed_banks [simp]: "m4_prg_banks mmc3_armed = 2"
  by (simp add: mmc3_armed_eq Mapper004_new_def Mapper004_reset_def
        Mapper004_update_banks_def Let_def)

lemma mmc3_cartridge_mapper:
  "(mmc3_cartridge k)\<lparr>cart_mapper := Some k'\<rparr> = mmc3_cartridge k'"
  "cart_mapper (mmc3_cartridge k) = Some k"
  by (simp_all add: mmc3_cartridge_def)


text \<open>
  The IRQ is pending and I is clear, but the tick is a CPU slot and the instruction
  at \<^verbatim>\<open>PC\<close> is \<^verbatim>\<open>STA $E000\<close>: the write clears the mapper's flag before the check is
  reached, and \<^verbatim>\<open>CPU::irq\<close> is not called. Nothing is pushed and \<^verbatim>\<open>PC\<close> goes on to the
  next instruction, where the check alone would have entered the handler at \<^verbatim>\<open>$EAEA\<close>.
\<close>

theorem Bus_clock_irq_acknowledged:
  "(let s = irq_machine (scanlines 17 mmc3_armed); t = Bus_clock env0 s
    in Mapper004_irq_state (scanlines 17 mmc3_armed)
       \<and> bus_cartridge s = Some (mmc3_cartridge (scanlines 17 mmc3_armed))
       \<and> \<not> CPU_get_flag flag_I s
       \<and> cpu_PC (bus_cpu s) = 0x0000 \<and> cpu_SP (bus_cpu s) = 0xFD
       \<and> cpu_PC (bus_cpu t) = 0x0003 \<and> cpu_SP (bus_cpu t) = 0xFD
       \<and> cpu_P (bus_cpu t) = cpu_P (bus_cpu s)
       \<and> bus_ram t = bus_ram s
       \<and> bus_cartridge t = Some (mmc3_cartridge
            ((scanlines 17 mmc3_armed)\<lparr>m4_irq_enable := False, m4_irq_active := False\<rparr>))
       \<and> cpu_PC (bus_cpu (Bus_irq_check env0 s)) = 0xEAEA
       \<and> cpu_SP (bus_cpu (Bus_irq_check env0 s)) = 0xFA)"
proof -
  let ?k = "scanlines 17 mmc3_armed"
  let ?a = "(irq_machine ?k)\<lparr>bus_cartridge := Some (mmc3_cartridge (?k\<lparr>m4_irq_active := False\<rparr>))\<rparr>"
  have st: "Mapper004_irq_state ?k"
    by (simp add: scanlines_17_armed Mapper004_irq_state_def)
  have chk: "Bus_irq_check env0 (irq_machine ?k) = CPU_irq env0 ?a"
    using st Bus_irq_check_mmc3 [OF env0_mapper irq_machine_fields(1) mmc3_cartridge_mapper(2), of ?k]
    by (simp only: mmc3_cartridge_mapper if_True)
  have I: "\<not> CPU_get_flag flag_I ?a"
    using irq_machine_fields(7) [of ?k] by (simp add: CPU_get_flag_def)
  have v: "Bus_cpu_read env0 ?a 0xFFFE = (0xEA, ?a)" "Bus_cpu_read env0 ?a 0xFFFF = (0xEA, ?a)"
    by (simp_all add: mmc3_cartridge_read [where m = "?k\<lparr>m4_irq_active := False\<rparr>"])
  have irq: "cpu_PC (bus_cpu (CPU_irq env0 ?a)) = 0xEAEA"
      "cpu_SP (bus_cpu (CPU_irq env0 ?a)) = 0xFA"
    unfolding CPU_irq_ram [OF env0_ignores_stack I] v
    by (simp_all add: irq_machine_fields machine0_eq)
  have tick: "cpu_PC (bus_cpu (Bus_clock env0 (irq_machine ?k))) = 0x0003"
      "cpu_SP (bus_cpu (Bus_clock env0 (irq_machine ?k))) = 0xFD"
      "cpu_P (bus_cpu (Bus_clock env0 (irq_machine ?k))) = 0x20"
      "bus_ram (Bus_clock env0 (irq_machine ?k)) = bus_ram (irq_machine ?k)"
      "bus_cartridge (Bus_clock env0 (irq_machine ?k))
         = Some (mmc3_cartridge (?k\<lparr>m4_irq_enable := False, m4_irq_active := False\<rparr>))"
    unfolding irq_machine_tick by (simp_all add: irq_machine_fields machine0_eq)
  have s: "cpu_PC (bus_cpu (irq_machine ?k)) = 0x0000" "cpu_SP (bus_cpu (irq_machine ?k)) = 0xFD"
      "cpu_P (bus_cpu (irq_machine ?k)) = 0x20"
    by (simp_all add: irq_machine_fields machine0_eq)
  show ?thesis
    unfolding Let_def chk irq tick s
    using st irq_machine_fields(1,7) [of ?k] by simp
qed

end
